(* ===== verification/Prelude.thy ===== *)
theory Prelude
  imports Main "HOL-Library.List_Lexorder" "HOL-Library.Char_ord"
    "HOL-Library.Product_Lexorder" "HOL-Library.Multiset" "HOL-Library.Sublist"
begin

text \<open>
  Shared vocabulary of the development: the names of the model's key types, the
  Python semantics that the handlers rely on (truthiness of \<open>x or d\<close>,
  \<open>str.strip\<close>, \<open>str.lower\<close>, slicing) and the generic lemmas on lists that the
  component theories share.

  Text is a \<open>string\<close> (a list of \<open>char\<close>), one \<open>char\<close> per Python code point.
  The inputs the theorems speak about are ASCII; the one non-ASCII literal of the
  sources, the ellipsis U+2026 appended to generated post titles, is the single
  character \<open>CHR 0x85\<close> (its code in Windows-1252), so that it counts as one
  character as it does in Python.
\<close>

named_theorems db_simps "equations that evaluate the storage operations on concrete rows"

type_synonym user_id = nat
type_synonym post_id = nat
type_synonym comment_id = nat
type_synonym like_id = nat
type_synonym timestamp = nat
type_synonym filename = string

section \<open>Python semantics used by the handlers\<close>

text \<open>\<open>x or d\<close> on an integer column: \<open>0\<close> is falsy.\<close>

definition py_or_int :: "int \<Rightarrow> int \<Rightarrow> int" where
  "py_or_int x d = (if x = 0 then d else x)"

text \<open>\<open>s or d\<close> on a nullable string: \<open>None\<close> and \<open>''''\<close> are falsy.\<close>

definition py_or_str :: "string option \<Rightarrow> string \<Rightarrow> string" where
  "py_or_str s d = (case s of None \<Rightarrow> d | Some x \<Rightarrow> if x = [] then d else x)"

text \<open>\<open>x or None\<close> on a form field after \<open>strip_filter\<close>: the empty string becomes NULL.\<close>

definition py_or_none :: "string option \<Rightarrow> string option" where
  "py_or_none s = (case s of Some x \<Rightarrow> if x = [] then None else Some x | None \<Rightarrow> None)"

text \<open>
  The characters \<open>str.strip()\<close> removes, among the code points the model represents:
  the C0 whitespace \<open>\t \n \v \f \r\<close>, the separators \<open>0x1c\<close>--\<open>0x1f\<close>, space and
  no-break space.
\<close>

definition is_py_space :: "char \<Rightarrow> bool" where
  "is_py_space c \<longleftrightarrow> of_char c \<in> ({9, 10, 11, 12, 13, 28, 29, 30, 31, 32, 160} :: nat set)"

definition py_lstrip :: "string \<Rightarrow> string" where
  "py_lstrip s = dropWhile is_py_space s"

definition py_rstrip :: "string \<Rightarrow> string" where
  "py_rstrip s = rev (dropWhile is_py_space (rev s))"

definition py_strip :: "string \<Rightarrow> string" where
  "py_strip s = py_rstrip (py_lstrip s)"

text \<open>\<open>str.lower()\<close> on ASCII letters (SQLite's \<open>lower()\<close> is the same map).\<close>

definition py_lower_char :: "char \<Rightarrow> char" where
  "py_lower_char c =
     (if CHR ''A'' \<le> c \<and> c \<le> CHR ''Z'' then char_of (of_char c + (32::nat)) else c)"

definition py_lower :: "string \<Rightarrow> string" where
  "py_lower s = map py_lower_char s"

text \<open>\<open>s.replace(a, b)\<close> for single characters.\<close>

definition py_replace_char :: "char \<Rightarrow> char \<Rightarrow> string \<Rightarrow> string" where
  "py_replace_char a b s = map (\<lambda>c. if c = a then b else c) s"

text \<open>\<open>sep.join(words)\<close>.\<close>

fun py_join :: "string \<Rightarrow> string list \<Rightarrow> string" where
  "py_join sep [] = []"
| "py_join sep [w] = w"
| "py_join sep (w # ws) = w @ sep @ py_join sep ws"

section \<open>Fresh keys\<close>

text \<open>
  An \<open>INTEGER PRIMARY KEY\<close> column receives one more than the largest key in use
  (SQLite's rowid rule), starting at 1.
\<close>

definition fresh_id :: "nat list \<Rightarrow> nat" where
  "fresh_id ids = Suc (Max (insert 0 (set ids)))"

text \<open>Updating the rows of a table that satisfy a key test, leaving the rest.\<close>

definition update_where :: "('a \<Rightarrow> bool) \<Rightarrow> ('a \<Rightarrow> 'a) \<Rightarrow> 'a list \<Rightarrow> 'a list" where
  "update_where P f xs = map (\<lambda>x. if P x then f x else x) xs"

section \<open>Generic lemmas\<close>

lemma fresh_id_gt [intro]: "x \<in> set ids \<Longrightarrow> x < fresh_id ids"
  unfolding fresh_id_def by (simp add: le_imp_less_Suc)

lemma fresh_id_notin [simp]: "fresh_id ids \<notin> set ids"
  using fresh_id_gt by blast

lemma fresh_id_notin_image [simp]: "fresh_id (map f xs) \<notin> f ` set xs"
  using fresh_id_notin[of "map f xs"] by simp

lemma fresh_id_append_neq [simp]: "fresh_id (xs @ [y]) \<noteq> y"
  using fresh_id_notin[of "xs @ [y]"] by auto

lemma fresh_id_append_neq' [simp]: "y \<noteq> fresh_id (xs @ [y])"
  using fresh_id_append_neq by metis

lemma fresh_id_append_notin_image [simp]: "fresh_id (map f xs @ ys) \<notin> f ` set xs"
  using fresh_id_notin[of "map f xs @ ys"] by auto

lemma py_or_int_pos [simp]: "0 < x \<Longrightarrow> py_or_int x d = x"
  by (simp add: py_or_int_def)

lemma py_or_int_self [simp]: "py_or_int x 0 = x"
  by (simp add: py_or_int_def)

lemma py_or_int_zero [simp]: "py_or_int 0 d = d"
  by (simp add: py_or_int_def)

lemma py_lower_length [simp]: "length (py_lower s) = length s"
  by (simp add: py_lower_def)

lemma py_lower_append [simp]: "py_lower (xs @ ys) = py_lower xs @ py_lower ys"
  by (simp add: py_lower_def)

lemma dropWhile_suffix: "suffix (dropWhile P xs) xs"
  by (induction xs) (auto intro: suffix_ConsI)

lemma py_lstrip_suffix: "suffix (py_lstrip s) s"
  unfolding py_lstrip_def by (rule dropWhile_suffix)

lemma py_rstrip_prefix: "prefix (py_rstrip s) s"
  unfolding py_rstrip_def
  by (metis dropWhile_suffix suffix_to_prefix rev_rev_ident)

lemma py_strip_length: "length (py_strip s) \<le> length s"
  unfolding py_strip_def
  using prefix_length_le[OF py_rstrip_prefix] suffix_length_le[OF py_lstrip_suffix]
  by (meson le_trans)

lemma update_where_length [simp]: "length (update_where P f xs) = length xs"
  by (simp add: update_where_def)

lemma map_update_where [simp]:
  "(\<And>x. g (f x) = g x) \<Longrightarrow> map g (update_where P f xs) = map g xs"
  by (induction xs) (simp_all add: update_where_def)

lemma set_update_where:
  "y \<in> set (update_where P f xs) \<longleftrightarrow> (\<exists>x \<in> set xs. y = (if P x then f x else x))"
  by (auto simp: update_where_def)

lemma update_where_id [simp]: "\<not> list_ex P xs \<Longrightarrow> update_where P f xs = xs"
  by (induction xs) (simp_all add: update_where_def)

lemma filter_update_where:
  "(\<And>x. Q (f x) = Q x) \<Longrightarrow> length (filter Q (update_where P f xs)) = length (filter Q xs)"
  by (induction xs) (simp_all add: update_where_def)

lemma list_all_update_where:
  "list_all R (update_where P f xs) \<longleftrightarrow> list_all (\<lambda>x. R (if P x then f x else x)) xs"
  by (induction xs) (simp_all add: update_where_def)

text \<open>Deleting by a unique key removes exactly the one row that has it.\<close>

lemma filter_key_remove1:
  "distinct (map k xs) \<Longrightarrow> x \<in> set xs \<Longrightarrow> filter (\<lambda>y. k y \<noteq> k x) xs = remove1 x xs"
proof (induction xs)
  case Nil
  then show ?case by simp
next
  case (Cons y ys)
  show ?case
  proof (cases "y = x")
    case True
    with Cons.prems have "\<forall>z \<in> set ys. k z \<noteq> k x" by (auto simp: image_iff)
    with True show ?thesis by (simp add: filter_id_conv)
  next
    case False
    with Cons show ?thesis by auto
  qed
qed

lemma length_filter_pos: "x \<in> set xs \<Longrightarrow> P x \<Longrightarrow> 0 < length (filter P xs)"
  by (induction xs) auto

lemma length_filter_remove1:
  "x \<in> set xs \<Longrightarrow> length (filter P (remove1 x xs)) = length (filter P xs) - (if P x then 1 else 0)"
proof (induction xs)
  case (Cons y ys)
  then show ?case using length_filter_pos[of x ys P] by auto
qed simp

lemma distinct_map_remove1: "distinct (map f xs) \<Longrightarrow> distinct (map f (remove1 x xs))"
  by (induction xs) (auto dest: subsetD[OF set_remove1_subset])

lemma find_update_where:
  "(\<And>x. P x \<Longrightarrow> P (f x)) \<Longrightarrow> find P (update_where P f xs) = map_option f (find P xs)"
  by (induction xs) (simp_all add: update_where_def)

lemma distinct_map_remove1_key:
  "distinct (map k xs) \<Longrightarrow> x \<in> set xs \<Longrightarrow> k x \<notin> set (map k (remove1 x xs))"
  by (induction xs) (auto simp: image_iff dest: subsetD[OF set_remove1_subset])

lemma find_append:
  "find P (xs @ ys) = (case find P xs of None \<Rightarrow> find P ys | Some x \<Rightarrow> Some x)"
  by (induction xs) simp_all

lemma update_where_idem:
  "(\<And>x. P x \<Longrightarrow> P (f x)) \<Longrightarrow> (\<And>x. P x \<Longrightarrow> f (f x) = f x) \<Longrightarrow>
   update_where P f (update_where P f xs) = update_where P f xs"
  by (induction xs) (simp_all add: update_where_def)

lemma py_strip_Nil [simp]: "py_strip [] = []"
  by (simp add: py_strip_def py_lstrip_def py_rstrip_def)

lemma dropWhile_Nil_iff: "dropWhile P xs = [] \<longleftrightarrow> list_all P xs"
  by (simp add: dropWhile_eq_Nil_conv list_all_iff)

lemma list_all_dropWhile: "list_all P (dropWhile P xs) \<longleftrightarrow> dropWhile P xs = []"
proof (cases "dropWhile P xs")
  case (Cons a l)
  then have "\<not> P a" using hd_dropWhile[of P xs] by simp
  with Cons show ?thesis by simp
next
  case Nil
  then show ?thesis by (simp del: dropWhile_eq_Nil_conv)
qed

lemma py_strip_Nil_iff: "py_strip s = [] \<longleftrightarrow> list_all is_py_space s"
proof -
  have "py_strip s = [] \<longleftrightarrow> list_all is_py_space (rev (dropWhile is_py_space s))"
    by (simp add: py_strip_def py_rstrip_def py_lstrip_def dropWhile_Nil_iff list_all_iff)
  also have "\<dots> \<longleftrightarrow> dropWhile is_py_space s = []"
    by (simp add: list_all_dropWhile)
  finally show ?thesis by (simp add: dropWhile_Nil_iff list_all_iff)
qed

lemma py_strip_hd:
  assumes "py_strip s = s" and "s \<noteq> []"
  shows "\<not> is_py_space (hd s)"
proof
  assume sp: "is_py_space (hd s)"
  have "py_lstrip s = py_lstrip (tl s)"
    using assms(2) sp by (cases s) (simp_all add: py_lstrip_def)
  then have "length (py_strip s) \<le> length (tl s)"
    using py_strip_length[of "tl s"] by (simp add: py_strip_def)
  with assms show False by (cases s) simp_all
qed

lemma find_update_where_new:
  "\<not> list_ex Q xs \<Longrightarrow> distinct (map k xs) \<Longrightarrow> x \<in> set xs \<Longrightarrow> Q (f x) \<Longrightarrow>
   find Q (update_where (\<lambda>y. k y = k x) f xs) = Some (f x)"
  by (induction xs) (auto simp: update_where_def image_iff)

lemma find_fresh_id [simp]: "find (\<lambda>x. k x = fresh_id (map k xs)) xs = None"
  by (simp add: find_None_iff) (metis fresh_id_notin_image image_eqI)

lemma of_char_py_lower_char:
  "of_char (py_lower_char c) =
     (if CHR ''A'' \<le> c \<and> c \<le> CHR ''Z'' then of_char c + 32 else (of_char c :: nat))"
  by (auto simp: py_lower_char_def less_eq_char_def)

lemma py_lower_char_punct:
  assumes "\<not> (CHR ''A'' \<le> d \<and> d \<le> CHR ''Z'')" and "\<not> ((97::nat) \<le> of_char d \<and> (of_char d :: nat) \<le> 122)"
  shows "py_lower_char c = d \<longleftrightarrow> c = d"
proof -
  have "py_lower_char c = d \<longleftrightarrow> (of_char (py_lower_char c) :: nat) = of_char d"
    by (metis char_of_char)
  also have "\<dots> \<longleftrightarrow> (of_char c :: nat) = of_char d"
    using assms by (auto simp: of_char_py_lower_char less_eq_char_def)
  also have "\<dots> \<longleftrightarrow> c = d"
    by (metis char_of_char)
  finally show ?thesis .
qed

lemma py_lower_char_wild:
  "py_lower_char c = CHR ''%'' \<longleftrightarrow> c = CHR ''%''" "py_lower_char c = CHR ''_'' \<longleftrightarrow> c = CHR ''_''"
  by (simp_all add: py_lower_char_punct less_eq_char_def)

lemma find_key_Some:
  "distinct (map k xs) \<Longrightarrow> find (\<lambda>x. k x = i) xs = Some y \<longleftrightarrow> y \<in> set xs \<and> k y = i"
  by (induction xs) (auto simp: image_iff)

lemma length_filter_disj:
  "(\<And>x. x \<in> set xs \<Longrightarrow> \<not> (P x \<and> Q x)) \<Longrightarrow>
   length (filter (\<lambda>x. P x \<or> Q x) xs) = length (filter P xs) + length (filter Q xs)"
  by (induction xs) auto

lemma distinct_map_update_where:
  assumes k: "distinct (map k xs)" and f: "distinct (map f xs)" and x: "x \<in> set xs"
    and fresh: "\<forall>y\<in>set xs. k y \<noteq> k x \<longrightarrow> f y \<noteq> f (g x)"
  shows "distinct (map f (update_where (\<lambda>y. k y = k x) g xs))"
proof -
  obtain as bs where xs: "xs = as @ x # bs" using split_list[OF x] by blast
  have na: "\<forall>y\<in>set as. k y \<noteq> k x" and nb: "\<forall>y\<in>set bs. k y \<noteq> k x"
    using k by (auto simp: xs image_iff)
  then have "update_where (\<lambda>y. k y = k x) g xs = as @ g x # bs"
    by (simp add: xs update_where_def map_idI)
  moreover have "f (g x) \<notin> f ` set as" "f (g x) \<notin> f ` set bs"
    using fresh na nb by (auto simp: xs)
  ultimately show ?thesis using f by (simp add: xs)
qed

end
