(* ===== verification/Models.thy ===== *)
theory Models
  imports Prelude
begin

text \<open>
  The persistent data of \<open>src/Sky_Hub_Project/models.py\<close>: one record per table row
  (\<open>User\<close>, \<open>Post\<close>, \<open>Comment\<close>, \<open>Like\<close>), the database as four tables kept in
  insertion order, and the storage layer the handlers talk to through the SQLAlchemy
  session. A handler reads the committed state, stages a list of writes (the session's
  unit of work) and commits them: the writes are applied in order, a row key is assigned
  on insert, an UPDATE of a row that is gone raises \<open>StaleDataError\<close>, a DELETE of a
  row that is gone only warns, the ORM cascades of the relationships delete dependent
  rows, and the commit fails with \<open>IntegrityError\<close> when a \<open>UNIQUE\<close> or
  \<open>NOT NULL\<close> constraint of the schema is violated; on failure nothing is kept.
  Foreign keys are not enforced by SQLite unless enabled, so referential integrity is not
  a commit check here but an invariant the handlers must keep.
\<close>

section \<open>Password hashing (werkzeug.security, as called by models.py)\<close>

text \<open>
  An idealised salted hash: verification succeeds exactly for the password the hash was
  made from. Only this input-output behaviour of \<open>generate_password_hash\<close> and
  \<open>check_password_hash\<close> is used by the application.
\<close>

datatype pwhash = PwHash nat string

definition generate_password_hash :: "nat \<Rightarrow> string \<Rightarrow> pwhash" where
  "generate_password_hash salt pw = PwHash salt pw"

fun check_password_hash :: "pwhash \<Rightarrow> string \<Rightarrow> bool" where
  "check_password_hash (PwHash salt h) pw = (h = pw)"

section \<open>Rows\<close>

text \<open>
  Nullable columns are options. \<open>User\<close> has exactly the columns \<open>models.py\<close>
  declares; in particular no \<open>google_id\<close>, which \<open>oauth.py\<close> queries (see
  \<open>google_callback\<close>).
\<close>

record user =
  u_id :: user_id
  username :: string
  email :: string
  password_hash :: "pwhash option"
  track :: "string option"
  skills :: "string option"
  available_for_project :: bool
  github_link :: "string option"
  portfolio_link :: "string option"
  linkedin_link :: "string option"
  phone_number :: "string option"
  cv_file :: "string option"
  profile_image :: string

record post =
  p_id :: post_id
  title :: "string option"
  p_content :: "string option"
  image_file :: "string option"
  video_file :: "string option"
  p_date :: timestamp
  p_user_id :: user_id
  likes_count :: int

record comment =
  c_id :: comment_id
  c_content :: string
  c_date :: timestamp
  c_user_id :: user_id
  c_post_id :: post_id

record like_row =
  l_id :: like_id
  l_user_id :: user_id
  l_post_id :: post_id
  l_date :: timestamp

record db =
  users :: "user list"
  posts :: "post list"
  comments :: "comment list"
  likes :: "like_row list"

definition empty_db :: db where
  "empty_db = \<lparr>users = [], posts = [], comments = [], likes = []\<rparr>"

definition default_profile :: string where
  "default_profile = ''default_profile.png''"

section \<open>Methods of User\<close>

definition set_password :: "nat \<Rightarrow> string \<Rightarrow> user \<Rightarrow> user" where
  "set_password salt pw u = u\<lparr>password_hash := Some (generate_password_hash salt pw)\<rparr>"

text \<open>\<open>check_password_hash(None, pw)\<close> raises in werkzeug: \<open>None\<close> is that exception.\<close>

definition check_password :: "user \<Rightarrow> string \<Rightarrow> bool option" where
  "check_password u pw = map_option (\<lambda>h. check_password_hash h pw) (password_hash u)"

definition has_liked :: "db \<Rightarrow> user \<Rightarrow> post \<Rightarrow> bool" where
  "has_liked d u p =
     list_ex (\<lambda>l. l_post_id l = p_id p) (filter (\<lambda>l. l_user_id l = u_id u) (likes d))"

definition get_profile_image_url :: "user \<Rightarrow> string" where
  "get_profile_image_url u = (if profile_image u \<noteq> [] then profile_image u else default_profile)"

section \<open>Queries by key (\<open>filter_by(...).first()\<close>, \<open>session.get\<close>)\<close>

definition find_user :: "db \<Rightarrow> user_id \<Rightarrow> user option" where
  "find_user d i = find (\<lambda>u. u_id u = i) (users d)"

definition user_by_email :: "db \<Rightarrow> string \<Rightarrow> user option" where
  "user_by_email d e = find (\<lambda>u. email u = e) (users d)"

definition user_by_username :: "db \<Rightarrow> string \<Rightarrow> user option" where
  "user_by_username d n = find (\<lambda>u. username u = n) (users d)"


definition find_post :: "db \<Rightarrow> post_id \<Rightarrow> post option" where
  "find_post d i = find (\<lambda>p. p_id p = i) (posts d)"

definition find_comment :: "db \<Rightarrow> comment_id \<Rightarrow> comment option" where
  "find_comment d i = find (\<lambda>c. c_id c = i) (comments d)"

definition find_like :: "db \<Rightarrow> user_id \<Rightarrow> post_id \<Rightarrow> like_row option" where
  "find_like d u p = find (\<lambda>l. l_user_id l = u \<and> l_post_id l = p) (likes d)"

definition likes_of :: "db \<Rightarrow> post_id \<Rightarrow> like_row list" where
  "likes_of d i = filter (\<lambda>l. l_post_id l = i) (likes d)"

section \<open>The session's unit of work\<close>

text \<open>
  A staged write. An update carries the function that sets the changed columns to the
  values the handler computed when it read the row; the row key is never changed.
\<close>

datatype db_write =
    InsertUser user
  | UpdateUser user_id "user \<Rightarrow> user"
  | DeleteUser user_id
  | InsertPost post
  | UpdatePost post_id "post \<Rightarrow> post"
  | DeletePost post_id
  | InsertComment comment
  | UpdateComment comment_id "comment \<Rightarrow> comment"
  | DeleteComment comment_id
  | InsertLike like_row
  | DeleteLike like_id

datatype db_error = IntegrityError | StaleDataError

text \<open>
  \<open>Post.comments\<close> and \<open>Post.likes\<close> are \<open>cascade="all, delete-orphan"\<close>:
  deleting a post deletes its comments and likes.
\<close>

definition drop_post :: "post_id \<Rightarrow> db \<Rightarrow> db" where
  "drop_post i d = d\<lparr>posts := filter (\<lambda>p. p_id p \<noteq> i) (posts d),
                     comments := filter (\<lambda>c. c_post_id c \<noteq> i) (comments d),
                     likes := filter (\<lambda>l. l_post_id l \<noteq> i) (likes d)\<rparr>"

text \<open>
  \<open>User.posts\<close>, \<open>User.comments\<close> and \<open>User.likes\<close> cascade too: deleting a user
  deletes the user's posts (with the comments and likes on them) and the user's own
  comments and likes on other posts.
\<close>

definition drop_user :: "user_id \<Rightarrow> db \<Rightarrow> db" where
  "drop_user i d =
     (let owned = map p_id (filter (\<lambda>p. p_user_id p = i) (posts d)) in
      d\<lparr>users := filter (\<lambda>u. u_id u \<noteq> i) (users d),
        posts := filter (\<lambda>p. p_user_id p \<noteq> i) (posts d),
        comments := filter (\<lambda>c. c_user_id c \<noteq> i \<and> c_post_id c \<notin> set owned) (comments d),
        likes := filter (\<lambda>l. l_user_id l \<noteq> i \<and> l_post_id l \<notin> set owned) (likes d)\<rparr>)"

fun apply_write :: "db \<Rightarrow> db_write \<Rightarrow> db_error + db" where
  "apply_write d (InsertUser u) =
     Inr (d\<lparr>users := users d @ [u\<lparr>u_id := fresh_id (map u_id (users d))\<rparr>]\<rparr>)"
| "apply_write d (UpdateUser i f) =
     (if i \<in> set (map u_id (users d))
      then Inr (d\<lparr>users := update_where (\<lambda>u. u_id u = i) (\<lambda>u. (f u)\<lparr>u_id := u_id u\<rparr>) (users d)\<rparr>)
      else Inl StaleDataError)"
| "apply_write d (DeleteUser i) = Inr (drop_user i d)"
| "apply_write d (InsertPost p) =
     Inr (d\<lparr>posts := posts d @ [p\<lparr>p_id := fresh_id (map p_id (posts d))\<rparr>]\<rparr>)"
| "apply_write d (UpdatePost i f) =
     (if i \<in> set (map p_id (posts d))
      then Inr (d\<lparr>posts := update_where (\<lambda>p. p_id p = i) (\<lambda>p. (f p)\<lparr>p_id := p_id p\<rparr>) (posts d)\<rparr>)
      else Inl StaleDataError)"
| "apply_write d (DeletePost i) = Inr (drop_post i d)"
| "apply_write d (InsertComment c) =
     Inr (d\<lparr>comments := comments d @ [c\<lparr>c_id := fresh_id (map c_id (comments d))\<rparr>]\<rparr>)"
| "apply_write d (UpdateComment i f) =
     (if i \<in> set (map c_id (comments d))
      then Inr (d\<lparr>comments := update_where (\<lambda>c. c_id c = i) (\<lambda>c. (f c)\<lparr>c_id := c_id c\<rparr>) (comments d)\<rparr>)
      else Inl StaleDataError)"
| "apply_write d (DeleteComment i) = Inr (d\<lparr>comments := filter (\<lambda>c. c_id c \<noteq> i) (comments d)\<rparr>)"
| "apply_write d (InsertLike l) =
     Inr (d\<lparr>likes := likes d @ [l\<lparr>l_id := fresh_id (map l_id (likes d))\<rparr>]\<rparr>)"
| "apply_write d (DeleteLike i) = Inr (d\<lparr>likes := filter (\<lambda>l. l_id l \<noteq> i) (likes d)\<rparr>)"

fun flush :: "db \<Rightarrow> db_write list \<Rightarrow> db_error + db" where
  "flush d [] = Inr d"
| "flush d (w # ws) = (case apply_write d w of Inl e \<Rightarrow> Inl e | Inr d' \<Rightarrow> flush d' ws)"

text \<open>The schema's \<open>UNIQUE\<close> and \<open>NOT NULL\<close> constraints that a write can violate.\<close>

definition constraints_ok :: "db \<Rightarrow> bool" where
  "constraints_ok d \<longleftrightarrow>
     distinct (map u_id (users d)) \<and> distinct (map username (users d)) \<and>
     distinct (map email (users d)) \<and> list_all (\<lambda>u. password_hash u \<noteq> None) (users d) \<and>
     distinct (map p_id (posts d)) \<and> list_all (\<lambda>p. title p \<noteq> None) (posts d) \<and>
     distinct (map c_id (comments d)) \<and>
     distinct (map l_id (likes d)) \<and> distinct (map (\<lambda>l. (l_user_id l, l_post_id l)) (likes d))"

definition commit :: "db \<Rightarrow> db_write list \<Rightarrow> db_error + db" where
  "commit d ws =
     (case flush d ws of
        Inl e \<Rightarrow> Inl e
      | Inr d' \<Rightarrow> if constraints_ok d' then Inr d' else Inl IntegrityError)"

section \<open>Invariants of the stored data\<close>

text \<open>Every foreign key names an existing row.\<close>

definition refs_ok :: "db \<Rightarrow> bool" where
  "refs_ok d \<longleftrightarrow>
     list_all (\<lambda>p. p_user_id p \<in> set (map u_id (users d))) (posts d) \<and>
     list_all (\<lambda>c. c_user_id c \<in> set (map u_id (users d)) \<and>
                   c_post_id c \<in> set (map p_id (posts d))) (comments d) \<and>
     list_all (\<lambda>l. l_user_id l \<in> set (map u_id (users d)) \<and>
                   l_post_id l \<in> set (map p_id (posts d))) (likes d)"

text \<open>The denormalised counter of every post equals the number of its likes.\<close>

definition like_counts_ok :: "db \<Rightarrow> bool" where
  "like_counts_ok d \<longleftrightarrow>
     list_all (\<lambda>p. likes_count p = int (length (likes_of d (p_id p)))) (posts d)"

definition db_inv :: "db \<Rightarrow> bool" where
  "db_inv d \<longleftrightarrow> constraints_ok d \<and> refs_ok d \<and> like_counts_ok d"

section \<open>Lemmas on lookups and commits\<close>

lemma find_user_Some: "find_user d i = Some u \<Longrightarrow> u \<in> set (users d) \<and> u_id u = i"
  by (auto simp: find_user_def find_Some_iff)

lemma find_post_Some: "find_post d i = Some p \<Longrightarrow> p \<in> set (posts d) \<and> p_id p = i"
  by (auto simp: find_post_def find_Some_iff)

lemma find_post_None: "find_post d i = None \<longleftrightarrow> i \<notin> set (map p_id (posts d))"
  by (auto simp: find_post_def find_None_iff)

lemma find_comment_Some: "find_comment d i = Some c \<Longrightarrow> c \<in> set (comments d) \<and> c_id c = i"
  by (auto simp: find_comment_def find_Some_iff)

lemma find_like_Some:
  "find_like d u i = Some l \<Longrightarrow> l \<in> set (likes d) \<and> l_user_id l = u \<and> l_post_id l = i"
  by (auto simp: find_like_def find_Some_iff)

lemma find_like_None:
  "find_like d u i = None \<longleftrightarrow> (u, i) \<notin> set (map (\<lambda>l. (l_user_id l, l_post_id l)) (likes d))"
  by (auto simp: find_like_def find_None_iff)

lemma commit_Inr: "commit d ws = Inr d' \<longleftrightarrow> flush d ws = Inr d' \<and> constraints_ok d'"
  by (auto simp: commit_def split: sum.splits)

lemma commit_Inl_flush:
  "flush d ws = Inr d' \<Longrightarrow> \<not> constraints_ok d' \<Longrightarrow> commit d ws = Inl IntegrityError"
  by (simp add: commit_def)

lemma db_invD:
  assumes "db_inv d"
  shows "constraints_ok d" "refs_ok d" "like_counts_ok d"
  using assms by (simp_all add: db_inv_def)

text \<open>The counter of a stored post, read through the invariant.\<close>

lemma like_counts_okD:
  "like_counts_ok d \<Longrightarrow> p \<in> set (posts d) \<Longrightarrow> likes_count p = int (length (likes_of d (p_id p)))"
  by (simp add: like_counts_ok_def list_all_iff)

lemma like_counts_ok_update:
  assumes "like_counts_ok d" and "distinct (map p_id (posts d))"
    and "\<And>j. j \<noteq> i \<Longrightarrow> length (filter (\<lambda>l. l_post_id l = j) ls) = length (likes_of d j)"
    and "v = int (length (filter (\<lambda>l. l_post_id l = i) ls))"
  shows "like_counts_ok (d\<lparr>posts := update_where (\<lambda>q. p_id q = i) (\<lambda>q. q\<lparr>likes_count := v\<rparr>) (posts d),
                           likes := ls\<rparr>)"
proof -
  have "list_all (\<lambda>q. likes_count q = int (length (filter (\<lambda>l. l_post_id l = p_id q) ls)))
          (update_where (\<lambda>q. p_id q = i) (\<lambda>q. q\<lparr>likes_count := v\<rparr>) (posts d))"
    using assms(1,3,4) by (auto simp: like_counts_ok_def likes_of_def list_all_iff set_update_where)
  then show ?thesis by (simp add: like_counts_ok_def likes_of_def)
qed

lemma refs_ok_likes_posts:
  assumes "refs_ok d"
    and "map (\<lambda>p. (p_id p, p_user_id p)) ps = map (\<lambda>p. (p_id p, p_user_id p)) (posts d)"
    and "\<And>l. l \<in> set ls \<Longrightarrow> l \<in> set (likes d) \<or>
            (l_user_id l \<in> set (map u_id (users d)) \<and> l_post_id l \<in> set (map p_id (posts d)))"
  shows "refs_ok (d\<lparr>posts := ps, likes := ls\<rparr>)"
proof -
  have ids: "set (map p_id ps) = set (map p_id (posts d))"
    using arg_cong[OF assms(2), of "map fst"] by (simp add: comp_def)
  have uids: "set (map p_user_id ps) = set (map p_user_id (posts d))"
    using arg_cong[OF assms(2), of "map snd"] by (simp add: comp_def)
  have owners: "\<forall>x \<in> set (map p_user_id (posts d)). x \<in> set (map u_id (users d))"
    using assms(1) by (auto simp: refs_ok_def list_all_iff)
  have "list_all (\<lambda>p. p_user_id p \<in> set (map u_id (users d))) ps"
    unfolding list_all_iff
  proof
    fix p assume "p \<in> set ps"
    then have "p_user_id p \<in> set (map p_user_id (posts d))"
      using uids by (metis image_eqI set_map)
    with owners show "p_user_id p \<in> set (map u_id (users d))" by blast
  qed
  moreover have "list_all (\<lambda>c. c_user_id c \<in> set (map u_id (users d)) \<and>
                   c_post_id c \<in> set (map p_id ps)) (comments d)"
    using assms(1) ids by (simp add: refs_ok_def)
  moreover have "list_all (\<lambda>l. l_user_id l \<in> set (map u_id (users d)) \<and>
                   l_post_id l \<in> set (map p_id ps)) ls"
    using assms(1,3) ids unfolding refs_ok_def list_all_iff by blast
  ultimately show ?thesis by (simp add: refs_ok_def)
qed

lemma find_like_remove1:
  assumes "constraints_ok d" and "find_like d u i = Some ex"
  shows "find_like (d\<lparr>likes := remove1 ex (likes d)\<rparr>) u i = None"
proof -
  have dist: "distinct (map (\<lambda>l. (l_user_id l, l_post_id l)) (likes d))"
    using assms(1) by (simp add: constraints_ok_def)
  have ex: "ex \<in> set (likes d)" "l_user_id ex = u" "l_post_id ex = i"
    using find_like_Some[OF assms(2)] by simp_all
  have "(u, i) \<notin> set (map (\<lambda>l. (l_user_id l, l_post_id l)) (remove1 ex (likes d)))"
    using distinct_map_remove1_key[OF dist ex(1)] ex(2,3) by simp
  then show ?thesis by (simp add: find_like_None)
qed

lemma find_like_append_new:
  "find_like d u i = None \<Longrightarrow> likes d' = likes d @ [l] \<Longrightarrow> l_user_id l = u \<Longrightarrow> l_post_id l = i \<Longrightarrow>
   find_like d' u i = Some l"
  by (simp add: find_like_def find_append)

lemma find_post_update_count:
  "posts d' = update_where (\<lambda>q. p_id q = i) (\<lambda>q. q\<lparr>likes_count := v\<rparr>) (posts d) \<Longrightarrow>
   find_post d' i = map_option (\<lambda>q. q\<lparr>likes_count := v\<rparr>) (find_post d i)"
  by (simp add: find_post_def find_update_where)

section \<open>Each kind of write keeps the invariant\<close>

lemma commit_single:
  "commit d [w] = Inr d' \<longleftrightarrow> apply_write d w = Inr d' \<and> constraints_ok d'"
  by (auto simp: commit_Inr split: sum.splits)

lemma likes_of_same:
  "likes d' = likes d \<Longrightarrow> likes_of d' = likes_of d"
  by (simp add: likes_of_def fun_eq_iff)

lemma db_inv_insert_post:
  assumes "db_inv d" and "p_user_id p \<in> set (map u_id (users d))" and "likes_count p = 0"
    and "commit d [InsertPost p] = Inr d'"
  shows "db_inv d'"
proof -
  have c: "refs_ok d" "like_counts_ok d" using assms(1) by (simp_all add: db_inv_def)
  let ?k = "fresh_id (map p_id (posts d))"
  have d': "d' = d\<lparr>posts := posts d @ [p\<lparr>p_id := ?k\<rparr>]\<rparr>" and co: "constraints_ok d'"
    using assms(4) by (simp_all add: commit_single)
  have "l_post_id l \<noteq> ?k" if "l \<in> set (likes d)" for l
  proof
    assume "l_post_id l = ?k"
    moreover have "l_post_id l \<in> set (map p_id (posts d))"
      using c(1) that by (simp add: refs_ok_def list_all_iff)
    ultimately show False using fresh_id_notin[of "map p_id (posts d)"] by simp
  qed
  then have "likes_of d ?k = []"
    by (auto simp: likes_of_def filter_empty_conv)
  then have "like_counts_ok d'"
    using c(2) assms(3) by (simp add: d' like_counts_ok_def likes_of_def)
  moreover have "refs_ok d'"
    using c(1) assms(2) by (auto simp: d' refs_ok_def list_all_iff)
  ultimately show ?thesis using co by (simp add: db_inv_def)
qed

lemma refs_ok_posts:
  assumes "refs_ok d"
    and "map (\<lambda>p. (p_id p, p_user_id p)) ps = map (\<lambda>p. (p_id p, p_user_id p)) (posts d)"
  shows "refs_ok (d\<lparr>posts := ps\<rparr>)"
  using refs_ok_likes_posts[OF assms, of "likes d"] by simp

lemma db_inv_update_post:
  assumes "db_inv d" and "\<And>q. p_user_id (f q) = p_user_id q" and "\<And>q. likes_count (f q) = likes_count q"
    and "commit d [UpdatePost i f] = Inr d'"
  shows "db_inv d'"
proof -
  have c: "refs_ok d" "like_counts_ok d" using assms(1) by (simp_all add: db_inv_def)
  have d': "d' = d\<lparr>posts := update_where (\<lambda>p. p_id p = i) (\<lambda>p. (f p)\<lparr>p_id := p_id p\<rparr>) (posts d)\<rparr>"
    and co: "constraints_ok d'"
    using assms(4) by (auto simp: commit_single split: if_splits)
  have "like_counts_ok d'"
    using c(2) assms(3) by (auto simp: d' like_counts_ok_def likes_of_def list_all_iff set_update_where)
  moreover have "refs_ok d'"
    using c(1) assms(2)
    unfolding d' by (intro refs_ok_posts) simp_all
  ultimately show ?thesis using co by (simp add: db_inv_def)
qed

lemma db_inv_delete_post:
  assumes "db_inv d" and "commit d [DeletePost i] = Inr d'"
  shows "db_inv d'"
proof -
  have c: "refs_ok d" "like_counts_ok d" using assms(1) by (simp_all add: db_inv_def)
  have d': "d' = drop_post i d" and co: "constraints_ok d'"
    using assms(2) by (simp_all add: commit_single)
  have keep: "filter (\<lambda>l. l_post_id l \<noteq> i \<and> l_post_id l = j) ls = filter (\<lambda>l. l_post_id l = j) ls"
    if "j \<noteq> i" for j and ls :: "like_row list"
    using that by (auto intro: filter_cong)
  have "like_counts_ok d'"
    using c(2) by (auto simp: d' drop_post_def like_counts_ok_def likes_of_def list_all_iff keep)
  moreover have "refs_ok d'"
    using c(1) by (auto simp: d' drop_post_def refs_ok_def list_all_iff)
  ultimately show ?thesis using co by (simp add: db_inv_def)
qed

lemma db_inv_insert_comment:
  assumes "db_inv d" and "c_user_id c \<in> set (map u_id (users d))"
    and "c_post_id c \<in> set (map p_id (posts d))"
    and "commit d [InsertComment c] = Inr d'"
  shows "db_inv d'"
proof -
  have c: "refs_ok d" "like_counts_ok d" using assms(1) by (simp_all add: db_inv_def)
  have d': "d' = d\<lparr>comments := comments d @ [c\<lparr>c_id := fresh_id (map c_id (comments d))\<rparr>]\<rparr>"
    and co: "constraints_ok d'"
    using assms(4) by (simp_all add: commit_single)
  have "like_counts_ok d'"
    using c(2) by (simp add: d' like_counts_ok_def likes_of_def)
  moreover have "refs_ok d'"
    using c(1) assms(2,3) by (simp add: d' refs_ok_def)
  ultimately show ?thesis using co by (simp add: db_inv_def)
qed

lemma db_inv_update_comment:
  assumes "db_inv d" and "\<And>x. c_user_id (f x) = c_user_id x" and "\<And>x. c_post_id (f x) = c_post_id x"
    and "commit d [UpdateComment i f] = Inr d'"
  shows "db_inv d'"
proof -
  have c: "refs_ok d" "like_counts_ok d" using assms(1) by (simp_all add: db_inv_def)
  have d': "d' = d\<lparr>comments := update_where (\<lambda>c. c_id c = i) (\<lambda>c. (f c)\<lparr>c_id := c_id c\<rparr>) (comments d)\<rparr>"
    and co: "constraints_ok d'"
    using assms(4) by (auto simp: commit_single split: if_splits)
  have "like_counts_ok d'"
    using c(2) by (simp add: d' like_counts_ok_def likes_of_def)
  moreover have "refs_ok d'"
    using c(1) assms(2,3) by (auto simp: d' refs_ok_def list_all_iff set_update_where)
  ultimately show ?thesis using co by (simp add: db_inv_def)
qed

lemma db_inv_delete_comment:
  assumes "db_inv d" and "commit d [DeleteComment i] = Inr d'"
  shows "db_inv d'"
proof -
  have c: "refs_ok d" "like_counts_ok d" using assms(1) by (simp_all add: db_inv_def)
  have d': "d' = d\<lparr>comments := filter (\<lambda>c. c_id c \<noteq> i) (comments d)\<rparr>" and co: "constraints_ok d'"
    using assms(2) by (simp_all add: commit_single)
  have "like_counts_ok d'"
    using c(2) by (simp add: d' like_counts_ok_def likes_of_def)
  moreover have "refs_ok d'"
    using c(1) by (auto simp: d' refs_ok_def list_all_iff)
  ultimately show ?thesis using co by (simp add: db_inv_def)
qed

lemma db_inv_insert_user:
  assumes "db_inv d" and "commit d [InsertUser u] = Inr d'"
  shows "db_inv d'"
proof -
  have c: "refs_ok d" "like_counts_ok d" using assms(1) by (simp_all add: db_inv_def)
  have d': "d' = d\<lparr>users := users d @ [u\<lparr>u_id := fresh_id (map u_id (users d))\<rparr>]\<rparr>"
    and co: "constraints_ok d'"
    using assms(2) by (simp_all add: commit_single)
  have "like_counts_ok d'"
    using c(2) by (simp add: d' like_counts_ok_def likes_of_def)
  moreover have "refs_ok d'"
    using c(1) by (auto simp: d' refs_ok_def list_all_iff)
  ultimately show ?thesis using co by (simp add: db_inv_def)
qed

lemma db_inv_update_user:
  assumes "db_inv d" and "commit d [UpdateUser i f] = Inr d'"
  shows "db_inv d'"
proof -
  have c: "refs_ok d" "like_counts_ok d" using assms(1) by (simp_all add: db_inv_def)
  have d': "d' = d\<lparr>users := update_where (\<lambda>u. u_id u = i) (\<lambda>u. (f u)\<lparr>u_id := u_id u\<rparr>) (users d)\<rparr>"
    and co: "constraints_ok d'"
    using assms(2) by (auto simp: commit_single split: if_splits)
  have ids: "map u_id (users d') = map u_id (users d)"
    by (simp add: d')
  have "like_counts_ok d'"
    using c(2) by (simp add: d' like_counts_ok_def likes_of_def)
  moreover have "refs_ok d'"
    using c(1) ids unfolding refs_ok_def by (simp add: d')
  ultimately show ?thesis using co by (simp add: db_inv_def)
qed

lemma constraints_ok_drop_post: "constraints_ok d \<Longrightarrow> constraints_ok (drop_post i d)"
  by (simp add: constraints_ok_def drop_post_def distinct_map_filter list_all_iff)

lemma user_by_username_None: "user_by_username d n = None \<longleftrightarrow> n \<notin> set (map username (users d))"
  by (auto simp: user_by_username_def find_None_iff)

lemma user_by_email_None: "user_by_email d e = None \<longleftrightarrow> e \<notin> set (map email (users d))"
  by (auto simp: user_by_email_def find_None_iff)

lemma user_by_email_Some: "user_by_email d e = Some u \<Longrightarrow> u \<in> set (users d) \<and> email u = e"
  by (auto simp: user_by_email_def find_Some_iff)


lemma user_id_upd_same: "u_id r = i \<Longrightarrow> r\<lparr>u_id := i\<rparr> = r"
  by auto

lemma apply_update_user:
  assumes "\<And>x. u_id (g x) = u_id x" and "i \<in> u_id ` set (users d)"
  shows "apply_write d (UpdateUser i g) = Inr (d\<lparr>users := update_where (\<lambda>x. u_id x = i) g (users d)\<rparr>)"
proof -
  have "(\<lambda>x. (g x)\<lparr>u_id := u_id x\<rparr>) = g" using assms(1) by (simp add: fun_eq_iff user_id_upd_same)
  then show ?thesis using assms(2) by simp
qed

end
