(* ===== verification/Session.thy ===== *)
theory Session
  imports Models
begin

text \<open>
  The request context of \<open>src/Sky_Hub_Project/app.py\<close>: the state a request sees and
  changes (the committed database, the signed session cookie with flask-login's user id,
  the OAuth nonce and the flashed messages, and the upload folders on disk), the
  responses a route returns, \<open>load_user\<close> and the \<open>@login_required\<close> guard.
\<close>

text \<open>Where a redirect goes (\<open>url_for\<close> of an endpoint, or a raw URL).\<close>

datatype page =
    Landing | Home | LoginPage | RegisterPage | Network | EditProfilePage
  | ProfilePage user_id | PostDetail post_id | NextUrl string | GoogleConsent string

text \<open>What a rendered template shows: the data the route passes to it.\<close>

datatype view =
    Template string
  | PostView post "comment list" bool
  | FeedView "post list"
  | NetworkView "user list" nat
  | ProfileView user "post list" int

datatype response = Redirect page | Render view | Abort nat

record app_state =
  store :: db
  session_user :: "user_id option"
  oauth_nonce :: "string option"
  flashes :: "(string \<times> string) list"
  disk :: "filename \<Rightarrow> string option"

definition init_state :: app_state where
  "init_state = \<lparr>store = empty_db, session_user = None, oauth_nonce = None,
                 flashes = [], disk = Map.empty\<rparr>"

text \<open>\<open>flash(message, category)\<close>: messages are kept as (category, message).\<close>

definition flash :: "string \<Rightarrow> string \<Rightarrow> app_state \<Rightarrow> app_state" where
  "flash cat msg s = s\<lparr>flashes := flashes s @ [(cat, msg)]\<rparr>"

text \<open>
  \<open>load_user\<close>: flask-login resolves the id stored in the session with
  \<open>db.session.get(User, int(user_id))\<close>; a user that no longer exists is anonymous.
\<close>

definition load_user :: "app_state \<Rightarrow> user option" where
  "load_user s = (case session_user s of None \<Rightarrow> None | Some i \<Rightarrow> find_user (store s) i)"

text \<open>
  \<open>@login_required\<close>: an anonymous request is redirected to the login view
  (\<open>login_manager.login_view = "login"\<close>) with the login message flashed;
  otherwise the view runs with \<open>current_user\<close>.
\<close>

definition login_required ::
  "(user \<Rightarrow> response \<times> app_state) \<Rightarrow> app_state \<Rightarrow> response \<times> app_state" where
  "login_required view s =
     (case load_user s of
        None \<Rightarrow> (Redirect LoginPage, flash ''info'' ''Please log in to access CS Community.'' s)
      | Some u \<Rightarrow> view u)"

text \<open>\<open>login_user(user)\<close> and \<open>logout_user()\<close>.\<close>

definition login_user :: "user \<Rightarrow> app_state \<Rightarrow> app_state" where
  "login_user u s = s\<lparr>session_user := Some (u_id u)\<rparr>"

definition logout_user :: "app_state \<Rightarrow> app_state" where
  "logout_user s = s\<lparr>session_user := None\<rparr>"

text \<open>\<open>/logout\<close> (app.py 186--191).\<close>

definition logout :: "app_state \<Rightarrow> response \<times> app_state" where
  "logout s = login_required (\<lambda>u.
     (Redirect LoginPage, flash ''info'' ''You have signed out of CS Community.'' (logout_user s))) s"

text \<open>\<open>/clear_session\<close> (app.py 505--511): \<open>session.clear()\<close> drops every key.\<close>

definition clear_session :: "app_state \<Rightarrow> response \<times> app_state" where
  "clear_session s =
     (Redirect LoginPage,
      flash ''info'' ''Session cleared.'' (s\<lparr>session_user := None, oauth_nonce := None, flashes := []\<rparr>))"

lemma load_user_in_store:
  "load_user s = Some u \<Longrightarrow> u \<in> set (users (store s))"
  by (auto simp: load_user_def find_user_def split: option.splits dest: find_Some_iff[THEN iffD1])

lemma login_required_anon [simp]:
  "load_user s = None \<Longrightarrow>
   login_required v s = (Redirect LoginPage, flash ''info'' ''Please log in to access CS Community.'' s)"
  by (simp add: login_required_def)

lemma login_required_user [simp]:
  "load_user s = Some u \<Longrightarrow> login_required v s = v u"
  by (simp add: login_required_def)

lemma flash_store [simp]: "store (flash c m s) = store s"
  by (simp add: flash_def)

lemma flash_session_user [simp]: "session_user (flash c m s) = session_user s"
  by (simp add: flash_def)

lemma load_user_find:
  "load_user s = Some u \<Longrightarrow> find_user (store s) (u_id u) = Some u"
  by (auto simp: load_user_def find_user_def find_Some_iff split: option.splits)

lemma login_required_store:
  "(\<And>u. load_user s = Some u \<Longrightarrow> Q (store (snd (v u)))) \<Longrightarrow> Q (store s) \<Longrightarrow>
   Q (store (snd (login_required v s)))"
  by (simp add: login_required_def split: option.splits)

end
