(* ===== verification/Forms.thy ===== *)
theory Forms
  imports Prelude
begin

text \<open>
  The forms of \<open>src/Sky_Hub_Project/forms.py\<close> and the WTForms validators they use.
  A submitted text field is its raw string; \<open>strip_filter\<close> turns it into the field's
  data. Each form is a record of its submitted fields and \<open>*_form_ok\<close> is
  \<open>form.validate()\<close>: every validator of every field, in the order they are listed.
  The e-mail and URL syntax checks of WTForms (\<open>Email()\<close>, \<open>URL()\<close>) are library
  predicates and enter as the parameters \<open>is_email\<close> and \<open>is_url\<close>. The CSRF token
  check of \<open>validate_on_submit\<close> is the field \<open>csrf_ok\<close>.
\<close>

section \<open>Fields and validators\<close>

text \<open>\<open>strip_filter(x)\<close>: \<open>x.strip() if x else None\<close>.\<close>

definition strip_filter :: "string \<Rightarrow> string option" where
  "strip_filter x = (if x = [] then None else Some (py_strip x))"

text \<open>\<open>DataRequired()\<close>: the data is truthy and, for a string, not only whitespace.\<close>

definition data_required :: "string option \<Rightarrow> bool" where
  "data_required d = (case d of None \<Rightarrow> False | Some x \<Rightarrow> py_strip x \<noteq> [])"

text \<open>
  \<open>Length(min, max)\<close>: \<open>length = field.data and len(field.data) or 0\<close>, rejected when
  \<open>length < min\<close> or, for \<open>max \<noteq> -1\<close>, \<open>length > max\<close>.
\<close>

definition length_ok :: "nat \<Rightarrow> int \<Rightarrow> string option \<Rightarrow> bool" where
  "length_ok mn mx d =
     (let n = (case d of None \<Rightarrow> 0 | Some x \<Rightarrow> length x)
      in mn \<le> n \<and> (mx = -1 \<or> int n \<le> mx))"

text \<open>
  \<open>Optional()\<close> ends the chain, field valid, when the raw input is empty or only
  whitespace; otherwise the remaining validators run.
\<close>

definition optional_then :: "string \<Rightarrow> bool \<Rightarrow> bool" where
  "optional_then raw rest = (py_strip raw = [] \<or> rest)"

text \<open>An uploaded file part: the client's file name and the bytes.\<close>

record upload =
  up_filename :: string
  up_content :: string

text \<open>
  \<open>FileAllowed(exts)\<close> of Flask-WTF: an empty file part passes; otherwise the
  lower-cased file name must end in \<open>"." + ext\<close> for one of the extensions.
  \<open>Optional()\<close> on a file field never stops the chain (the raw data is not a string).
\<close>

definition file_allowed :: "string list \<Rightarrow> upload option \<Rightarrow> bool" where
  "file_allowed exts f =
     (case f of
        None \<Rightarrow> True
      | Some u \<Rightarrow> up_filename u = [] \<or> list_ex (\<lambda>x. suffix (CHR ''.'' # x) (py_lower (up_filename u))) exts)"

text \<open>
  \<open>form.image.data and form.image.data.filename\<close>: a file was chosen. The model of
  an upload field is \<open>None\<close> when the part is absent.
\<close>

definition has_file :: "upload option \<Rightarrow> bool" where
  "has_file f = (case f of None \<Rightarrow> False | Some u \<Rightarrow> up_filename u \<noteq> [])"

section \<open>PostForm, CommentForm\<close>

record post_form =
  pf_title :: string
  pf_content :: string
  pf_image :: "upload option"
  pf_video :: "upload option"
  pf_csrf :: bool

definition post_form_ok :: "post_form \<Rightarrow> bool" where
  "post_form_ok f \<longleftrightarrow>
     pf_csrf f \<and>
     optional_then (pf_title f) (length_ok 0 200 (strip_filter (pf_title f))) \<and>
     data_required (strip_filter (pf_content f)) \<and> length_ok 1 (-1) (strip_filter (pf_content f)) \<and>
     file_allowed [''jpg'', ''jpeg'', ''png'', ''gif''] (pf_image f) \<and>
     file_allowed [''mp4'', ''webm'', ''ogg''] (pf_video f)"

record comment_form =
  cf_content :: string
  cf_csrf :: bool

definition comment_form_ok :: "comment_form \<Rightarrow> bool" where
  "comment_form_ok f \<longleftrightarrow>
     cf_csrf f \<and>
     data_required (strip_filter (cf_content f)) \<and> length_ok 1 2000 (strip_filter (cf_content f))"

section \<open>RegistrationForm, LoginForm, EditProfileForm\<close>

definition track_choices :: "string list" where
  "track_choices = [''Web Development'', ''Mobile App'', ''Data Science'', ''AI & Machine Learning'',
                    ''Cybersecurity'', ''Game Development'', ''Embedded Systems'', ''Other'']"

record registration_form =
  rf_username :: string
  rf_email :: string
  rf_track :: string
  rf_skills :: string
  rf_available :: bool
  rf_password :: string
  rf_confirm :: string
  rf_profile_image :: "upload option"
  rf_cv_file :: "upload option"
  rf_csrf :: bool

text \<open>
  The track is a \<open>SelectField\<close>: its value must be one of the choices (the empty choice
  \<open>""\<close> of the registration form then fails \<open>DataRequired\<close>).
\<close>

definition registration_form_ok :: "(string \<Rightarrow> bool) \<Rightarrow> registration_form \<Rightarrow> bool" where
  "registration_form_ok is_email f \<longleftrightarrow>
     rf_csrf f \<and>
     data_required (strip_filter (rf_username f)) \<and> length_ok 3 50 (strip_filter (rf_username f)) \<and>
     data_required (strip_filter (rf_email f)) \<and>
     is_email (the (strip_filter (rf_email f))) \<and> length_ok 0 120 (strip_filter (rf_email f)) \<and>
     rf_track f \<in> set ('''' # track_choices) \<and> data_required (Some (rf_track f)) \<and>
     data_required (strip_filter (rf_skills f)) \<and> length_ok 0 200 (strip_filter (rf_skills f)) \<and>
     data_required (Some (rf_password f)) \<and> length_ok 6 (-1) (Some (rf_password f)) \<and>
     data_required (Some (rf_confirm f)) \<and> rf_confirm f = rf_password f \<and>
     file_allowed [''jpg'', ''jpeg'', ''png''] (rf_profile_image f) \<and>
     file_allowed [''pdf''] (rf_cv_file f)"

record login_form =
  lf_email :: string
  lf_password :: string
  lf_csrf :: bool

definition login_form_ok :: "(string \<Rightarrow> bool) \<Rightarrow> login_form \<Rightarrow> bool" where
  "login_form_ok is_email f \<longleftrightarrow>
     lf_csrf f \<and>
     data_required (strip_filter (lf_email f)) \<and>
     is_email (the (strip_filter (lf_email f))) \<and> length_ok 0 120 (strip_filter (lf_email f)) \<and>
     data_required (Some (lf_password f))"

record profile_form =
  ef_username :: string
  ef_email :: string
  ef_track :: string
  ef_skills :: string
  ef_available :: bool
  ef_github :: string
  ef_portfolio :: string
  ef_linkedin :: string
  ef_phone :: string
  ef_profile_image :: "upload option"
  ef_cv_file :: "upload option"
  ef_csrf :: bool

definition profile_form_ok :: "(string \<Rightarrow> bool) \<Rightarrow> (string \<Rightarrow> bool) \<Rightarrow> profile_form \<Rightarrow> bool" where
  "profile_form_ok is_email is_url f \<longleftrightarrow>
     ef_csrf f \<and>
     data_required (strip_filter (ef_username f)) \<and> length_ok 3 50 (strip_filter (ef_username f)) \<and>
     data_required (strip_filter (ef_email f)) \<and>
     is_email (the (strip_filter (ef_email f))) \<and> length_ok 0 120 (strip_filter (ef_email f)) \<and>
     ef_track f \<in> set track_choices \<and> data_required (Some (ef_track f)) \<and>
     data_required (strip_filter (ef_skills f)) \<and> length_ok 0 200 (strip_filter (ef_skills f)) \<and>
     optional_then (ef_github f) (is_url (the (strip_filter (ef_github f)))) \<and>
     optional_then (ef_portfolio f) (is_url (the (strip_filter (ef_portfolio f)))) \<and>
     optional_then (ef_linkedin f) (is_url (the (strip_filter (ef_linkedin f)))) \<and>
     optional_then (ef_phone f) (length_ok 7 20 (strip_filter (ef_phone f))) \<and>
     file_allowed [''jpg'', ''jpeg'', ''png''] (ef_profile_image f) \<and>
     file_allowed [''pdf''] (ef_cv_file f)"

end
