(* ===== verification/Fixtures.thy ===== *)
theory Fixtures
  imports Session Forms
begin

text \<open>
  Concrete data for the witnesses of the component theorems: two members, Alice and Bob,
  a post by Alice with no likes, and request states signed in as either member. The
  witnesses evaluate the model on these rows by \<open>simp\<close>.
\<close>

definition alice :: user where
  "alice = \<lparr>u_id = 1, username = ''alice'', email = ''alice@uni.edu'',
            password_hash = Some (generate_password_hash 7 ''secret1''),
            track = Some ''Web Development'', skills = Some ''Python, React'',
            available_for_project = True, github_link = None, portfolio_link = None,
            linkedin_link = None, phone_number = None, cv_file = None,
            profile_image = ''default_profile.png''\<rparr>"

definition bob :: user where
  "bob = \<lparr>u_id = 2, username = ''bob'', email = ''bob@uni.edu'',
          password_hash = Some (generate_password_hash 9 ''hunter22''),
          track = Some ''Data Science'', skills = Some ''SQL, Pandas'',
          available_for_project = False, github_link = None, portfolio_link = None,
          linkedin_link = None, phone_number = None, cv_file = None,
          profile_image = ''default_profile.png''\<rparr>"

definition hello_post :: post where
  "hello_post = \<lparr>p_id = 1, title = Some ''Hello'', p_content = Some ''Hello, world'',
                 image_file = None, video_file = None, p_date = 100, p_user_id = 1,
                 likes_count = 0\<rparr>"

definition demo_db :: db where
  "demo_db = \<lparr>users = [alice, bob], posts = [hello_post], comments = [], likes = []\<rparr>"

definition signed_in :: "user_id \<Rightarrow> app_state" where
  "signed_in i = \<lparr>store = demo_db, session_user = Some i, oauth_nonce = None,
                  flashes = [], disk = Map.empty\<rparr>"

text \<open>A comment by Alice under her post, and Bob signed in on that database.\<close>

definition alice_comment :: comment where
  "alice_comment = \<lparr>c_id = 1, c_content = ''First!'', c_date = 150, c_user_id = 1, c_post_id = 1\<rparr>"

definition bob_on_comment :: app_state where
  "bob_on_comment = \<lparr>store = demo_db\<lparr>comments := [alice_comment]\<rparr>, session_user = Some 2,
                      oauth_nonce = None, flashes = [], disk = Map.empty\<rparr>"

text \<open>Submitted forms: a post without title, a titled post, a comment and a blank comment.\<close>

definition hello_form :: post_form where
  "hello_form = \<lparr>pf_title = [], pf_content = ''Hello again'', pf_image = None, pf_video = None,
                  pf_csrf = True\<rparr>"

definition titled_form :: post_form where
  "titled_form = \<lparr>pf_title = ''News'', pf_content = ''Hello again'', pf_image = None, pf_video = None,
                  pf_csrf = True\<rparr>"

definition hi_comment :: comment_form where
  "hi_comment = \<lparr>cf_content = ''Nice post'', cf_csrf = True\<rparr>"

definition blank_comment :: comment_form where
  "blank_comment = \<lparr>cf_content = ''   '', cf_csrf = True\<rparr>"

text \<open>Two posts that attach different images under the same client file name.\<close>

definition cat_form_a :: post_form where
  "cat_form_a = hello_form\<lparr>pf_image := Some \<lparr>up_filename = ''cat.png'', up_content = ''A''\<rparr>\<rparr>"

definition cat_form_b :: post_form where
  "cat_form_b = titled_form\<lparr>pf_image := Some \<lparr>up_filename = ''cat.png'', up_content = ''B''\<rparr>\<rparr>"

lemmas fixture_defs = alice_def bob_def hello_post_def demo_db_def signed_in_def

lemmas form_eval = post_form_ok_def comment_form_ok_def optional_then_def data_required_def
  length_ok_def strip_filter_def py_strip_def py_lstrip_def py_rstrip_def is_py_space_def
  file_allowed_def has_file_def

lemma demo_forms_ok:
  "post_form_ok hello_form" "post_form_ok titled_form" "comment_form_ok hi_comment"
  by (simp_all add: hello_form_def titled_form_def hi_comment_def form_eval)

lemma demo_forms_files:
  "\<not> has_file (pf_image hello_form)" "\<not> has_file (pf_video hello_form)"
  "\<not> has_file (pf_image titled_form)" "\<not> has_file (pf_video titled_form)"
  by (simp_all add: hello_form_def titled_form_def has_file_def)

lemma bob_on_comment_facts:
  "load_user bob_on_comment = Some bob"
  "find_comment (store bob_on_comment) 1 = Some alice_comment"
  "c_user_id alice_comment \<noteq> u_id bob"
  by (simp_all add: bob_on_comment_def alice_comment_def fixture_defs load_user_def find_user_def
                    find_comment_def)

lemma demo_db_inv: "db_inv demo_db"
  by (simp add: fixture_defs db_inv_def constraints_ok_def refs_ok_def like_counts_ok_def
                likes_of_def generate_password_hash_def)

lemma signed_in_load_user:
  "load_user (signed_in 1) = Some alice" "load_user (signed_in 2) = Some bob"
  by (simp_all add: fixture_defs load_user_def find_user_def)

lemma signed_in_store [simp]: "store (signed_in i) = demo_db"
  by (simp add: signed_in_def)

lemma demo_no_likes: "find_like demo_db u i = None"
  by (simp add: demo_db_def find_like_def)

lemma demo_nonneg: "list_all (\<lambda>q. 0 \<le> likes_count q) (posts demo_db)"
  by (simp add: demo_db_def hello_post_def)

lemma demo_user_ids: "map u_id (users demo_db) = [1, 2]"
  by (simp add: demo_db_def alice_def bob_def)

lemma demo_find_post: "find_post demo_db 1 = Some hello_post"
  by (simp add: fixture_defs find_post_def)

end
