(* ===== verification/Likes.thy ===== *)
theory Likes
  imports Fixtures
begin

text \<open>
  The like toggle, \<open>toggle_like\<close> in \<open>src/Sky_Hub_Project/app.py\<close> (481--499).
  The route reads the post and the member's like, computes the new counter from the
  value it read, stages the insert or delete of the like and the counter update, and
  commits; an \<open>IntegrityError\<close> is caught and rolled back, any other storage error
  is a server error. The read phase is \<open>toggle_like_plan\<close>: the writes and the
  flashed message it stages. Because the counter's new value is computed at read time,
  the plan can be replayed against a later state, which is how two concurrent requests
  are modelled (\<open>toggle_race\<close>).
\<close>

definition toggle_like_plan ::
  "db \<Rightarrow> user_id \<Rightarrow> post \<Rightarrow> timestamp \<Rightarrow> db_write list \<times> string \<times> string" where
  "toggle_like_plan d uid p now =
     (case find_like d uid (p_id p) of
        Some existing \<Rightarrow>
          ([UpdatePost (p_id p)
              (\<lambda>q. q\<lparr>likes_count := max (py_or_int (likes_count p) 1 - 1) 0\<rparr>),
            DeleteLike (l_id existing)],
           ''info'', ''Like removed.'')
      | None \<Rightarrow>
          ([UpdatePost (p_id p) (\<lambda>q. q\<lparr>likes_count := py_or_int (likes_count p) 0 + 1\<rparr>),
            InsertLike \<lparr>l_id = 0, l_user_id = uid, l_post_id = p_id p, l_date = now\<rparr>],
           ''success'', ''Post liked!''))"

definition toggle_like :: "app_state \<Rightarrow> post_id \<Rightarrow> timestamp \<Rightarrow> response \<times> app_state" where
  "toggle_like s post_id now = login_required (\<lambda>cu.
     (case find_post (store s) post_id of
        None \<Rightarrow> (Abort 404, s)
      | Some p \<Rightarrow>
          (let (ws, cat, msg) = toggle_like_plan (store s) (u_id cu) p now;
               s1 = flash cat msg s
           in case commit (store s) ws of
                Inr d' \<Rightarrow> (Redirect (PostDetail (p_id p)), s1\<lparr>store := d'\<rparr>)
              | Inl IntegrityError \<Rightarrow>
                  (Redirect (PostDetail (p_id p)), flash ''danger'' ''Database error. Please try again.'' s1)
              | Inl StaleDataError \<Rightarrow> (Abort 500, s1)))) s"

text \<open>
  Two requests of the members \<open>u1\<close> and \<open>u2\<close> on the same post, both reading the
  committed state \<open>d\<close> before either commits, then committing in order. A failed commit
  leaves the state as it was.
\<close>

definition commit_or_keep :: "db \<Rightarrow> db_write list \<Rightarrow> db" where
  "commit_or_keep d ws = (case commit d ws of Inr d' \<Rightarrow> d' | Inl _ \<Rightarrow> d)"

definition toggle_race :: "db \<Rightarrow> user_id \<Rightarrow> user_id \<Rightarrow> post \<Rightarrow> timestamp \<Rightarrow> db" where
  "toggle_race d u1 u2 p now =
     (let ws1 = fst (toggle_like_plan d u1 p now);
          ws2 = fst (toggle_like_plan d u2 p now)
      in commit_or_keep (commit_or_keep d ws1) ws2)"

section \<open>The toggle on a consistent database\<close>

lemma toggle_unlike_commit:
  assumes inv: "db_inv d" and fp: "find_post d i = Some p" and fl: "find_like d u i = Some ex"
  shows "commit d (fst (toggle_like_plan d u p now)) =
         Inr (d\<lparr>posts := update_where (\<lambda>q. p_id q = i) (\<lambda>q. q\<lparr>likes_count := likes_count p - 1\<rparr>) (posts d),
               likes := remove1 ex (likes d)\<rparr>)" (is "_ = Inr ?d'")
proof -
  from fp have p: "p \<in> set (posts d)" "p_id p = i" by (simp_all add: find_post_Some)
  from fl have ex: "ex \<in> set (likes d)" "l_user_id ex = u" "l_post_id ex = i"
    by (simp_all add: find_like_Some)
  have c: "constraints_ok d" using inv by (rule db_invD)
  have cnt: "likes_count p = int (length (likes_of d i))"
    using like_counts_okD[OF db_invD(3)[OF inv] p(1)] p(2) by simp
  have pos: "0 < length (likes_of d i)"
    using length_filter_pos[OF ex(1), of "\<lambda>l. l_post_id l = i"] ex(3) by (simp add: likes_of_def)
  have del: "filter (\<lambda>l. l_id l \<noteq> l_id ex) (likes d) = remove1 ex (likes d)"
    using c ex(1) by (simp add: constraints_ok_def filter_key_remove1)
  have val: "max (py_or_int (likes_count p) 1 - 1) 0 = likes_count p - 1"
    using cnt pos by simp
  have pin: "i \<in> set (map p_id (posts d))"
    using p by force
  have flush: "flush d (fst (toggle_like_plan d u p now)) = Inr ?d'"
    using pin p fl del val by (simp add: toggle_like_plan_def)
  have "constraints_ok ?d'"
    using c by (simp add: constraints_ok_def list_all_update_where distinct_map_remove1 cong: if_cong)
  with flush show ?thesis by (simp add: commit_Inr)
qed

lemma toggle_like_commit_new:
  assumes inv: "db_inv d" and fp: "find_post d i = Some p" and fl: "find_like d u i = None"
  shows "commit d (fst (toggle_like_plan d u p now)) =
         Inr (d\<lparr>posts := update_where (\<lambda>q. p_id q = i) (\<lambda>q. q\<lparr>likes_count := likes_count p + 1\<rparr>) (posts d),
               likes := likes d @ [\<lparr>l_id = fresh_id (map l_id (likes d)), l_user_id = u,
                                    l_post_id = i, l_date = now\<rparr>]\<rparr>)" (is "_ = Inr ?d'")
proof -
  from fp have p: "p \<in> set (posts d)" "p_id p = i" by (simp_all add: find_post_Some)
  have pin: "i \<in> set (map p_id (posts d))"
    using p by force
  have c: "constraints_ok d" using inv by (rule db_invD)
  have flush: "flush d (fst (toggle_like_plan d u p now)) = Inr ?d'"
    using pin p fl by (simp add: toggle_like_plan_def)
  have "constraints_ok ?d'"
    using c fl by (simp add: constraints_ok_def list_all_update_where find_like_None cong: if_cong)
  with flush show ?thesis by (simp add: commit_Inr)
qed

lemma toggle_unlike_inv:
  assumes inv: "db_inv d" and fp: "find_post d i = Some p" and fl: "find_like d u i = Some ex"
  shows "db_inv (d\<lparr>posts := update_where (\<lambda>q. p_id q = i) (\<lambda>q. q\<lparr>likes_count := likes_count p - 1\<rparr>) (posts d),
                    likes := remove1 ex (likes d)\<rparr>)"
proof -
  from fp have p: "p \<in> set (posts d)" "p_id p = i" by (simp_all add: find_post_Some)
  from fl have ex: "ex \<in> set (likes d)" "l_post_id ex = i" by (simp_all add: find_like_Some)
  have c: "constraints_ok d" "refs_ok d" "like_counts_ok d" using inv by (rule db_invD)+
  have cnt: "likes_count p = int (length (likes_of d i))"
    using like_counts_okD[OF c(3) p(1)] p(2) by simp
  have pos: "0 < length (likes_of d i)"
    using length_filter_pos[OF ex(1), of "\<lambda>l. l_post_id l = i"] ex(2) by (simp add: likes_of_def)
  have pos': "int (length (likes_of d i) - 1) = int (length (likes_of d i)) - 1"
    using pos by (simp add: of_nat_diff Suc_le_eq del: length_greater_0_conv)
  have "like_counts_ok (d\<lparr>posts := update_where (\<lambda>q. p_id q = i) (\<lambda>q. q\<lparr>likes_count := likes_count p - 1\<rparr>) (posts d),
                         likes := remove1 ex (likes d)\<rparr>)"
    using c(1,3) ex cnt pos'
    by (intro like_counts_ok_update)
       (simp_all add: constraints_ok_def likes_of_def length_filter_remove1)
  moreover have "constraints_ok (d\<lparr>posts := update_where (\<lambda>q. p_id q = i) (\<lambda>q. q\<lparr>likes_count := likes_count p - 1\<rparr>) (posts d),
                         likes := remove1 ex (likes d)\<rparr>)"
    using toggle_unlike_commit[OF inv fp fl] by (simp add: commit_Inr)
  moreover have "refs_ok (d\<lparr>posts := update_where (\<lambda>q. p_id q = i) (\<lambda>q. q\<lparr>likes_count := likes_count p - 1\<rparr>) (posts d),
                         likes := remove1 ex (likes d)\<rparr>)"
    using c(2) by (intro refs_ok_likes_posts) (auto dest: subsetD[OF set_remove1_subset])
  ultimately show ?thesis by (simp add: db_inv_def)
qed

lemma toggle_like_new_inv:
  assumes inv: "db_inv d" and fp: "find_post d i = Some p" and fl: "find_like d u i = None"
    and u: "u \<in> set (map u_id (users d))"
  shows "db_inv (d\<lparr>posts := update_where (\<lambda>q. p_id q = i) (\<lambda>q. q\<lparr>likes_count := likes_count p + 1\<rparr>) (posts d),
                    likes := likes d @ [\<lparr>l_id = fresh_id (map l_id (likes d)), l_user_id = u,
                                         l_post_id = i, l_date = now\<rparr>]\<rparr>)"
proof -
  from fp have p: "p \<in> set (posts d)" "p_id p = i" by (simp_all add: find_post_Some)
  have c: "constraints_ok d" "refs_ok d" "like_counts_ok d" using inv by (rule db_invD)+
  have cnt: "likes_count p = int (length (likes_of d i))"
    using like_counts_okD[OF c(3) p(1)] p(2) by simp
  have "like_counts_ok (d\<lparr>posts := update_where (\<lambda>q. p_id q = i) (\<lambda>q. q\<lparr>likes_count := likes_count p + 1\<rparr>) (posts d),
                         likes := likes d @ [\<lparr>l_id = fresh_id (map l_id (likes d)), l_user_id = u,
                                              l_post_id = i, l_date = now\<rparr>]\<rparr>)"
    using c(1,3) cnt by (intro like_counts_ok_update) (simp_all add: constraints_ok_def likes_of_def)
  moreover have "constraints_ok (d\<lparr>posts := update_where (\<lambda>q. p_id q = i) (\<lambda>q. q\<lparr>likes_count := likes_count p + 1\<rparr>) (posts d),
                         likes := likes d @ [\<lparr>l_id = fresh_id (map l_id (likes d)), l_user_id = u,
                                              l_post_id = i, l_date = now\<rparr>]\<rparr>)"
    using toggle_like_commit_new[OF inv fp fl] by (simp add: commit_Inr)
  moreover have "refs_ok (d\<lparr>posts := update_where (\<lambda>q. p_id q = i) (\<lambda>q. q\<lparr>likes_count := likes_count p + 1\<rparr>) (posts d),
                         likes := likes d @ [\<lparr>l_id = fresh_id (map l_id (likes d)), l_user_id = u,
                                              l_post_id = i, l_date = now\<rparr>]\<rparr>)"
    using c(2) u p by (intro refs_ok_likes_posts) force+
  ultimately show ?thesis by (simp add: db_inv_def)
qed

lemma toggle_unlike_value:
  assumes inv: "db_inv d" and fp: "find_post d i = Some p" and fl: "find_like d u i = Some ex"
  shows "max (py_or_int (likes_count p) 1 - 1) 0 = likes_count p - 1"
proof -
  from fp have p: "p \<in> set (posts d)" "p_id p = i" by (simp_all add: find_post_Some)
  from fl have ex: "ex \<in> set (likes d)" "l_post_id ex = i" by (simp_all add: find_like_Some)
  have cnt: "likes_count p = int (length (likes_of d i))"
    using like_counts_okD[OF db_invD(3)[OF inv] p(1)] p(2) by simp
  have "0 < length (likes_of d i)"
    using length_filter_pos[OF ex(1), of "\<lambda>l. l_post_id l = i"] ex(2) by (simp add: likes_of_def)
  with cnt show ?thesis by simp
qed

lemma toggle_plan_posts:
  assumes "flush d (fst (toggle_like_plan d u p now)) = Inr d'"
  shows "posts d' = update_where (\<lambda>q. p_id q = p_id p)
           (\<lambda>q. q\<lparr>likes_count := (case find_like d u (p_id p) of
                                      Some _ \<Rightarrow> max (py_or_int (likes_count p) 1 - 1) 0
                                    | None \<Rightarrow> py_or_int (likes_count p) 0 + 1)\<rparr>) (posts d)"
  using assms
  by (auto simp: toggle_like_plan_def split: option.splits if_splits)

section \<open>The route\<close>

lemma toggle_like_commits:
  assumes "load_user s = Some u" and "find_post (store s) i = Some p"
    and "toggle_like_plan (store s) (u_id u) p now = (ws, cat, msg)"
    and "commit (store s) ws = Inr d'"
  shows "toggle_like s i now = (Redirect (PostDetail i), (flash cat msg s)\<lparr>store := d'\<rparr>)"
  using assms find_post_Some[OF assms(2)] by (simp add: toggle_like_def)

lemma toggle_like_cases:
  obtains (anon) "load_user s = None" "toggle_like s i now = (Redirect LoginPage, flash ''info'' ''Please log in to access CS Community.'' s)"
  | (missing) u where "load_user s = Some u" "find_post (store s) i = None" "toggle_like s i now = (Abort 404, s)"
  | (post) u p where "load_user s = Some u" "find_post (store s) i = Some p"
  by (cases "load_user s"; cases "find_post (store s) i") (auto simp: toggle_like_def)

lemma toggle_like_step:
  assumes inv: "db_inv (store s)" and u: "load_user s = Some u"
    and fp: "find_post (store s) i = Some p"
  shows "fst (toggle_like s i now) = Redirect (PostDetail i) \<and>
         (find_like (store (snd (toggle_like s i now))) (u_id u) i = None \<longleftrightarrow>
          find_like (store s) (u_id u) i \<noteq> None) \<and>
         map_option likes_count (find_post (store (snd (toggle_like s i now))) i) =
         Some (if find_like (store s) (u_id u) i = None then likes_count p + 1 else likes_count p - 1)"
proof (cases "find_like (store s) (u_id u) i")
  case None
  obtain ws cat msg where plan: "toggle_like_plan (store s) (u_id u) p now = (ws, cat, msg)"
    by (metis prod_cases3)
  note c = toggle_like_commit_new[OF inv fp None, of now, unfolded plan fst_conv]
  have "find_like (store (snd (toggle_like s i now))) (u_id u) i \<noteq> None"
    using find_like_append_new[OF None] toggle_like_commits[OF u fp plan c] by simp
  then show ?thesis
    using toggle_like_commits[OF u fp plan c] None fp find_post_update_count by simp
next
  case (Some ex)
  obtain ws cat msg where plan: "toggle_like_plan (store s) (u_id u) p now = (ws, cat, msg)"
    by (metis prod_cases3)
  note c = toggle_unlike_commit[OF inv fp Some, of now, unfolded plan fst_conv]
  have "find_like (store (snd (toggle_like s i now))) (u_id u) i = None"
    using find_like_remove1[OF db_invD(1)[OF inv] Some] toggle_like_commits[OF u fp plan c]
    by (simp add: find_like_def)
  then show ?thesis
    using toggle_like_commits[OF u fp plan c] Some fp find_post_update_count by simp
qed

lemma toggle_like_db_inv:
  assumes inv: "db_inv (store s)"
  shows "db_inv (store (snd (toggle_like s i now)))"
proof (cases rule: toggle_like_cases[where s = s and i = i and now = now])
  case anon
  with inv show ?thesis by simp
next
  case (missing u)
  with inv show ?thesis by simp
next
  case (post u p)
  obtain ws cat msg where plan: "toggle_like_plan (store s) (u_id u) p now = (ws, cat, msg)"
    by (metis prod_cases3)
  have uin: "u_id u \<in> set (map u_id (users (store s)))"
    using load_user_in_store[OF post(1)] by simp
  show ?thesis
  proof (cases "find_like (store s) (u_id u) i")
    case None
    note c = toggle_like_commit_new[OF inv post(2) None, of now, unfolded plan fst_conv]
    show ?thesis
      using toggle_like_commits[OF post plan c] toggle_like_new_inv[OF inv post(2) None uin] by simp
  next
    case (Some ex)
    note c = toggle_unlike_commit[OF inv post(2) Some, of now, unfolded plan fst_conv]
    show ?thesis
      using toggle_like_commits[OF post plan c] toggle_unlike_inv[OF inv post(2) Some] by simp
  qed
qed

text \<open>Frame: the toggle changes no member, no comment and not who is signed in.\<close>

lemma toggle_like_frame:
  assumes "db_inv (store s)"
  shows "users (store (snd (toggle_like s i now))) = users (store s) \<and>
         comments (store (snd (toggle_like s i now))) = comments (store s) \<and>
         session_user (snd (toggle_like s i now)) = session_user s"
proof (cases rule: toggle_like_cases[where s = s and i = i and now = now])
  case (post u p)
  obtain ws cat msg where plan: "toggle_like_plan (store s) (u_id u) p now = (ws, cat, msg)"
    by (metis prod_cases3)
  show ?thesis
  proof (cases "find_like (store s) (u_id u) i")
    case None
    show ?thesis
      using toggle_like_commits[OF post plan
              toggle_like_commit_new[OF assms post(2) None, of now, unfolded plan fst_conv]]
      by simp
  next
    case (Some ex)
    show ?thesis
      using toggle_like_commits[OF post plan
              toggle_unlike_commit[OF assms post(2) Some, of now, unfolded plan fst_conv]]
      by simp
  qed
qed simp_all

lemma toggle_like_load_user:
  "db_inv (store s) \<Longrightarrow> load_user (snd (toggle_like s i now)) = load_user s"
  using toggle_like_frame[of s i now] by (simp add: load_user_def find_user_def split: option.split)

text \<open>
  C2. Toggling twice restores the member's like state and the post's counter (spec \<section>8):
  on a consistent database, a signed-in member who toggles the like of an existing post
  twice ends with the like present exactly when it was present before, and the post's
  \<open>likes_count\<close> back at its original value.
\<close>

theorem toggle_like_twice:
  assumes inv: "db_inv (store s)" and u: "load_user s = Some u"
    and fp: "find_post (store s) i = Some p"
  shows "(find_like (store (snd (toggle_like (snd (toggle_like s i t1)) i t2))) (u_id u) i = None
            \<longleftrightarrow> find_like (store s) (u_id u) i = None) \<and>
         map_option likes_count (find_post (store (snd (toggle_like (snd (toggle_like s i t1)) i t2))) i)
           = Some (likes_count p)"
proof -
  let ?s1 = "snd (toggle_like s i t1)"
  have r1: "(find_like (store ?s1) (u_id u) i = None \<longleftrightarrow> find_like (store s) (u_id u) i \<noteq> None) \<and>
            map_option likes_count (find_post (store ?s1) i) =
            Some (if find_like (store s) (u_id u) i = None then likes_count p + 1 else likes_count p - 1)"
    using toggle_like_step[OF inv u fp] by blast
  then obtain p1 where fp1: "find_post (store ?s1) i = Some p1"
    and c1: "likes_count p1 = (if find_like (store s) (u_id u) i = None then likes_count p + 1 else likes_count p - 1)"
    by auto
  have inv1: "db_inv (store ?s1)" using inv by (rule toggle_like_db_inv)
  have u1: "load_user ?s1 = Some u" using toggle_like_load_user[OF inv] u by simp
  show ?thesis
    using toggle_like_step[OF inv1 u1 fp1, of t2] r1 c1 by auto
qed

lemma toggle_like_twice_witness:
  "db_inv (store (signed_in 2)) \<and> load_user (signed_in 2) = Some bob \<and>
   find_post (store (signed_in 2)) 1 = Some hello_post \<and>
   (find_like (store (snd (toggle_like (snd (toggle_like (signed_in 2) 1 5)) 1 6))) (u_id bob) 1 = None
      \<longleftrightarrow> find_like (store (signed_in 2)) (u_id bob) 1 = None) \<and>
   map_option likes_count (find_post (store (snd (toggle_like (snd (toggle_like (signed_in 2) 1 5)) 1 6))) 1)
     = Some (likes_count hello_post)"
proof -
  have h: "db_inv (store (signed_in 2))" "load_user (signed_in 2) = Some bob"
    "find_post (store (signed_in 2)) 1 = Some hello_post"
    by (simp_all only: signed_in_store demo_db_inv signed_in_load_user demo_find_post)
  show ?thesis using h toggle_like_twice[OF h, of 5 6] by blast
qed

text \<open>
  C3. The effect of one toggle on a consistent database: a signed-in member's request on
  an existing post redirects to the post, flashes "Post liked!" when the member had not
  liked it and "Like removed." when they had, flips the member's like, moves the post's
  counter by one in the matching direction, and leaves the database consistent.
\<close>

theorem toggle_like_result:
  assumes inv: "db_inv (store s)" and u: "load_user s = Some u"
    and fp: "find_post (store s) i = Some p"
  shows "fst (toggle_like s i now) = Redirect (PostDetail i) \<and>
         flashes (snd (toggle_like s i now)) = flashes s @
           [if find_like (store s) (u_id u) i = None then (''success'', ''Post liked!'')
            else (''info'', ''Like removed.'')] \<and>
         (find_like (store (snd (toggle_like s i now))) (u_id u) i = None \<longleftrightarrow>
          find_like (store s) (u_id u) i \<noteq> None) \<and>
         map_option likes_count (find_post (store (snd (toggle_like s i now))) i) =
         Some (if find_like (store s) (u_id u) i = None then likes_count p + 1 else likes_count p - 1) \<and>
         db_inv (store (snd (toggle_like s i now)))"
proof -
  have pi: "p_id p = i" using find_post_Some[OF fp] by simp
  obtain ws cat msg where plan: "toggle_like_plan (store s) (u_id u) p now = (ws, cat, msg)"
    by (metis prod_cases3)
  have fl: "flashes (snd (toggle_like s i now)) = flashes s @ [(cat, msg)]"
  proof (cases "find_like (store s) (u_id u) i")
    case None
    then show ?thesis
      using toggle_like_commits[OF u fp plan
              toggle_like_commit_new[OF inv fp None, of now, unfolded plan fst_conv]]
      by (simp add: flash_def)
  next
    case (Some ex)
    then show ?thesis
      using toggle_like_commits[OF u fp plan
              toggle_unlike_commit[OF inv fp Some, of now, unfolded plan fst_conv]]
      by (simp add: flash_def)
  qed
  have "(cat, msg) = (if find_like (store s) (u_id u) i = None then (''success'', ''Post liked!'')
                      else (''info'', ''Like removed.''))"
    using plan pi by (auto simp: toggle_like_plan_def split: option.splits)
  then show ?thesis
    using fl toggle_like_step[OF inv u fp, of now] toggle_like_db_inv[OF inv, of i now] by simp
qed

lemma toggle_like_result_witness:
  "db_inv (store (signed_in 2)) \<and> load_user (signed_in 2) = Some bob \<and>
   find_post (store (signed_in 2)) 1 = Some hello_post \<and>
   fst (toggle_like (signed_in 2) 1 5) = Redirect (PostDetail 1) \<and>
   flashes (snd (toggle_like (signed_in 2) 1 5)) = flashes (signed_in 2) @
     [if find_like (store (signed_in 2)) (u_id bob) 1 = None then (''success'', ''Post liked!'')
      else (''info'', ''Like removed.'')] \<and>
   (find_like (store (snd (toggle_like (signed_in 2) 1 5))) (u_id bob) 1 = None \<longleftrightarrow>
    find_like (store (signed_in 2)) (u_id bob) 1 \<noteq> None) \<and>
   map_option likes_count (find_post (store (snd (toggle_like (signed_in 2) 1 5))) 1) =
   Some (if find_like (store (signed_in 2)) (u_id bob) 1 = None then likes_count hello_post + 1
         else likes_count hello_post - 1) \<and>
   db_inv (store (snd (toggle_like (signed_in 2) 1 5)))"
proof -
  have h: "db_inv (store (signed_in 2))" "load_user (signed_in 2) = Some bob"
    "find_post (store (signed_in 2)) 1 = Some hello_post"
    by (simp_all only: signed_in_store demo_db_inv signed_in_load_user demo_find_post)
  show ?thesis using h toggle_like_result[OF h, of 5] by blast
qed

text \<open>
  C4. The counter never goes negative (spec \<section>4.4): whatever the state of the
  database, consistent or not, if no post has a negative \<open>likes_count\<close> before a toggle
  request then none has one after it. The decrement is clamped at 0 by
  \<open>max((post.likes_count or 1) - 1, 0)\<close>.
\<close>

theorem toggle_like_nonneg:
  assumes nn: "list_all (\<lambda>q. 0 \<le> likes_count q) (posts (store s))"
  shows "list_all (\<lambda>q. 0 \<le> likes_count q) (posts (store (snd (toggle_like s i now))))"
proof (cases rule: toggle_like_cases[where s = s and i = i and now = now])
  case (post u p)
  have p: "p \<in> set (posts (store s))" using find_post_Some[OF post(2)] by simp
  then have c: "0 \<le> likes_count p" using nn by (simp add: list_all_iff)
  obtain ws cat msg where plan: "toggle_like_plan (store s) (u_id u) p now = (ws, cat, msg)"
    by (metis prod_cases3)
  show ?thesis
  proof (cases "commit (store s) ws")
    case (Inl e)
    then show ?thesis
      using post plan nn by (cases e) (simp_all add: toggle_like_def)
  next
    case (Inr d')
    then have "flush (store s) (fst (toggle_like_plan (store s) (u_id u) p now)) = Inr d'"
      using plan by (simp add: commit_Inr)
    from toggle_plan_posts[OF this] have "list_all (\<lambda>q. 0 \<le> likes_count q) (posts d')"
      using nn c by (auto simp: set_update_where py_or_int_def list_all_iff split: option.split)
    then show ?thesis using toggle_like_commits[OF post plan Inr] by simp
  qed
qed (use nn in simp_all)

lemma toggle_like_nonneg_witness:
  "list_all (\<lambda>q. 0 \<le> likes_count q) (posts (store (signed_in 2))) \<and>
   list_all (\<lambda>q. 0 \<le> likes_count q) (posts (store (snd (toggle_like (signed_in 2) 1 5))))"
proof -
  have h: "list_all (\<lambda>q. 0 \<le> likes_count q) (posts (store (signed_in 2)))"
    by (simp only: signed_in_store demo_nonneg)
  show ?thesis using h toggle_like_nonneg[OF h, of 1 5] by blast
qed

section \<open>Two concurrent toggles\<close>

text \<open>
  C5. Lost update between members (spec \<section>5 requires that the counter never drifts
  from the like set). When two different members like the same post and both requests
  read the database before either commits, both likes are stored but the counter goes
  up by one only: each request writes the value it computed from the count it read, so
  the committed database no longer satisfies the counter invariant.
\<close>

theorem toggle_race_lost_update:
  assumes inv: "db_inv d" and fp: "find_post d i = Some p" and ne: "u1 \<noteq> u2"
    and n1: "find_like d u1 i = None" and n2: "find_like d u2 i = None"
  shows "find_like (toggle_race d u1 u2 p now) u1 i \<noteq> None \<and>
         find_like (toggle_race d u1 u2 p now) u2 i \<noteq> None \<and>
         map_option likes_count (find_post (toggle_race d u1 u2 p now) i) = Some (likes_count p + 1) \<and>
         \<not> like_counts_ok (toggle_race d u1 u2 p now)"
proof -
  have pi: "p_id p = i" and pin: "p \<in> set (posts d)" using find_post_Some[OF fp] by simp_all
  have c: "constraints_ok d" "like_counts_ok d" using inv by (rule db_invD)+
  have cnt: "likes_count p = int (length (likes_of d i))"
    using like_counts_okD[OF c(2) pin] pi by simp
  define l1 where "l1 = \<lparr>l_id = fresh_id (map l_id (likes d)), l_user_id = u1, l_post_id = i, l_date = now\<rparr>"
  define ps where "ps = update_where (\<lambda>q. p_id q = i) (\<lambda>q. q\<lparr>likes_count := likes_count p + 1\<rparr>) (posts d)"
  define d1 where "d1 = d\<lparr>posts := ps, likes := likes d @ [l1]\<rparr>"
  define l2 where "l2 = \<lparr>l_id = fresh_id (map l_id (likes d1)), l_user_id = u2, l_post_id = i, l_date = now\<rparr>"
  define d2 where "d2 = d1\<lparr>likes := likes d1 @ [l2]\<rparr>"
  have c1: "commit d (fst (toggle_like_plan d u1 p now)) = Inr d1"
    using toggle_like_commit_new[OF inv fp n1] by (simp add: d1_def ps_def l1_def)
  have ws2: "fst (toggle_like_plan d u2 p now) =
      [UpdatePost i (\<lambda>q. q\<lparr>likes_count := likes_count p + 1\<rparr>),
       InsertLike \<lparr>l_id = 0, l_user_id = u2, l_post_id = i, l_date = now\<rparr>]"
    using n2 pi by (simp add: toggle_like_plan_def)
  have idem: "update_where (\<lambda>q. p_id q = i) (\<lambda>q. q\<lparr>likes_count := likes_count p + 1\<rparr>) ps = ps"
    unfolding ps_def by (rule update_where_idem) simp_all
  have pin1: "i \<in> set (map p_id (posts d1))"
    using pin pi by (force simp: d1_def ps_def)
  have f2: "flush d1 (fst (toggle_like_plan d u2 p now)) = Inr d2"
    using pin1 idem by (simp add: ws2 d1_def d2_def l2_def)
  have "constraints_ok d1" using c1 by (simp add: commit_Inr)
  then have "constraints_ok d2"
    using n2 ne by (simp add: constraints_ok_def d2_def d1_def l1_def l2_def find_like_None)
  with f2 have c2: "commit d1 (fst (toggle_like_plan d u2 p now)) = Inr d2"
    by (simp add: commit_Inr)
  have race: "toggle_race d u1 u2 p now = d2"
    using c1 c2 by (simp add: toggle_race_def commit_or_keep_def)
  have fl1: "find_like d2 u1 i \<noteq> None" and fl2: "find_like d2 u2 i \<noteq> None"
    by (auto simp: find_like_def d2_def d1_def l1_def l2_def find_append find_None_iff split: option.split)
  have fp2: "find_post d2 i = map_option (\<lambda>q. q\<lparr>likes_count := likes_count p + 1\<rparr>) (find_post d i)"
    by (rule find_post_update_count) (simp add: d2_def d1_def ps_def)
  have "length (likes_of d2 i) = length (likes_of d i) + 2"
    by (simp add: likes_of_def d2_def d1_def l1_def l2_def)
  moreover have "p\<lparr>likes_count := likes_count p + 1\<rparr> \<in> set (posts d2)"
    using pin by (force simp: d2_def d1_def ps_def set_update_where pi)
  ultimately have "\<not> like_counts_ok d2"
    using cnt pi by (auto dest: like_counts_okD)
  then show ?thesis using race fl1 fl2 fp2 fp by simp
qed

lemma toggle_race_lost_update_witness:
  "db_inv demo_db \<and> find_post demo_db 1 = Some hello_post \<and> (1::nat) \<noteq> 2 \<and>
   find_like demo_db 1 1 = None \<and> find_like demo_db 2 1 = None \<and>
   find_like (toggle_race demo_db 1 2 hello_post 5) 1 1 \<noteq> None \<and>
   find_like (toggle_race demo_db 1 2 hello_post 5) 2 1 \<noteq> None \<and>
   map_option likes_count (find_post (toggle_race demo_db 1 2 hello_post 5) 1) =
     Some (likes_count hello_post + 1) \<and>
   \<not> like_counts_ok (toggle_race demo_db 1 2 hello_post 5)"
proof -
  have h: "db_inv demo_db" "find_post demo_db 1 = Some hello_post" "(1::nat) \<noteq> 2"
    "find_like demo_db 1 1 = None" "find_like demo_db 2 1 = None"
    by (simp_all only: demo_db_inv demo_find_post demo_no_likes)
  show ?thesis using h toggle_race_lost_update[OF h, of 5] by blast
qed

text \<open>
  C6. Two concurrent toggles by the same member have the effect of one: the second
  request's insert violates the \<open>(user_id, post_id)\<close> uniqueness constraint and is
  rolled back, or its delete finds the like gone and its counter write repeats the
  first one's; either way the database stays consistent.
\<close>

theorem toggle_race_same_member:
  assumes inv: "db_inv d" and fp: "find_post d i = Some p" and u: "u \<in> set (map u_id (users d))"
  shows "toggle_race d u u p now = commit_or_keep d (fst (toggle_like_plan d u p now)) \<and>
         db_inv (toggle_race d u u p now)"
proof -
  have pi: "p_id p = i" and pin: "p \<in> set (posts d)" using find_post_Some[OF fp] by simp_all
  have c: "constraints_ok d" using inv by (rule db_invD)
  show ?thesis
  proof (cases "find_like d u i")
    case None
    define ps where "ps = update_where (\<lambda>q. p_id q = i) (\<lambda>q. q\<lparr>likes_count := likes_count p + 1\<rparr>) (posts d)"
    define l1 where "l1 = \<lparr>l_id = fresh_id (map l_id (likes d)), l_user_id = u, l_post_id = i, l_date = now\<rparr>"
    define d1 where "d1 = d\<lparr>posts := ps, likes := likes d @ [l1]\<rparr>"
    have c1: "commit d (fst (toggle_like_plan d u p now)) = Inr d1"
      using toggle_like_commit_new[OF inv fp None] by (simp add: d1_def ps_def l1_def)
    have idem: "update_where (\<lambda>q. p_id q = i) (\<lambda>q. q\<lparr>likes_count := likes_count p + 1\<rparr>) ps = ps"
      unfolding ps_def by (rule update_where_idem) simp_all
    have pin1: "i \<in> set (map p_id (posts d1))"
      using pin pi by (force simp: d1_def ps_def)
    have "commit d1 (fst (toggle_like_plan d u p now)) = Inl IntegrityError"
      using None pi pin1 idem
      by (intro commit_Inl_flush[where d' = "d1\<lparr>likes := likes d1 @ [\<lparr>l_id = fresh_id (map l_id (likes d1)),
                 l_user_id = u, l_post_id = i, l_date = now\<rparr>]\<rparr>"])
         (simp_all add: toggle_like_plan_def d1_def l1_def constraints_ok_def)
    then have "toggle_race d u u p now = d1"
      using c1 by (simp add: toggle_race_def commit_or_keep_def)
    moreover have "db_inv d1"
      using toggle_like_new_inv[OF inv fp None u] by (simp add: d1_def ps_def l1_def)
    ultimately show ?thesis using c1 by (simp add: commit_or_keep_def)
  next
    case (Some ex)
    define ps where "ps = update_where (\<lambda>q. p_id q = i) (\<lambda>q. q\<lparr>likes_count := likes_count p - 1\<rparr>) (posts d)"
    define d1 where "d1 = d\<lparr>posts := ps, likes := remove1 ex (likes d)\<rparr>"
    have c1: "commit d (fst (toggle_like_plan d u p now)) = Inr d1"
      using toggle_unlike_commit[OF inv fp Some] by (simp add: d1_def ps_def)
    have ex: "ex \<in> set (likes d)" using find_like_Some[OF Some] by simp
    have gone: "filter (\<lambda>l. l_id l \<noteq> l_id ex) (remove1 ex (likes d)) = remove1 ex (likes d)"
      using distinct_map_remove1_key[of l_id "likes d" ex] c ex
      by (auto simp: constraints_ok_def filter_id_conv image_iff)
    have idem: "update_where (\<lambda>q. p_id q = i) (\<lambda>q. q\<lparr>likes_count := likes_count p - 1\<rparr>) ps = ps"
      unfolding ps_def by (rule update_where_idem) simp_all
    have pin1: "i \<in> set (map p_id (posts d1))"
      using pin pi by (force simp: d1_def ps_def)
    have f2: "flush d1 (fst (toggle_like_plan d u p now)) = Inr d1"
      using Some pi pin1 idem gone toggle_unlike_value[OF inv fp Some]
      by (simp add: toggle_like_plan_def d1_def)
    have "constraints_ok d1" using c1 by (simp add: commit_Inr)
    with f2 have "commit d1 (fst (toggle_like_plan d u p now)) = Inr d1"
      by (simp add: commit_Inr)
    then have "toggle_race d u u p now = d1"
      using c1 by (simp add: toggle_race_def commit_or_keep_def)
    moreover have "db_inv d1"
      using toggle_unlike_inv[OF inv fp Some] by (simp add: d1_def ps_def)
    ultimately show ?thesis using c1 by (simp add: commit_or_keep_def)
  qed
qed

lemma toggle_race_same_member_witness:
  "db_inv demo_db \<and> find_post demo_db 1 = Some hello_post \<and> 2 \<in> set (map u_id (users demo_db)) \<and>
   toggle_race demo_db 2 2 hello_post 5 = commit_or_keep demo_db (fst (toggle_like_plan demo_db 2 hello_post 5)) \<and>
   db_inv (toggle_race demo_db 2 2 hello_post 5)"
proof -
  have h: "db_inv demo_db" "find_post demo_db 1 = Some hello_post" "2 \<in> set (map u_id (users demo_db))"
    by (simp_all only: demo_db_inv demo_find_post demo_user_ids) simp
  show ?thesis using h toggle_race_same_member[OF h, of 5] by blast
qed

end
