(* ===== verification/Uploads.thy ===== *)
theory Uploads
  imports Forms Session
begin

text \<open>
  File uploads of \<open>src/Sky_Hub_Project/app.py\<close> (51--107): where uploaded files are
  written and under which name. The upload folders are the keys of the \<open>disk\<close> map
  of the request state, by path relative to the application directory.
  \<open>secure_filename\<close> and \<open>os.path.splitext\<close> are library functions; they are modelled
  after werkzeug's and CPython's code for POSIX paths, with the Unicode normalisation
  step reduced to dropping non-ASCII characters. The random \<open>uuid.uuid4().hex\<close> is an
  input of the operations that use it. Resizing by Pillow is not modelled: the stored
  bytes are the uploaded ones.
\<close>

section \<open>Library functions\<close>

text \<open>\<open>str.split()\<close> with no argument: maximal runs of non-whitespace.\<close>

fun split_on :: "('a \<Rightarrow> bool) \<Rightarrow> 'a list \<Rightarrow> 'a list list" where
  "split_on P [] = [[]]"
| "split_on P (x # xs) =
     (if P x then [] # split_on P xs else (let r = split_on P xs in (x # hd r) # tl r))"

definition py_split_ws :: "string \<Rightarrow> string list" where
  "py_split_ws s = filter (\<lambda>w. w \<noteq> []) (split_on is_py_space s)"

text \<open>\<open>str.strip(chars)\<close>.\<close>

definition py_strip_chars :: "string \<Rightarrow> string \<Rightarrow> string" where
  "py_strip_chars cs s =
     rev (dropWhile (\<lambda>c. c \<in> set cs) (rev (dropWhile (\<lambda>c. c \<in> set cs) s)))"

definition filename_char :: "char \<Rightarrow> bool" where
  "filename_char c \<longleftrightarrow>
     (CHR ''A'' \<le> c \<and> c \<le> CHR ''Z'') \<or> (CHR ''a'' \<le> c \<and> c \<le> CHR ''z'') \<or>
     (CHR ''0'' \<le> c \<and> c \<le> CHR ''9'') \<or> c \<in> set ''_.-''"

text \<open>
  werkzeug's \<open>secure_filename\<close> on POSIX: drop non-ASCII, turn the separator \<open>/\<close>
  into a space, join the whitespace-separated words with \<open>_\<close>, delete every character
  outside \<open>[A-Za-z0-9_.-]\<close>, and strip \<open>.\<close> and \<open>_\<close> from both ends.
\<close>

definition secure_filename :: "string \<Rightarrow> string" where
  "secure_filename fn =
     (let a = filter (\<lambda>c. of_char c < (128::nat)) fn;
          b = py_replace_char (CHR ''/'') (CHR '' '') a;
          c = py_join ''_'' (py_split_ws b)
      in py_strip_chars ''._'' (filter filename_char c))"

text \<open>
  The extension \<open>os.path.splitext(p)[1]\<close> of a name without \<open>/\<close>: from the last dot,
  provided a character other than a dot precedes it.
\<close>

definition py_splitext_ext :: "string \<Rightarrow> string" where
  "py_splitext_ext p =
     (let ext_rev = takeWhile (\<lambda>c. c \<noteq> CHR ''.'') (rev p);
          stem = take (length p - length ext_rev - 1) p
      in if CHR ''.'' \<in> set p \<and> list_ex (\<lambda>c. c \<noteq> CHR ''.'') stem
         then CHR ''.'' # rev ext_rev else [])"

section \<open>The application's helpers\<close>

definition upload_folder :: string where "upload_folder = ''static/uploads/''"
definition cv_folder :: string where "cv_folder = ''static/uploads/cv/''"
definition picture_folder :: string where "picture_folder = ''static/uploads/profile_pics/''"

text \<open>\<open>_allowed_file(filename, allowed)\<close>.\<close>

definition allowed_file :: "string \<Rightarrow> string list \<Rightarrow> bool" where
  "allowed_file fn allowed =
     (CHR ''.'' \<in> set fn \<and> py_lower (rev (takeWhile (\<lambda>c. c \<noteq> CHR ''.'') (rev fn))) \<in> set allowed)"

text \<open>
  \<open>save_picture\<close>: the file is written under \<open>random_hex + ext\<close> in the picture
  folder and only the name is returned.
\<close>

definition save_picture :: "string \<Rightarrow> upload \<Rightarrow> app_state \<Rightarrow> string \<times> app_state" where
  "save_picture random_hex pic s =
     (let f_ext = py_lower (py_splitext_ext (secure_filename (up_filename pic)));
          picture_fn = random_hex @ f_ext
      in (picture_fn, s\<lparr>disk := (disk s)(picture_folder @ picture_fn \<mapsto> up_content pic)\<rparr>))"

definition save_cv :: "string \<Rightarrow> upload \<Rightarrow> app_state \<Rightarrow> string \<times> app_state" where
  "save_cv random_hex cv s =
     (let cv_fn = random_hex @ py_lower (py_splitext_ext (secure_filename (up_filename cv)))
      in (cv_fn, s\<lparr>disk := (disk s)(cv_folder @ cv_fn \<mapsto> up_content cv)\<rparr>))"

text \<open>\<open>profile_image_url(filename)\<close>: the static URL, with the placeholder for an empty name.\<close>

definition profile_image_url :: "string option \<Rightarrow> string" where
  "profile_image_url fn = ''/static/uploads/profile_pics/'' @ py_or_str fn default_profile"

text \<open>
  The media of a post are saved under their sanitised client file name in the upload
  folder (\<open>new_post\<close>, \<open>edit_post\<close>). Saving to the folder itself (an empty name)
  raises \<open>IsADirectoryError\<close>: \<open>None\<close>.
\<close>

definition save_media :: "upload \<Rightarrow> app_state \<Rightarrow> (string \<times> app_state) option" where
  "save_media u s =
     (let fn = secure_filename (up_filename u)
      in if fn = [] then None
         else Some (fn, s\<lparr>disk := (disk s)(upload_folder @ fn \<mapsto> up_content u)\<rparr>))"

section \<open>Lemmas\<close>

lemma save_cv_store [simp]: "store (snd (save_cv h u s)) = store s"
  by (auto simp: save_cv_def Let_def)

lemma save_picture_store [simp]: "store (snd (save_picture h u s)) = store s"
  by (auto simp: save_picture_def Let_def)

lemma save_cv_store_eq: "save_cv h u s = (fn, s') \<Longrightarrow> store s' = store s"
  by (auto simp: save_cv_def Let_def)

lemma save_picture_store_eq: "save_picture h u s = (fn, s') \<Longrightarrow> store s' = store s"
  by (auto simp: save_picture_def Let_def)

lemma set_py_strip_chars: "set (py_strip_chars cs s) \<subseteq> set s"
  unfolding py_strip_chars_def
  using set_dropWhileD[of _ _ "rev (dropWhile (\<lambda>c. c \<in> set cs) s)"] set_dropWhileD[of _ _ s] by auto

lemma py_strip_chars_hd:
  assumes "py_strip_chars cs s \<noteq> []"
  shows "hd (py_strip_chars cs s) \<notin> set cs"
proof -
  let ?x = "dropWhile (\<lambda>c. c \<in> set cs) s"
  have p: "prefix (rev (dropWhile (\<lambda>c. c \<in> set cs) (rev ?x))) ?x"
    by (metis prefix_def append_take_drop_id rev_append rev_rev_ident takeWhile_dropWhile_id)
  have ne: "?x \<noteq> []"
  proof
    assume "?x = []"
    then show False using assms by (simp add: py_strip_chars_def del: dropWhile_eq_Nil_conv)
  qed
  then have "hd ?x \<notin> set cs" using hd_dropWhile[OF ne] by blast
  moreover have "hd (rev (dropWhile (\<lambda>c. c \<in> set cs) (rev ?x))) = hd ?x"
    using p assms by (metis prefix_def hd_append2 py_strip_chars_def)
  ultimately show ?thesis by (simp add: py_strip_chars_def)
qed

text \<open>A non-empty sanitised name has only the characters \<open>[A-Za-z0-9_.-]\<close> and no leading dot.\<close>

lemma secure_filename_safe:
  assumes "secure_filename fn \<noteq> []"
  shows "list_all filename_char (secure_filename fn) \<and> CHR ''/'' \<notin> set (secure_filename fn) \<and>
         hd (secure_filename fn) \<noteq> CHR ''.''"
proof -
  let ?c = "filter filename_char (py_join ''_'' (py_split_ws (py_replace_char (CHR ''/'') (CHR '' '')
              (filter (\<lambda>c. of_char c < (128::nat)) fn))))"
  have e: "secure_filename fn = py_strip_chars ''._'' ?c" by (simp add: secure_filename_def Let_def)
  have "set (secure_filename fn) \<subseteq> set ?c" using e set_py_strip_chars by metis
  then have a: "list_all filename_char (secure_filename fn)" by (auto simp: list_all_iff)
  have "\<not> filename_char (CHR ''/'')" by (simp add: filename_char_def)
  with a have b: "CHR ''/'' \<notin> set (secure_filename fn)" by (auto simp: list_all_iff)
  have "hd (secure_filename fn) \<notin> set ''._''" using py_strip_chars_hd assms e by metis
  with a b show ?thesis by simp
qed

end
