(* ===== verification/Posts.thy ===== *)
theory Posts
  imports Uploads Fixtures
begin

text \<open>
  The content store: the post and comment routes of \<open>src/Sky_Hub_Project/app.py\<close>
  (335--475). A request that submits a form carries it as \<open>Some f\<close>; a \<open>GET\<close> is
  \<open>None\<close>. \<open>form.validate_on_submit()\<close> is the form's validity predicate of
  \<open>Forms\<close>. Each route is a function from the request state to the response and the
  new state; an exception the route does not catch (a failed commit, a file that cannot
  be written) is the response \<open>Abort 500\<close> with the database unchanged, as the
  session's transaction is rolled back.
\<close>

section \<open>Titles of new posts\<close>

definition ellipsis :: char where
  "ellipsis = CHR 0x85"

text \<open>
  \<open>new_post\<close> lines 354--362: the given title, else the first 80 characters of the
  content, stripped, with an ellipsis when the content is longer; \<open>"Untitled"\<close> when
  that is empty.
\<close>

definition auto_title :: "string option \<Rightarrow> string option \<Rightarrow> string" where
  "auto_title title_data content_data =
     (let content_text = py_or_str content_data [];
          t = py_strip (py_or_str title_data []);
          t' = (if t = [] then py_strip (take 80 content_text) @
                                (if 80 < length content_text then [ellipsis] else [])
                else t)
      in if t' = [] then ''Untitled'' else t')"

section \<open>Routes\<close>

text \<open>
  Saving an optional media upload: nothing when no file was chosen, the saved name
  otherwise, \<open>None\<close> when the save raises.
\<close>

definition save_opt :: "upload option \<Rightarrow> app_state \<Rightarrow> (string option \<times> app_state) option" where
  "save_opt f s =
     (if has_file f then map_option (\<lambda>(fn, s'). (Some fn, s')) (save_media (the f) s)
      else Some (None, s))"

definition new_post ::
  "app_state \<Rightarrow> post_form option \<Rightarrow> timestamp \<Rightarrow> response \<times> app_state" where
  "new_post s req now = login_required (\<lambda>cu.
     (case req of
        None \<Rightarrow> (Render (Template ''new_post.html''), s)
      | Some f \<Rightarrow>
          if \<not> post_form_ok f then (Render (Template ''new_post.html''), s)
          else (case save_opt (pf_image f) s of
                  None \<Rightarrow> (Abort 500, s)
                | Some (image_filename, s1) \<Rightarrow>
                    (case save_opt (pf_video f) s1 of
                       None \<Rightarrow> (Abort 500, s1)
                     | Some (video_filename, s2) \<Rightarrow>
                         (let content_text = py_or_str (strip_filter (pf_content f)) [];
                              p = \<lparr>p_id = 0,
                                   title = Some (auto_title (strip_filter (pf_title f))
                                                            (strip_filter (pf_content f))),
                                   p_content = Some content_text,
                                   image_file = image_filename, video_file = video_filename,
                                   p_date = now, p_user_id = u_id cu, likes_count = 0\<rparr>
                          in case commit (store s2) [InsertPost p] of
                               Inr d' \<Rightarrow>
                                 (Redirect (PostDetail (fresh_id (map p_id (posts (store s2))))),
                                  flash ''success'' ''Post published to CS Community.'' (s2\<lparr>store := d'\<rparr>))
                             | Inl _ \<Rightarrow> (Abort 500, s2)))))) s"

text \<open>\<open>post_detail\<close>: the post, its comments oldest first, and whether the viewer liked it.\<close>

definition post_comments :: "db \<Rightarrow> post_id \<Rightarrow> comment list" where
  "post_comments d i = sort_key c_date (filter (\<lambda>c. c_post_id c = i) (comments d))"

definition post_detail :: "app_state \<Rightarrow> post_id \<Rightarrow> response \<times> app_state" where
  "post_detail s post_id = login_required (\<lambda>cu.
     (case find_post (store s) post_id of
        None \<Rightarrow> (Abort 404, s)
      | Some p \<Rightarrow>
          (Render (PostView p (post_comments (store s) (p_id p))
                     (find_like (store s) (u_id cu) (p_id p) \<noteq> None)), s))) s"

text \<open>
  \<open>edit_post\<close>: title and content are set from the form; a medium is replaced only when
  a new file is uploaded.
\<close>

definition edit_post :: "app_state \<Rightarrow> post_id \<Rightarrow> post_form option \<Rightarrow> response \<times> app_state" where
  "edit_post s post_id req = login_required (\<lambda>cu.
     (case find_post (store s) post_id of
        None \<Rightarrow> (Abort 404, s)
      | Some p \<Rightarrow>
          if p_user_id p \<noteq> u_id cu then (Abort 403, s)
          else (case req of
                  Some f \<Rightarrow>
                    if post_form_ok f then
                      (case save_opt (pf_image f) s of
                         None \<Rightarrow> (Abort 500, s)
                       | Some (img, s1) \<Rightarrow>
                           (case save_opt (pf_video f) s1 of
                              None \<Rightarrow> (Abort 500, s1)
                            | Some (vid, s2) \<Rightarrow>
                                (let upd = (\<lambda>q. q\<lparr>title := strip_filter (pf_title f),
                                                   p_content := strip_filter (pf_content f),
                                                   image_file := (if img = None then image_file q else img),
                                                   video_file := (if vid = None then video_file q else vid)\<rparr>)
                                 in case commit (store s2) [UpdatePost (p_id p) upd] of
                                      Inr d' \<Rightarrow> (Redirect (PostDetail (p_id p)),
                                                 flash ''success'' ''Post updated.'' (s2\<lparr>store := d'\<rparr>))
                                    | Inl _ \<Rightarrow> (Abort 500, s2))))
                    else (Render (Template ''edit_post.html''), s)
                | None \<Rightarrow> (Render (Template ''edit_post.html''), s)))) s"

definition delete_post :: "app_state \<Rightarrow> post_id \<Rightarrow> response \<times> app_state" where
  "delete_post s post_id = login_required (\<lambda>cu.
     (case find_post (store s) post_id of
        None \<Rightarrow> (Abort 404, s)
      | Some p \<Rightarrow>
          if p_user_id p \<noteq> u_id cu then (Abort 403, s)
          else (case commit (store s) [DeletePost (p_id p)] of
                  Inr d' \<Rightarrow> (Redirect Home, flash ''info'' ''Post deleted.'' (s\<lparr>store := d'\<rparr>))
                | Inl _ \<Rightarrow> (Abort 500, s)))) s"

definition add_comment ::
  "app_state \<Rightarrow> post_id \<Rightarrow> comment_form \<Rightarrow> timestamp \<Rightarrow> response \<times> app_state" where
  "add_comment s post_id f now = login_required (\<lambda>cu.
     (case find_post (store s) post_id of
        None \<Rightarrow> (Abort 404, s)
      | Some p \<Rightarrow>
          if comment_form_ok f then
            (case commit (store s) [InsertComment \<lparr>c_id = 0, c_content = the (strip_filter (cf_content f)),
                                                   c_date = now, c_user_id = u_id cu, c_post_id = p_id p\<rparr>] of
               Inr d' \<Rightarrow> (Redirect (PostDetail (p_id p)), flash ''success'' ''Comment posted.'' (s\<lparr>store := d'\<rparr>))
             | Inl _ \<Rightarrow> (Abort 500, s))
          else (Redirect (PostDetail (p_id p)), flash ''warning'' ''Comment could not be posted.'' s))) s"

definition edit_comment ::
  "app_state \<Rightarrow> comment_id \<Rightarrow> comment_form option \<Rightarrow> response \<times> app_state" where
  "edit_comment s comment_id req = login_required (\<lambda>cu.
     (case find_comment (store s) comment_id of
        None \<Rightarrow> (Abort 404, s)
      | Some c \<Rightarrow>
          if c_user_id c \<noteq> u_id cu then (Abort 403, s)
          else (case req of
                  Some f \<Rightarrow>
                    if comment_form_ok f then
                      (case commit (store s) [UpdateComment (c_id c)
                                                (\<lambda>x. x\<lparr>c_content := the (strip_filter (cf_content f))\<rparr>)] of
                         Inr d' \<Rightarrow> (Redirect (PostDetail (c_post_id c)),
                                    flash ''success'' ''Comment updated.'' (s\<lparr>store := d'\<rparr>))
                       | Inl _ \<Rightarrow> (Abort 500, s))
                    else (Render (Template ''edit_comment.html''), s)
                | None \<Rightarrow> (Render (Template ''edit_comment.html''), s)))) s"

definition delete_comment :: "app_state \<Rightarrow> comment_id \<Rightarrow> response \<times> app_state" where
  "delete_comment s comment_id = login_required (\<lambda>cu.
     (case find_comment (store s) comment_id of
        None \<Rightarrow> (Abort 404, s)
      | Some c \<Rightarrow>
          if c_user_id c \<noteq> u_id cu then (Abort 403, s)
          else (case commit (store s) [DeleteComment (c_id c)] of
                  Inr d' \<Rightarrow> (Redirect (PostDetail (c_post_id c)),
                             flash ''info'' ''Comment deleted.'' (s\<lparr>store := d'\<rparr>))
                | Inl _ \<Rightarrow> (Abort 500, s)))) s"

section \<open>Where uploads go\<close>

text \<open>
  A file path that stays in the upload folder: the folder, then a non-empty name of
  the characters \<open>[A-Za-z0-9_.-]\<close> that does not start with a dot (so it is neither
  \<open>.\<close>, \<open>..\<close> nor a hidden file, and has no \<open>/\<close>).
\<close>

definition upload_path_ok :: "filename \<Rightarrow> bool" where
  "upload_path_ok k \<longleftrightarrow>
     take (length upload_folder) k = upload_folder \<and>
     (let n = drop (length upload_folder) k
      in n \<noteq> [] \<and> list_all filename_char n \<and> CHR ''/'' \<notin> set n \<and> hd n \<noteq> CHR ''.'')"

section \<open>Lemmas\<close>

lemma auto_title_nonempty: "auto_title t c \<noteq> []"
  by (simp add: auto_title_def Let_def)

lemma auto_title_length: "length (auto_title t c) \<le> max (length (py_or_str t [])) 81"
proof -
  let ?c = "py_or_str c []" and ?t = "py_or_str t []"
  have a: "length (py_strip (take 80 ?c)) \<le> 80"
    using py_strip_length[of "take 80 ?c"] by simp
  have b: "length (py_strip ?t) \<le> length ?t"
    by (rule py_strip_length)
  show ?thesis
    using a b by (auto simp: auto_title_def Let_def)
qed

lemma save_opt_no_file [simp]: "\<not> has_file f \<Longrightarrow> save_opt f s = Some (None, s)"
  by (simp add: save_opt_def)

lemma new_post_commit:
  assumes inv: "db_inv (store s)"
  shows "commit (store s) [InsertPost p] =
           (if title p = None then Inl IntegrityError
            else Inr ((store s)\<lparr>posts := posts (store s) @ [p\<lparr>p_id := fresh_id (map p_id (posts (store s)))\<rparr>]\<rparr>))"
  using db_invD(1)[OF inv] by (auto simp: commit_def constraints_ok_def)

lemma save_opt_store: "save_opt f s = Some (x, s') \<Longrightarrow> store s' = store s"
  by (auto simp: save_opt_def save_media_def Let_def split: if_splits)

lemma new_post_db_inv:
  assumes inv: "db_inv (store s)"
  shows "db_inv (store (snd (new_post s req now)))"
proof (cases "load_user s")
  case None
  then show ?thesis using inv by (simp add: new_post_def)
next
  case (Some cu)
  have cu: "u_id cu \<in> set (map u_id (users (store s)))" using load_user_in_store[OF Some] by simp
  show ?thesis
    using inv cu Some
    by (auto simp: new_post_def Let_def split: option.splits if_splits sum.splits prod.splits
             dest!: save_opt_store elim!: db_inv_insert_post[rotated 3])
qed

lemma edit_post_db_inv:
  assumes inv: "db_inv (store s)"
  shows "db_inv (store (snd (edit_post s i req)))"
  using inv
  by (auto simp: edit_post_def login_required_def Let_def split: option.splits if_splits sum.splits prod.splits
           dest!: save_opt_store elim!: db_inv_update_post[rotated 3])

lemma delete_post_db_inv:
  assumes inv: "db_inv (store s)"
  shows "db_inv (store (snd (delete_post s i)))"
  using inv
  by (auto simp: delete_post_def login_required_def split: option.splits if_splits sum.splits
           elim!: db_inv_delete_post[rotated 1])

lemma add_comment_db_inv:
  assumes inv: "db_inv (store s)"
  shows "db_inv (store (snd (add_comment s i f now)))"
proof (cases "load_user s")
  case None
  then show ?thesis using inv by (simp add: add_comment_def)
next
  case (Some cu)
  have cu: "u_id cu \<in> set (map u_id (users (store s)))" using load_user_in_store[OF Some] by simp
  show ?thesis
    using inv cu Some
    by (auto simp: add_comment_def split: option.splits if_splits sum.splits
             dest!: find_post_Some elim!: db_inv_insert_comment[rotated 3])
qed

lemma edit_comment_db_inv:
  assumes inv: "db_inv (store s)"
  shows "db_inv (store (snd (edit_comment s j req)))"
  using inv
  by (auto simp: edit_comment_def login_required_def split: option.splits if_splits sum.splits
           elim!: db_inv_update_comment[rotated 3])

lemma delete_comment_db_inv:
  assumes inv: "db_inv (store s)"
  shows "db_inv (store (snd (delete_comment s j)))"
  using inv
  by (auto simp: delete_comment_def login_required_def split: option.splits if_splits sum.splits
           elim!: db_inv_delete_comment[rotated 1])

lemma save_opt_file:
  assumes "pf = Some a" and "has_file pf" and "secure_filename (up_filename a) \<noteq> []"
  shows "save_opt pf s = Some (Some (secure_filename (up_filename a)),
            s\<lparr>disk := (disk s)(upload_folder @ secure_filename (up_filename a) \<mapsto> up_content a)\<rparr>)"
  using assms by (simp add: save_opt_def save_media_def Let_def)

lemma new_post_image:
  fixes now :: timestamp
  assumes inv: "db_inv (store s)" and u: "load_user s = Some u" and ok: "post_form_ok f"
    and img: "pf_image f = Some a" "has_file (pf_image f)" "secure_filename (up_filename a) \<noteq> []"
    and nv: "\<not> has_file (pf_video f)"
  defines "n \<equiv> secure_filename (up_filename a)"
  defines "p \<equiv> \<lparr>p_id = fresh_id (map p_id (posts (store s))),
                title = Some (auto_title (strip_filter (pf_title f)) (strip_filter (pf_content f))),
                p_content = Some (py_or_str (strip_filter (pf_content f)) []),
                image_file = Some n, video_file = None, p_date = now, p_user_id = u_id u, likes_count = 0\<rparr>"
  shows "new_post s (Some f) now =
           (Redirect (PostDetail (p_id p)),
            flash ''success'' ''Post published to CS Community.''
              (s\<lparr>disk := (disk s)(upload_folder @ n \<mapsto> up_content a),
                 store := (store s)\<lparr>posts := posts (store s) @ [p]\<rparr>\<rparr>))"
  using u ok nv save_opt_file[OF img, of s]
  by (simp add: new_post_def new_post_commit[OF inv] n_def p_def)

lemma save_opt_disk:
  assumes "save_opt f s = Some (x, s')" and "disk s' k \<noteq> disk s k"
  shows "upload_path_ok k"
proof -
  obtain u where f: "f = Some u" and fn: "secure_filename (up_filename u) \<noteq> []"
    and k: "k = upload_folder @ secure_filename (up_filename u)"
    using assms by (auto simp: save_opt_def save_media_def has_file_def Let_def
                         split: if_splits option.splits)
  then show ?thesis using secure_filename_safe[OF fn] by (simp add: upload_path_ok_def)
qed

lemma save_opt_disk2:
  assumes "save_opt f s = Some (x, s1)" and "save_opt g s1 = Some (y, s2)" and "disk s2 k \<noteq> disk s k"
  shows "upload_path_ok k"
  using assms save_opt_disk by metis

section \<open>Properties\<close>

text \<open>
  C7. The title derivation of \<open>new_post\<close> (spec \<section>4.3, \<section>8): when no title is given (the title field is empty or blank) and the content, as the form filter left it, is stripped and non-empty, the title is the content itself when it has at most 80 characters, and otherwise its first 80 characters, stripped, followed by an ellipsis.
\<close>

lemma auto_title_no_title:
  assumes "py_strip (py_or_str t []) = []" and "py_strip c = c" and "c \<noteq> []"
  shows "auto_title t (Some c) =
           (if length c \<le> 80 then c else py_strip (take 80 c) @ [ellipsis])"
proof -
  have nz: "py_strip (take 80 c) \<noteq> []"
    using py_strip_hd[OF assms(2,3)] assms(3)
    by (cases c) (simp_all add: py_strip_Nil_iff)
  show ?thesis
  proof (cases "length c \<le> 80")
    case True
    then show ?thesis using assms by (simp add: auto_title_def py_or_str_def)
  next
    case False
    then show ?thesis using assms nz by (simp add: auto_title_def py_or_str_def)
  qed
qed

lemma auto_title_no_title_witness:
  "py_strip (py_or_str None []) = [] \<and> py_strip (replicate 100 (CHR ''a'')) = replicate 100 (CHR ''a'') \<and>
   replicate 100 (CHR ''a'') \<noteq> [] \<and>
   auto_title None (Some (replicate 100 (CHR ''a''))) =
     (if length (replicate 100 (CHR ''a'')) \<le> 80 then replicate 100 (CHR ''a'')
      else py_strip (take 80 (replicate 100 (CHR ''a''))) @ [ellipsis])"
proof -
  have h: "py_strip (py_or_str None []) = []" "py_strip (replicate 100 (CHR ''a'')) = replicate 100 (CHR ''a'')"
    "replicate 100 (CHR ''a'') \<noteq> []"
    by (simp_all add: py_or_str_def) code_simp
  show ?thesis using h auto_title_no_title[OF h] by blast
qed

text \<open>
  C8. The title \<open>new_post\<close> stores for a valid form is never empty and fits the \<open>String(200)\<close> column: a given title passed \<open>Length(max=200)\<close> and a derived one has at most 81 characters.
\<close>

theorem new_post_title_fits:
  assumes ok: "post_form_ok f"
  shows "auto_title (strip_filter (pf_title f)) (strip_filter (pf_content f)) \<noteq> [] \<and>
         length (auto_title (strip_filter (pf_title f)) (strip_filter (pf_content f))) \<le> 200"
proof -
  have "length (py_or_str (strip_filter (pf_title f)) []) \<le> 200"
  proof (cases "py_strip (pf_title f) = []")
    case True
    then show ?thesis by (simp add: strip_filter_def py_or_str_def)
  next
    case False
    then have "pf_title f \<noteq> []" by auto
    with False ok show ?thesis
      by (simp add: post_form_ok_def optional_then_def length_ok_def strip_filter_def py_or_str_def)
  qed
  then show ?thesis
    using auto_title_nonempty auto_title_length[of "strip_filter (pf_title f)" "strip_filter (pf_content f)"]
    by simp
qed

lemma new_post_title_fits_witness:
  "post_form_ok hello_form \<and>
   auto_title (strip_filter (pf_title hello_form)) (strip_filter (pf_content hello_form)) \<noteq> [] \<and>
   length (auto_title (strip_filter (pf_title hello_form)) (strip_filter (pf_content hello_form))) \<le> 200"
  using demo_forms_ok(1) new_post_title_fits[OF demo_forms_ok(1)] by blast

text \<open>
  C9. Publishing a post (\<open>new_post\<close>): a signed-in member who submits a valid form without files gets a redirect to the new post, whose row is appended with the next free key, the derived title, the content, no media, the request time, the member as author and a zero like counter; the database stays consistent.
\<close>

theorem new_post_creates:
  fixes now :: timestamp
  assumes inv: "db_inv (store s)" and u: "load_user s = Some u" and ok: "post_form_ok f"
    and ni: "\<not> has_file (pf_image f)" and nv: "\<not> has_file (pf_video f)"
  defines "k \<equiv> fresh_id (map p_id (posts (store s)))"
  defines "p \<equiv> \<lparr>p_id = k, title = Some (auto_title (strip_filter (pf_title f)) (strip_filter (pf_content f))),
                p_content = Some (py_or_str (strip_filter (pf_content f)) []),
                image_file = None, video_file = None, p_date = now, p_user_id = u_id u, likes_count = 0\<rparr>"
  shows "new_post s (Some f) now =
           (Redirect (PostDetail k),
            flash ''success'' ''Post published to CS Community.''
              (s\<lparr>store := (store s)\<lparr>posts := posts (store s) @ [p]\<rparr>\<rparr>)) \<and>
         db_inv ((store s)\<lparr>posts := posts (store s) @ [p]\<rparr>)"
proof -
  have eq: "new_post s (Some f) now =
           (Redirect (PostDetail k),
            flash ''success'' ''Post published to CS Community.''
              (s\<lparr>store := (store s)\<lparr>posts := posts (store s) @ [p]\<rparr>\<rparr>))"
    using u ok ni nv by (simp add: new_post_def new_post_commit[OF inv] k_def p_def)
  have "u_id u \<in> set (map u_id (users (store s)))"
    using load_user_in_store[OF u] by simp
  then have "db_inv ((store s)\<lparr>posts := posts (store s) @ [p]\<rparr>)"
    using db_inv_insert_post[OF inv, of "p\<lparr>p_id := 0\<rparr>"] new_post_commit[OF inv, of "p\<lparr>p_id := 0\<rparr>"]
    by (simp add: p_def k_def)
  with eq show ?thesis by simp
qed

lemma new_post_creates_witness:
  "db_inv (store (signed_in 1)) \<and> load_user (signed_in 1) = Some alice \<and> post_form_ok hello_form \<and>
   \<not> has_file (pf_image hello_form) \<and> \<not> has_file (pf_video hello_form) \<and>
   new_post (signed_in 1) (Some hello_form) 200 =
     (Redirect (PostDetail (fresh_id (map p_id (posts (store (signed_in 1)))))),
      flash ''success'' ''Post published to CS Community.''
        ((signed_in 1)\<lparr>store := (store (signed_in 1))\<lparr>posts := posts (store (signed_in 1)) @
          [\<lparr>p_id = fresh_id (map p_id (posts (store (signed_in 1)))),
            title = Some (auto_title (strip_filter (pf_title hello_form)) (strip_filter (pf_content hello_form))),
            p_content = Some (py_or_str (strip_filter (pf_content hello_form)) []),
            image_file = None, video_file = None, p_date = 200, p_user_id = u_id alice, likes_count = 0\<rparr>]\<rparr>\<rparr>)) \<and>
   db_inv ((store (signed_in 1))\<lparr>posts := posts (store (signed_in 1)) @
          [\<lparr>p_id = fresh_id (map p_id (posts (store (signed_in 1)))),
            title = Some (auto_title (strip_filter (pf_title hello_form)) (strip_filter (pf_content hello_form))),
            p_content = Some (py_or_str (strip_filter (pf_content hello_form)) []),
            image_file = None, video_file = None, p_date = 200, p_user_id = u_id alice, likes_count = 0\<rparr>]\<rparr>)"
proof -
  have h: "db_inv (store (signed_in 1))" "load_user (signed_in 1) = Some alice" "post_form_ok hello_form"
    "\<not> has_file (pf_image hello_form)" "\<not> has_file (pf_video hello_form)"
    by (simp_all only: signed_in_store demo_db_inv signed_in_load_user demo_forms_ok demo_forms_files not_False_eq_True)
  show ?thesis using h new_post_creates[OF h, where now = 200] by blast
qed

text \<open>
  C10. Only the author may edit or delete a post (spec \<section>4.3, \<section>8): for a signed-in member who is not the post's author, \<open>edit_post\<close> and \<open>delete_post\<close> abort with 403 and leave the whole request state unchanged, whatever is submitted.
\<close>

theorem post_owner_enforced:
  assumes u: "load_user s = Some u" and fp: "find_post (store s) i = Some p"
    and other: "p_user_id p \<noteq> u_id u"
  shows "edit_post s i req = (Abort 403, s) \<and> delete_post s i = (Abort 403, s)"
  using u fp other by (simp add: edit_post_def delete_post_def)

lemma post_owner_enforced_witness:
  "load_user (signed_in 2) = Some bob \<and> find_post (store (signed_in 2)) 1 = Some hello_post \<and>
   p_user_id hello_post \<noteq> u_id bob \<and>
   edit_post (signed_in 2) 1 (Some titled_form) = (Abort 403, signed_in 2) \<and>
   delete_post (signed_in 2) 1 = (Abort 403, signed_in 2)"
proof -
  have h: "load_user (signed_in 2) = Some bob" "find_post (store (signed_in 2)) 1 = Some hello_post"
    "p_user_id hello_post \<noteq> u_id bob"
    by (simp_all only: signed_in_store signed_in_load_user demo_find_post) (simp add: hello_post_def bob_def)
  show ?thesis using h post_owner_enforced[OF h, where req = "Some titled_form"] by blast
qed

text \<open>
  C11. Only the author may edit or delete a comment (spec \<section>4.3): for a signed-in member who is not the comment's author, \<open>edit_comment\<close> and \<open>delete_comment\<close> abort with 403 and leave the request state unchanged.
\<close>

theorem comment_owner_enforced:
  assumes u: "load_user s = Some u" and fc: "find_comment (store s) j = Some c"
    and other: "c_user_id c \<noteq> u_id u"
  shows "edit_comment s j req = (Abort 403, s) \<and> delete_comment s j = (Abort 403, s)"
  using u fc other by (simp add: edit_comment_def delete_comment_def)

lemma comment_owner_enforced_witness:
  "load_user bob_on_comment = Some bob \<and> find_comment (store bob_on_comment) 1 = Some alice_comment \<and>
   c_user_id alice_comment \<noteq> u_id bob \<and>
   edit_comment bob_on_comment 1 (Some hi_comment) = (Abort 403, bob_on_comment) \<and>
   delete_comment bob_on_comment 1 = (Abort 403, bob_on_comment)"
  using bob_on_comment_facts comment_owner_enforced[OF bob_on_comment_facts, where req = "Some hi_comment"]
  by blast

text \<open>
  C12. Deleting a post cascades (spec \<section>3, \<section>8): when its author deletes a post of a consistent database, the route redirects to the feed, the post is gone, no comment and no like refers to it any more, every other post is kept in order, and the database stays consistent.
\<close>

theorem delete_post_cascade:
  assumes inv: "db_inv (store s)" and u: "load_user s = Some u"
    and fp: "find_post (store s) i = Some p" and own: "p_user_id p = u_id u"
  shows "delete_post s i = (Redirect Home, flash ''info'' ''Post deleted.'' (s\<lparr>store := drop_post i (store s)\<rparr>)) \<and>
         find_post (drop_post i (store s)) i = None \<and>
         list_all (\<lambda>c. c_post_id c \<noteq> i) (comments (drop_post i (store s))) \<and>
         list_all (\<lambda>l. l_post_id l \<noteq> i) (likes (drop_post i (store s))) \<and>
         posts (drop_post i (store s)) = filter (\<lambda>q. p_id q \<noteq> i) (posts (store s)) \<and>
         db_inv (drop_post i (store s))"
proof -
  have pi: "p_id p = i" using find_post_Some[OF fp] by simp
  have c: "commit (store s) [DeletePost i] = Inr (drop_post i (store s))"
    using constraints_ok_drop_post[OF db_invD(1)[OF inv]] by (simp add: commit_single)
  have "delete_post s i = (Redirect Home, flash ''info'' ''Post deleted.'' (s\<lparr>store := drop_post i (store s)\<rparr>))"
    using u fp own pi c by (simp add: delete_post_def)
  moreover have "db_inv (drop_post i (store s))"
    using db_inv_delete_post[OF inv c] .
  ultimately show ?thesis
    by (simp add: drop_post_def find_post_def find_None_iff list_all_iff)
qed

lemma delete_post_cascade_witness:
  "db_inv (store (signed_in 1)) \<and> load_user (signed_in 1) = Some alice \<and>
   find_post (store (signed_in 1)) 1 = Some hello_post \<and> p_user_id hello_post = u_id alice \<and>
   delete_post (signed_in 1) 1 = (Redirect Home, flash ''info'' ''Post deleted.'' ((signed_in 1)\<lparr>store := drop_post 1 (store (signed_in 1))\<rparr>)) \<and>
   find_post (drop_post 1 (store (signed_in 1))) 1 = None \<and>
   list_all (\<lambda>c. c_post_id c \<noteq> 1) (comments (drop_post 1 (store (signed_in 1)))) \<and>
   list_all (\<lambda>l. l_post_id l \<noteq> 1) (likes (drop_post 1 (store (signed_in 1)))) \<and>
   posts (drop_post 1 (store (signed_in 1))) = filter (\<lambda>q. p_id q \<noteq> 1) (posts (store (signed_in 1))) \<and>
   db_inv (drop_post 1 (store (signed_in 1)))"
proof -
  have h: "db_inv (store (signed_in 1))" "load_user (signed_in 1) = Some alice"
    "find_post (store (signed_in 1)) 1 = Some hello_post" "p_user_id hello_post = u_id alice"
    by (simp_all only: signed_in_store demo_db_inv signed_in_load_user demo_find_post) (simp add: hello_post_def alice_def)
  show ?thesis using h delete_post_cascade[OF h] by blast
qed

text \<open>
  C13. Editing a post with an empty title fails (spec \<section>4.3 says a post's title is never empty and is derived when not supplied): \<open>edit_post\<close> assigns the filtered title field directly, so a valid form whose title is left empty sets the title to NULL, the commit violates \<open>NOT NULL\<close>, and the request ends in a server error with the state unchanged.
\<close>

theorem edit_post_empty_title:
  assumes inv: "db_inv (store s)" and u: "load_user s = Some u"
    and fp: "find_post (store s) i = Some p" and own: "p_user_id p = u_id u"
    and ok: "post_form_ok f" and t: "pf_title f = []"
    and ni: "\<not> has_file (pf_image f)" and nv: "\<not> has_file (pf_video f)"
  shows "edit_post s i (Some f) = (Abort 500, s)"
proof -
  have pi: "p_id p = i" and pin: "p \<in> set (posts (store s))" using find_post_Some[OF fp] by simp_all
  let ?upd = "\<lambda>q. q\<lparr>title := strip_filter (pf_title f), p_content := strip_filter (pf_content f),
                   image_file := image_file q, video_file := video_file q\<rparr>"
  let ?d' = "(store s)\<lparr>posts := update_where (\<lambda>q. p_id q = i) (\<lambda>q. (?upd q)\<lparr>p_id := p_id q\<rparr>) (posts (store s))\<rparr>"
  have mem: "p\<lparr>title := None, p_content := strip_filter (pf_content f)\<rparr> \<in> set (posts ?d')"
    using pin pi t by (force simp: set_update_where strip_filter_def)
  have "\<not> list_all (\<lambda>q. title q \<noteq> None) (posts ?d')"
  proof
    assume "list_all (\<lambda>q. title q \<noteq> None) (posts ?d')"
    then have "\<forall>q\<in>set (posts ?d'). title q \<noteq> None" by (simp only: list_all_iff)
    from bspec[OF this mem] show False by simp
  qed
  then have nc: "\<not> constraints_ok ?d'"
    unfolding constraints_ok_def by blast
  have "flush (store s) [UpdatePost i ?upd] = Inr ?d'"
    using pin pi by force
  from this nc have "commit (store s) [UpdatePost i ?upd] = Inl IntegrityError"
    by (rule commit_Inl_flush)
  then show ?thesis
    using u fp own pi ok ni nv by (simp add: edit_post_def)
qed

lemma edit_post_empty_title_witness:
  "db_inv (store (signed_in 1)) \<and> load_user (signed_in 1) = Some alice \<and>
   find_post (store (signed_in 1)) 1 = Some hello_post \<and> p_user_id hello_post = u_id alice \<and>
   post_form_ok hello_form \<and> pf_title hello_form = [] \<and>
   \<not> has_file (pf_image hello_form) \<and> \<not> has_file (pf_video hello_form) \<and>
   edit_post (signed_in 1) 1 (Some hello_form) = (Abort 500, signed_in 1)"
proof -
  have h: "db_inv (store (signed_in 1))" "load_user (signed_in 1) = Some alice"
    "find_post (store (signed_in 1)) 1 = Some hello_post" "p_user_id hello_post = u_id alice"
    "post_form_ok hello_form" "pf_title hello_form = []"
    "\<not> has_file (pf_image hello_form)" "\<not> has_file (pf_video hello_form)"
    by (simp_all only: signed_in_store demo_db_inv signed_in_load_user demo_find_post demo_forms_ok demo_forms_files not_False_eq_True)
       (simp_all add: hello_post_def alice_def hello_form_def)
  show ?thesis using h edit_post_empty_title[OF h] by blast
qed

text \<open>
  C14. Editing a post replaces only what is supplied (spec \<section>4.3): when the author submits a valid form with a non-empty title and no new files, the route redirects to the post, the post's title and content are set from the form, its image and video are kept, and the database stays consistent.
\<close>

theorem edit_post_updates:
  assumes inv: "db_inv (store s)" and u: "load_user s = Some u"
    and fp: "find_post (store s) i = Some p" and own: "p_user_id p = u_id u"
    and ok: "post_form_ok f" and t: "pf_title f \<noteq> []"
    and ni: "\<not> has_file (pf_image f)" and nv: "\<not> has_file (pf_video f)"
  defines "d' \<equiv> (store s)\<lparr>posts := update_where (\<lambda>q. p_id q = i)
                  (\<lambda>q. q\<lparr>title := strip_filter (pf_title f), p_content := strip_filter (pf_content f)\<rparr>)
                  (posts (store s))\<rparr>"
  shows "edit_post s i (Some f) = (Redirect (PostDetail i), flash ''success'' ''Post updated.'' (s\<lparr>store := d'\<rparr>)) \<and>
         map_option (\<lambda>q. (image_file q, video_file q)) (find_post d' i) = Some (image_file p, video_file p) \<and>
         db_inv d'"
proof -
  have pi: "p_id p = i" and pin: "p \<in> set (posts (store s))" using find_post_Some[OF fp] by simp_all
  let ?upd = "\<lambda>q. q\<lparr>title := strip_filter (pf_title f), p_content := strip_filter (pf_content f),
                   image_file := image_file q, video_file := video_file q\<rparr>"
  have fl: "flush (store s) [UpdatePost i ?upd] = Inr d'"
    using pin pi by (force simp: d'_def)
  have "constraints_ok d'"
    using db_invD(1)[OF inv] t
    by (simp add: d'_def constraints_ok_def list_all_update_where strip_filter_def cong: if_cong)
       (auto simp: list_all_iff)
  with fl have c: "commit (store s) [UpdatePost i ?upd] = Inr d'"
    by (simp add: commit_Inr)
  have "edit_post s i (Some f) = (Redirect (PostDetail i), flash ''success'' ''Post updated.'' (s\<lparr>store := d'\<rparr>))"
    using u fp own pi ok ni nv c by (simp add: edit_post_def)
  moreover have "map_option (\<lambda>q. (image_file q, video_file q)) (find_post d' i) = Some (image_file p, video_file p)"
    using fp by (simp add: d'_def find_post_def find_update_where)
  moreover have "db_inv d'"
    using db_inv_update_post[OF inv _ _ c] by simp
  ultimately show ?thesis by simp
qed

lemma edit_post_updates_witness:
  "db_inv (store (signed_in 1)) \<and> load_user (signed_in 1) = Some alice \<and>
   find_post (store (signed_in 1)) 1 = Some hello_post \<and> p_user_id hello_post = u_id alice \<and>
   post_form_ok titled_form \<and> pf_title titled_form \<noteq> [] \<and>
   \<not> has_file (pf_image titled_form) \<and> \<not> has_file (pf_video titled_form) \<and>
   edit_post (signed_in 1) 1 (Some titled_form) =
     (Redirect (PostDetail 1), flash ''success'' ''Post updated.''
        ((signed_in 1)\<lparr>store := (store (signed_in 1))\<lparr>posts := update_where (\<lambda>q. p_id q = 1)
           (\<lambda>q. q\<lparr>title := strip_filter (pf_title titled_form), p_content := strip_filter (pf_content titled_form)\<rparr>)
           (posts (store (signed_in 1)))\<rparr>\<rparr>)) \<and>
   map_option (\<lambda>q. (image_file q, video_file q))
     (find_post ((store (signed_in 1))\<lparr>posts := update_where (\<lambda>q. p_id q = 1)
           (\<lambda>q. q\<lparr>title := strip_filter (pf_title titled_form), p_content := strip_filter (pf_content titled_form)\<rparr>)
           (posts (store (signed_in 1)))\<rparr>) 1) = Some (image_file hello_post, video_file hello_post) \<and>
   db_inv ((store (signed_in 1))\<lparr>posts := update_where (\<lambda>q. p_id q = 1)
           (\<lambda>q. q\<lparr>title := strip_filter (pf_title titled_form), p_content := strip_filter (pf_content titled_form)\<rparr>)
           (posts (store (signed_in 1)))\<rparr>)"
proof -
  have h: "db_inv (store (signed_in 1))" "load_user (signed_in 1) = Some alice"
    "find_post (store (signed_in 1)) 1 = Some hello_post" "p_user_id hello_post = u_id alice"
    "post_form_ok titled_form" "pf_title titled_form \<noteq> []"
    "\<not> has_file (pf_image titled_form)" "\<not> has_file (pf_video titled_form)"
    by (simp_all only: signed_in_store demo_db_inv signed_in_load_user demo_find_post demo_forms_ok demo_forms_files not_False_eq_True)
       (simp_all add: hello_post_def alice_def titled_form_def)
  show ?thesis using h edit_post_updates[OF h] by blast
qed

text \<open>
  C15. Commenting (\<open>add_comment\<close>): a signed-in member who submits a valid comment on an existing post gets a redirect to the post and a new comment row with the stripped text, the request time, the member as author and the post as parent; the database stays consistent.
\<close>

theorem add_comment_posts:
  fixes now :: timestamp
  assumes inv: "db_inv (store s)" and u: "load_user s = Some u"
    and fp: "find_post (store s) i = Some p" and ok: "comment_form_ok f"
  defines "c \<equiv> \<lparr>c_id = fresh_id (map c_id (comments (store s))), c_content = py_strip (cf_content f),
                c_date = now, c_user_id = u_id u, c_post_id = i\<rparr>"
  shows "add_comment s i f now =
           (Redirect (PostDetail i), flash ''success'' ''Comment posted.''
              (s\<lparr>store := (store s)\<lparr>comments := comments (store s) @ [c]\<rparr>\<rparr>)) \<and>
         db_inv ((store s)\<lparr>comments := comments (store s) @ [c]\<rparr>)"
proof -
  have pi: "p_id p = i" and pin: "p \<in> set (posts (store s))" using find_post_Some[OF fp] by simp_all
  have ne: "cf_content f \<noteq> []" using ok by (auto simp: comment_form_ok_def strip_filter_def data_required_def)
  let ?c0 = "\<lparr>c_id = 0, c_content = the (strip_filter (cf_content f)), c_date = now, c_user_id = u_id u, c_post_id = i\<rparr>"
  have cm: "commit (store s) [InsertComment ?c0] = Inr ((store s)\<lparr>comments := comments (store s) @ [c]\<rparr>)"
    using db_invD(1)[OF inv] ne by (simp add: commit_single constraints_ok_def c_def strip_filter_def)
  have "add_comment s i f now =
           (Redirect (PostDetail i), flash ''success'' ''Comment posted.''
              (s\<lparr>store := (store s)\<lparr>comments := comments (store s) @ [c]\<rparr>\<rparr>))"
    using u fp ok pi cm by (simp add: add_comment_def)
  moreover have "db_inv ((store s)\<lparr>comments := comments (store s) @ [c]\<rparr>)"
    using db_inv_insert_comment[OF inv _ _ cm] load_user_in_store[OF u] pin pi by force
  ultimately show ?thesis by simp
qed

lemma add_comment_posts_witness:
  "db_inv (store (signed_in 2)) \<and> load_user (signed_in 2) = Some bob \<and>
   find_post (store (signed_in 2)) 1 = Some hello_post \<and> comment_form_ok hi_comment \<and>
   add_comment (signed_in 2) 1 hi_comment 300 =
     (Redirect (PostDetail 1), flash ''success'' ''Comment posted.''
        ((signed_in 2)\<lparr>store := (store (signed_in 2))\<lparr>comments := comments (store (signed_in 2)) @
          [\<lparr>c_id = fresh_id (map c_id (comments (store (signed_in 2)))), c_content = py_strip (cf_content hi_comment),
            c_date = 300, c_user_id = u_id bob, c_post_id = 1\<rparr>]\<rparr>\<rparr>)) \<and>
   db_inv ((store (signed_in 2))\<lparr>comments := comments (store (signed_in 2)) @
          [\<lparr>c_id = fresh_id (map c_id (comments (store (signed_in 2)))), c_content = py_strip (cf_content hi_comment),
            c_date = 300, c_user_id = u_id bob, c_post_id = 1\<rparr>]\<rparr>)"
proof -
  have h: "db_inv (store (signed_in 2))" "load_user (signed_in 2) = Some bob"
    "find_post (store (signed_in 2)) 1 = Some hello_post" "comment_form_ok hi_comment"
    by (simp_all only: signed_in_store demo_db_inv signed_in_load_user demo_find_post demo_forms_ok)
  show ?thesis using h add_comment_posts[OF h] by blast
qed

text \<open>
  C16. A blank comment is refused (spec \<section>4.3 EmptyContent): when the submitted text is empty or only whitespace, \<open>add_comment\<close> stores nothing, flashes "Comment could not be posted." and redirects to the post.
\<close>

theorem add_comment_blank:
  assumes u: "load_user s = Some u" and fp: "find_post (store s) i = Some p"
    and blank: "py_strip (cf_content f) = []"
  shows "add_comment s i f now =
           (Redirect (PostDetail i), flash ''warning'' ''Comment could not be posted.'' s)"
proof -
  have pi: "p_id p = i" using find_post_Some[OF fp] by simp
  have "\<not> comment_form_ok f"
    using blank by (simp add: comment_form_ok_def data_required_def strip_filter_def)
  then show ?thesis using u fp pi by (simp add: add_comment_def)
qed

lemma add_comment_blank_witness:
  "load_user (signed_in 2) = Some bob \<and> find_post (store (signed_in 2)) 1 = Some hello_post \<and>
   py_strip (cf_content blank_comment) = [] \<and>
   add_comment (signed_in 2) 1 blank_comment 300 =
     (Redirect (PostDetail 1), flash ''warning'' ''Comment could not be posted.'' (signed_in 2))"
proof -
  have h: "load_user (signed_in 2) = Some bob" "find_post (store (signed_in 2)) 1 = Some hello_post"
    "py_strip (cf_content blank_comment) = []"
    by (simp_all only: signed_in_store signed_in_load_user demo_find_post)
       (simp add: blank_comment_def py_strip_def py_lstrip_def py_rstrip_def is_py_space_def)
  show ?thesis using h add_comment_blank[OF h] by blast
qed

text \<open>
  C33. Post media are stored under the client's file name, not a generated one (spec \<section>9 asks for generated references): when two posts attach different images whose names sanitise alike, the first post's \<open>image_file\<close> names the one file on disk, which now holds the second image.
\<close>

theorem new_post_media_shared:
  fixes t1 t2 :: timestamp
  assumes inv: "db_inv (store s)" and u: "load_user s = Some u"
    and ok1: "post_form_ok f1" and i1: "pf_image f1 = Some a" "has_file (pf_image f1)"
    and nv1: "\<not> has_file (pf_video f1)"
    and ok2: "post_form_ok f2" and i2: "pf_image f2 = Some b" "has_file (pf_image f2)"
    and nv2: "\<not> has_file (pf_video f2)"
    and ne: "secure_filename (up_filename a) \<noteq> []"
    and same: "secure_filename (up_filename b) = secure_filename (up_filename a)"
  shows "map_option image_file
           (find_post (store (snd (new_post (snd (new_post s (Some f1) t1)) (Some f2) t2)))
              (fresh_id (map p_id (posts (store s))))) =
           Some (Some (secure_filename (up_filename a))) \<and>
         disk (snd (new_post (snd (new_post s (Some f1) t1)) (Some f2) t2))
              (upload_folder @ secure_filename (up_filename a)) = Some (up_content b)"
proof -
  let ?s1 = "snd (new_post s (Some f1) t1)"
  have inv1: "db_inv (store ?s1)" using new_post_db_inv[OF inv] .
  note e1 = new_post_image[OF inv u ok1 i1 ne nv1, of t1]
  have u1: "load_user ?s1 = Some u"
    using u by (simp add: e1 load_user_def find_user_def flash_def split: option.splits)
  have ne2: "secure_filename (up_filename b) \<noteq> []" using same ne by simp
  note e2 = new_post_image[OF inv1 u1 ok2 i2 ne2 nv2, of t2]
  show ?thesis
    unfolding e2 by (simp add: e1 same flash_def find_post_def find_append)
qed

lemma new_post_media_shared_witness:
  "map_option image_file
     (find_post (store (snd (new_post (snd (new_post (signed_in 1) (Some cat_form_a) 10)) (Some cat_form_b) 20)))
        (fresh_id (map p_id (posts (store (signed_in 1)))))) =
     Some (Some (secure_filename (up_filename \<lparr>up_filename = ''cat.png'', up_content = ''A''\<rparr>))) \<and>
   disk (snd (new_post (snd (new_post (signed_in 1) (Some cat_form_a) 10)) (Some cat_form_b) 20))
     (upload_folder @ secure_filename (up_filename \<lparr>up_filename = ''cat.png'', up_content = ''A''\<rparr>)) =
     Some (up_content \<lparr>up_filename = ''cat.png'', up_content = ''B''\<rparr>)"
proof -
  have h: "db_inv (store (signed_in 1))" "load_user (signed_in 1) = Some alice"
    "post_form_ok cat_form_a" "pf_image cat_form_a = Some \<lparr>up_filename = ''cat.png'', up_content = ''A''\<rparr>"
    "has_file (pf_image cat_form_a)" "\<not> has_file (pf_video cat_form_a)"
    "post_form_ok cat_form_b" "pf_image cat_form_b = Some \<lparr>up_filename = ''cat.png'', up_content = ''B''\<rparr>"
    "has_file (pf_image cat_form_b)" "\<not> has_file (pf_video cat_form_b)"
    "secure_filename (up_filename \<lparr>up_filename = ''cat.png'', up_content = ''A''\<rparr>) \<noteq> []"
    "secure_filename (up_filename \<lparr>up_filename = ''cat.png'', up_content = ''B''\<rparr>) =
     secure_filename (up_filename \<lparr>up_filename = ''cat.png'', up_content = ''A''\<rparr>)"
    by (simp_all only: signed_in_store demo_db_inv signed_in_load_user)
       (simp_all add: cat_form_a_def cat_form_b_def hello_form_def titled_form_def has_file_def, code_simp+)
  show ?thesis using h new_post_media_shared[OF h] by blast
qed

text \<open>
  C32. Uploaded media stay in the upload folder: whatever the request, the only files
  \<open>new_post\<close> and \<open>edit_post\<close> create or overwrite are paths of the upload folder
  followed by a non-empty name of \<open>[A-Za-z0-9_.-]\<close> characters that does not start
  with a dot, whatever file name the client sent.
\<close>

theorem media_uploads_confined:
  assumes "disk (snd (new_post s req now)) k \<noteq> disk s k \<or> disk (snd (edit_post s i req')) k \<noteq> disk s k"
  shows "upload_path_ok k"
  using assms
  by (auto simp: new_post_def edit_post_def login_required_def Let_def flash_def
           split: option.splits if_splits sum.splits prod.splits
           dest: save_opt_disk save_opt_disk2)

lemma media_uploads_confined_witness:
  "upload_path_ok (upload_folder @ ''cat.png'')"
proof -
  have h: "disk (snd (new_post (signed_in 1) (Some cat_form_a) 5)) (upload_folder @ ''cat.png'') \<noteq>
           disk (signed_in 1) (upload_folder @ ''cat.png'') \<or>
           disk (snd (edit_post (signed_in 1) 1 None)) (upload_folder @ ''cat.png'') \<noteq>
           disk (signed_in 1) (upload_folder @ ''cat.png'')"
    by code_simp
  show ?thesis using media_uploads_confined[OF h] .
qed

text \<open>
  C38. Editing one's comment (spec \<section>4.3): on a consistent database, the author of a
  comment who submits a valid form is redirected to the comment's post, the comment's
  text becomes the stripped text of the form, nothing else changes, and the database
  stays consistent.
\<close>

theorem edit_comment_updates:
  assumes inv: "db_inv (store s)" and u: "load_user s = Some u"
    and fc: "find_comment (store s) j = Some c" and own: "c_user_id c = u_id u"
    and ok: "comment_form_ok f"
  defines "d' \<equiv> (store s)\<lparr>comments := update_where (\<lambda>x. c_id x = j)
                  (\<lambda>x. x\<lparr>c_content := the (strip_filter (cf_content f))\<rparr>) (comments (store s))\<rparr>"
  shows "edit_comment s j (Some f) =
           (Redirect (PostDetail (c_post_id c)), flash ''success'' ''Comment updated.'' (s\<lparr>store := d'\<rparr>)) \<and>
         map_option c_content (find_comment d' j) = Some (the (strip_filter (cf_content f))) \<and>
         db_inv d'"
proof -
  have ci: "c_id c = j" and cin: "c \<in> set (comments (store s))" using find_comment_Some[OF fc] by simp_all
  let ?g = "\<lambda>x. x\<lparr>c_content := the (strip_filter (cf_content f))\<rparr>"
  have fl: "flush (store s) [UpdateComment j ?g] = Inr d'"
    using cin ci by (force simp: d'_def)
  have "constraints_ok d'"
    using db_invD(1)[OF inv] by (simp add: d'_def constraints_ok_def)
  with fl have cm: "commit (store s) [UpdateComment j ?g] = Inr d'"
    by (simp add: commit_Inr)
  have "edit_comment s j (Some f) =
          (Redirect (PostDetail (c_post_id c)), flash ''success'' ''Comment updated.'' (s\<lparr>store := d'\<rparr>))"
    using u fc own ok ci cm by (simp add: edit_comment_def login_required_def)
  moreover have "map_option c_content (find_comment d' j) = Some (the (strip_filter (cf_content f)))"
    using fc by (simp add: d'_def find_comment_def find_update_where)
  moreover have "db_inv d'"
    using db_inv_update_comment[OF inv _ _ cm] by simp
  ultimately show ?thesis by simp
qed

lemma edit_comment_updates_witness:
  "map_option c_content (find_comment (store (snd (edit_comment (bob_on_comment\<lparr>session_user := Some 1\<rparr>) 1 (Some hi_comment)))) 1)
     = Some ''Nice post''"
proof -
  let ?s = "bob_on_comment\<lparr>session_user := Some 1\<rparr>"
  have h: "db_inv (store ?s)" "load_user ?s = Some alice" "find_comment (store ?s) 1 = Some alice_comment"
    "c_user_id alice_comment = u_id alice" "comment_form_ok hi_comment"
    by (simp_all add: bob_on_comment_def alice_comment_def fixture_defs db_inv_def constraints_ok_def
                      refs_ok_def like_counts_ok_def likes_of_def load_user_def find_user_def find_comment_def form_eval
                      hi_comment_def)
  note c = edit_comment_updates[OF h]
  show ?thesis using c by (simp add: hi_comment_def form_eval)
qed

text \<open>
  C39. Viewing a post: for a signed-in member and an existing post, \<open>post_detail\<close>
  renders that post with exactly the comments on it, oldest first, and marks it liked
  exactly when the member has a like row for it.
\<close>

theorem post_detail_shows:
  assumes u: "load_user s = Some u" and fp: "find_post (store s) i = Some p"
  shows "\<exists>cs liked. post_detail s i = (Render (PostView p cs liked), s) \<and>
           mset cs = mset (filter (\<lambda>c. c_post_id c = i) (comments (store s))) \<and>
           sorted (map c_date cs) \<and>
           (liked \<longleftrightarrow> list_ex (\<lambda>l. l_user_id l = u_id u \<and> l_post_id l = i) (likes (store s)))"
proof -
  have pi: "p_id p = i" using find_post_Some[OF fp] by simp
  have "post_detail s i = (Render (PostView p (post_comments (store s) i)
                             (find_like (store s) (u_id u) i \<noteq> None)), s)"
    using u fp pi by (simp add: post_detail_def login_required_def)
  moreover have "mset (post_comments (store s) i) = mset (filter (\<lambda>c. c_post_id c = i) (comments (store s)))"
    by (simp add: post_comments_def)
  moreover have "sorted (map c_date (post_comments (store s) i))"
    by (simp add: post_comments_def)
  moreover have "find_like (store s) (u_id u) i \<noteq> None \<longleftrightarrow>
                 list_ex (\<lambda>l. l_user_id l = u_id u \<and> l_post_id l = i) (likes (store s))"
    by (auto simp: find_like_def find_None_iff list_ex_iff)
  ultimately show ?thesis by blast
qed

lemma post_detail_shows_witness:
  "\<exists>cs liked. post_detail (signed_in 2) 1 = (Render (PostView hello_post cs liked), signed_in 2) \<and>
     mset cs = mset (filter (\<lambda>c. c_post_id c = 1) (comments (store (signed_in 2)))) \<and>
     sorted (map c_date cs) \<and>
     (liked \<longleftrightarrow> list_ex (\<lambda>l. l_user_id l = u_id bob \<and> l_post_id l = 1) (likes (store (signed_in 2))))"
proof -
  have h: "load_user (signed_in 2) = Some bob" "find_post (store (signed_in 2)) 1 = Some hello_post"
    by (simp_all only: signed_in_load_user signed_in_store demo_find_post)
  show ?thesis using post_detail_shows[OF h] .
qed

end
