(* ===== verification/Auth.thy ===== *)
theory Auth
  imports Uploads Fixtures
begin

text \<open>
  The identity routes: \<open>landing\<close>, \<open>register\<close> and \<open>login\<close> of
  \<open>src/Sky_Hub_Project/app.py\<close> (121--183) and the Google sign-in of
  \<open>src/Sky_Hub_Project/oauth.py\<close>. Random values (\<open>uuid4().hex\<close>, the password salt),
  the OAuth token exchange, the verified ID token and the bytes of a downloaded avatar
  are inputs of the operations. The Authlib check of the ID token is a library
  function, modelled after its code as \<open>id_token_ok\<close>.
\<close>

section \<open>Local accounts\<close>

definition landing :: "app_state \<Rightarrow> response \<times> app_state" where
  "landing s = (if load_user s \<noteq> None then (Redirect Home, s) else (Render (Template ''landing.html''), s))"

text \<open>
  \<open>register\<close>: the combined lookup of line 136 compares the filtered username and
  e-mail with the stored ones; the CV is saved before the picture.
\<close>

definition register ::
  "nat \<Rightarrow> string \<Rightarrow> string \<Rightarrow> (string \<Rightarrow> bool) \<Rightarrow> app_state \<Rightarrow> registration_form option \<Rightarrow>
   response \<times> app_state" where
  "register salt cv_hex pic_hex is_email s req =
     (if load_user s \<noteq> None then (Redirect Home, s)
      else case req of
        None \<Rightarrow> (Render (Template ''register.html''), s)
      | Some f \<Rightarrow>
          if \<not> registration_form_ok is_email f then (Render (Template ''register.html''), s)
          else
            (let uname = the (strip_filter (rf_username f));
                 em = the (strip_filter (rf_email f))
             in if find (\<lambda>u. username u = uname \<or> email u = em) (users (store s)) \<noteq> None
                then (Render (Template ''register.html''),
                      flash ''warning'' ''Username or email already registered.'' s)
                else
                  (let (cv_filename, s1) =
                         (if has_file (rf_cv_file f)
                          then (case save_cv cv_hex (the (rf_cv_file f)) s of (fn, s') \<Rightarrow> (Some fn, s'))
                          else (None, s));
                       (profile_fn, s2) =
                         (if has_file (rf_profile_image f)
                          then save_picture pic_hex (the (rf_profile_image f)) s1
                          else (default_profile, s1));
                       u = set_password salt (rf_password f)
                             \<lparr>u_id = 0, username = uname, email = em, password_hash = None,
                              track = Some (rf_track f), skills = strip_filter (rf_skills f),
                              available_for_project = rf_available f, github_link = None,
                              portfolio_link = None, linkedin_link = None, phone_number = None,
                              cv_file = cv_filename, profile_image = profile_fn\<rparr>
                   in case commit (store s2) [InsertUser u] of
                        Inr d' \<Rightarrow> (Redirect LoginPage,
                                   flash ''success'' ''Welcome to CS Community! Your account is ready.''
                                     (s2\<lparr>store := d'\<rparr>))
                      | Inl _ \<Rightarrow> (Abort 500, s2))))"

text \<open>\<open>redirect(next_page or url_for("home"))\<close>: the \<open>next\<close> query argument, unchecked.\<close>

definition login_target :: "string option \<Rightarrow> page" where
  "login_target next_page = (case next_page of None \<Rightarrow> Home | Some n \<Rightarrow> if n = [] then Home else NextUrl n)"

definition login ::
  "(string \<Rightarrow> bool) \<Rightarrow> string option \<Rightarrow> app_state \<Rightarrow> login_form option \<Rightarrow> response \<times> app_state" where
  "login is_email next_page s req =
     (if load_user s \<noteq> None then (Redirect Home, s)
      else case req of
        None \<Rightarrow> (Render (Template ''login.html''), s)
      | Some f \<Rightarrow>
          if \<not> login_form_ok is_email f then (Render (Template ''login.html''), s)
          else (case user_by_email (store s) (the (strip_filter (lf_email f))) of
                  None \<Rightarrow> (Render (Template ''login.html''), flash ''danger'' ''Incorrect email or password.'' s)
                | Some u \<Rightarrow>
                    (case check_password u (lf_password f) of
                       None \<Rightarrow> (Abort 500, s)
                     | Some False \<Rightarrow>
                         (Render (Template ''login.html''), flash ''danger'' ''Incorrect email or password.'' s)
                     | Some True \<Rightarrow>
                         (Redirect (login_target next_page),
                          flash ''success'' (''Welcome back, '' @ username u @ ''!'') (login_user u s)))))"

section \<open>Google sign-in\<close>



definition google_login :: "string \<Rightarrow> app_state \<Rightarrow> response \<times> app_state" where
  "google_login nonce s =
     (if load_user s \<noteq> None then (Redirect Home, s)
      else (Redirect (GoogleConsent nonce), s\<lparr>oauth_nonce := Some nonce\<rparr>))"

text \<open>
  \<open>_download_google_picture\<close>: \<open>fetched\<close> is the body \<open>urlretrieve\<close> wrote, or
  \<open>None\<close> when it raised.
\<close>

definition download_google_picture ::
  "string \<Rightarrow> string option \<Rightarrow> string \<Rightarrow> app_state \<Rightarrow> string \<times> app_state" where
  "download_google_picture hex fetched picture_url s =
     (if picture_url = [] then (default_profile, s)
      else (case fetched of
              None \<Rightarrow> (default_profile, s)
            | Some bytes \<Rightarrow> (hex @ ''.jpg'', s\<lparr>disk := (disk s)(picture_folder @ hex @ ''.jpg'' \<mapsto> bytes)\<rparr>)))"

definition unique_username :: "string \<Rightarrow> db \<Rightarrow> string \<Rightarrow> string" where
  "unique_username hex d base =
     (let candidate = (if base = [] then ''user'' else base)
      in if user_by_username d candidate = None then candidate
         else candidate @ ''_'' @ take 6 hex)"


section \<open>Data for the witnesses\<close>

definition anon_state :: app_state where
  "anon_state = \<lparr>store = demo_db, session_user = None, oauth_nonce = None, flashes = [], disk = Map.empty\<rparr>"

definition has_at :: "string \<Rightarrow> bool" where
  "has_at e \<longleftrightarrow> CHR ''@'' \<in> set e"

definition carol_form :: registration_form where
  "carol_form = \<lparr>rf_username = ''carol'', rf_email = ''carol@uni.edu'', rf_track = ''Data Science'',
                 rf_skills = ''ML'', rf_available = True, rf_password = ''pass123'',
                 rf_confirm = ''pass123'', rf_profile_image = None, rf_cv_file = None, rf_csrf = True\<rparr>"

definition dup_form :: registration_form where
  "dup_form = carol_form\<lparr>rf_username := ''alice''\<rparr>"

definition carol_login :: login_form where
  "carol_login = \<lparr>lf_email = ''carol@uni.edu'', lf_password = ''pass123'', lf_csrf = True\<rparr>"

definition alice_login :: login_form where
  "alice_login = \<lparr>lf_email = ''alice@uni.edu'', lf_password = ''secret1'', lf_csrf = True\<rparr>"

definition alice_wrong :: login_form where
  "alice_wrong = alice_login\<lparr>lf_password := ''secret2''\<rparr>"


definition collide_db :: db where
  "collide_db = demo_db\<lparr>users := [bob, bob\<lparr>u_id := 3, username := ''bob_abcdef'', email := ''b2@uni.edu''\<rparr>]\<rparr>"

lemmas auth_eval = anon_state_def has_at_def carol_form_def dup_form_def carol_login_def alice_login_def
  alice_wrong_def collide_db_def registration_form_ok_def login_form_ok_def track_choices_def
  form_eval

section \<open>Lemmas\<close>

lemma login_known:
  assumes anon: "load_user s = None" and ok: "login_form_ok is_email f"
    and u: "user_by_email (store s) (the (strip_filter (lf_email f))) = Some u"
  shows "login is_email next_page s (Some f) =
           (case check_password u (lf_password f) of
              None \<Rightarrow> (Abort 500, s)
            | Some False \<Rightarrow> (Render (Template ''login.html''), flash ''danger'' ''Incorrect email or password.'' s)
            | Some True \<Rightarrow> (Redirect (login_target next_page),
                             flash ''success'' (''Welcome back, '' @ username u @ ''!'') (login_user u s)))"
  using assms by (simp add: login_def)

lemma download_google_picture_store [simp]:
  "store (snd (download_google_picture hex fetched url s)) = store s"
  "session_user (snd (download_google_picture hex fetched url s)) = session_user s"
  by (simp_all add: download_google_picture_def split: option.splits)

lemma register_db_inv:
  assumes inv: "db_inv (store s)"
  shows "db_inv (store (snd (register salt cv_hex pic_hex is_email s req)))"
  using inv
  by (auto simp: register_def Let_def split: option.splits if_splits sum.splits prod.splits
           dest!: save_cv_store_eq save_picture_store_eq elim!: db_inv_insert_user[rotated 1])

section \<open>Properties\<close>

text \<open>
  C17. Registration refuses a taken identity (spec \<section>4.2 DuplicateIdentity, \<section>8): when the username or the e-mail of a valid registration form is already stored, \<open>register\<close> writes nothing and re-renders the form with one warning that does not say which field collided.
\<close>

theorem register_duplicate:
  assumes anon: "load_user s = None" and ok: "registration_form_ok is_email f"
    and taken: "user_by_username (store s) (the (strip_filter (rf_username f))) \<noteq> None \<or>
                user_by_email (store s) (the (strip_filter (rf_email f))) \<noteq> None"
  shows "register salt cv_hex pic_hex is_email s (Some f) =
           (Render (Template ''register.html''), flash ''warning'' ''Username or email already registered.'' s)"
proof -
  have "find (\<lambda>u. username u = the (strip_filter (rf_username f)) \<or> email u = the (strip_filter (rf_email f)))
          (users (store s)) \<noteq> None"
    using taken by (auto simp: user_by_username_def user_by_email_def find_None_iff)
  then show ?thesis using anon ok by (simp add: register_def Let_def)
qed

lemma register_duplicate_witness:
  "load_user anon_state = None \<and> registration_form_ok has_at dup_form \<and>
   user_by_username (store anon_state) (the (strip_filter (rf_username dup_form))) \<noteq> None \<and>
   register 5 ''c0'' ''p0'' has_at anon_state (Some dup_form) =
     (Render (Template ''register.html''), flash ''warning'' ''Username or email already registered.'' anon_state)"
proof -
  have h: "load_user anon_state = None" "registration_form_ok has_at dup_form"
    "user_by_username (store anon_state) (the (strip_filter (rf_username dup_form))) \<noteq> None"
    by (simp_all add: auth_eval load_user_def user_by_username_def fixture_defs)
  show ?thesis using h register_duplicate[OF h(1,2) disjI1[OF h(3)]] by blast
qed

text \<open>
  C18. Registration creates the member (spec \<section>4.2): an anonymous visitor whose valid form names a free username and a free e-mail, without files, is redirected to the login page and one user row is appended with the next key, the filtered fields, a hash of the password and the placeholder avatar; the database stays consistent.
\<close>

theorem register_creates:
  fixes salt :: nat
  assumes inv: "db_inv (store s)" and anon: "load_user s = None" and ok: "registration_form_ok is_email f"
    and fu: "user_by_username (store s) (the (strip_filter (rf_username f))) = None"
    and fe: "user_by_email (store s) (the (strip_filter (rf_email f))) = None"
    and ncv: "\<not> has_file (rf_cv_file f)" and npic: "\<not> has_file (rf_profile_image f)"
  defines "u \<equiv> \<lparr>u_id = fresh_id (map u_id (users (store s))), username = the (strip_filter (rf_username f)),
                email = the (strip_filter (rf_email f)),
                password_hash = Some (generate_password_hash salt (rf_password f)),
                track = Some (rf_track f), skills = strip_filter (rf_skills f),
                available_for_project = rf_available f, github_link = None,
                portfolio_link = None, linkedin_link = None, phone_number = None,
                cv_file = None, profile_image = default_profile\<rparr>"
  shows "register salt cv_hex pic_hex is_email s (Some f) =
           (Redirect LoginPage, flash ''success'' ''Welcome to CS Community! Your account is ready.''
              (s\<lparr>store := (store s)\<lparr>users := users (store s) @ [u]\<rparr>\<rparr>)) \<and>
         db_inv ((store s)\<lparr>users := users (store s) @ [u]\<rparr>)"
proof -
  let ?d' = "(store s)\<lparr>users := users (store s) @ [u]\<rparr>"
  have nf: "find (\<lambda>x. username x = the (strip_filter (rf_username f)) \<or> email x = the (strip_filter (rf_email f)))
              (users (store s)) = None"
    using fu fe by (auto simp: user_by_username_def user_by_email_def find_None_iff)
  have "constraints_ok ?d'"
    using db_invD(1)[OF inv] fu fe
    by (simp add: constraints_ok_def u_def user_by_username_None user_by_email_None)
  then have c: "commit (store s) [InsertUser (set_password salt (rf_password f)
                   \<lparr>u_id = 0, username = the (strip_filter (rf_username f)), email = the (strip_filter (rf_email f)),
                    password_hash = None, track = Some (rf_track f), skills = strip_filter (rf_skills f),
                    available_for_project = rf_available f, github_link = None,
                    portfolio_link = None, linkedin_link = None, phone_number = None,
                    cv_file = None, profile_image = default_profile\<rparr>)] = Inr ?d'"
    by (simp add: commit_single u_def set_password_def)
  have "register salt cv_hex pic_hex is_email s (Some f) =
           (Redirect LoginPage, flash ''success'' ''Welcome to CS Community! Your account is ready.'' (s\<lparr>store := ?d'\<rparr>))"
    using anon ok nf ncv npic c by (simp add: register_def Let_def)
  moreover have "db_inv ?d'" using db_inv_insert_user[OF inv c] .
  ultimately show ?thesis by simp
qed

lemma register_creates_witness:
  "db_inv (store anon_state) \<and> load_user anon_state = None \<and> registration_form_ok has_at carol_form \<and>
   user_by_username (store anon_state) (the (strip_filter (rf_username carol_form))) = None \<and>
   user_by_email (store anon_state) (the (strip_filter (rf_email carol_form))) = None \<and>
   \<not> has_file (rf_cv_file carol_form) \<and> \<not> has_file (rf_profile_image carol_form) \<and>
   fst (register 5 ''c0'' ''p0'' has_at anon_state (Some carol_form)) = Redirect LoginPage"
proof -
  have h: "db_inv (store anon_state)" "load_user anon_state = None" "registration_form_ok has_at carol_form"
    "user_by_username (store anon_state) (the (strip_filter (rf_username carol_form))) = None"
    "user_by_email (store anon_state) (the (strip_filter (rf_email carol_form))) = None"
    "\<not> has_file (rf_cv_file carol_form)" "\<not> has_file (rf_profile_image carol_form)"
    using demo_db_inv by (simp_all add: auth_eval load_user_def user_by_username_def user_by_email_def fixture_defs)
  show ?thesis using h register_creates[OF h, where salt = 5] by simp
qed

text \<open>
  C19. Register, then log in (spec \<section>4.2, a round trip through the credential store): after a successful registration, a login with the same e-mail and password succeeds, is redirected to the requested page, and signs in the member just created.
\<close>

theorem register_login_roundtrip:
  fixes salt :: nat
  assumes inv: "db_inv (store s)" and anon: "session_user s = None"
    and ok: "registration_form_ok is_email f"
    and fu: "user_by_username (store s) (the (strip_filter (rf_username f))) = None"
    and fe: "user_by_email (store s) (the (strip_filter (rf_email f))) = None"
    and ncv: "\<not> has_file (rf_cv_file f)" and npic: "\<not> has_file (rf_profile_image f)"
    and g_ok: "login_form_ok is_email g" and ge: "lf_email g = rf_email f"
    and gp: "lf_password g = rf_password f"
  shows "fst (login is_email next_page (snd (register salt cv_hex pic_hex is_email s (Some f))) (Some g)) =
           Redirect (login_target next_page) \<and>
         map_option username (load_user (snd (login is_email next_page
            (snd (register salt cv_hex pic_hex is_email s (Some f))) (Some g)))) =
           Some (the (strip_filter (rf_username f)))"
proof -
  have a: "load_user s = None" using anon by (simp add: load_user_def)
  let ?u = "\<lparr>u_id = fresh_id (map u_id (users (store s))), username = the (strip_filter (rf_username f)),
                email = the (strip_filter (rf_email f)),
                password_hash = Some (generate_password_hash salt (rf_password f)),
                track = Some (rf_track f), skills = strip_filter (rf_skills f),
                available_for_project = rf_available f, github_link = None,
                portfolio_link = None, linkedin_link = None, phone_number = None,
                cv_file = None, profile_image = default_profile\<rparr>"
  let ?s1 = "flash ''success'' ''Welcome to CS Community! Your account is ready.''
              (s\<lparr>store := (store s)\<lparr>users := users (store s) @ [?u]\<rparr>\<rparr>)"
  have r: "snd (register salt cv_hex pic_hex is_email s (Some f)) = ?s1"
    using register_creates[OF inv a ok fu fe ncv npic] by simp
  have a1: "load_user ?s1 = None" using anon by (simp add: load_user_def flash_def)
  have e: "user_by_email (store ?s1) (the (strip_filter (lf_email g))) = Some ?u"
    using fe ge by (simp add: user_by_email_def find_append)
  have p: "check_password ?u (lf_password g) = Some True"
    using gp by (simp add: check_password_def generate_password_hash_def)
  have l: "login is_email next_page ?s1 (Some g) =
             (Redirect (login_target next_page),
              flash ''success'' (''Welcome back, '' @ username ?u @ ''!'') (login_user ?u ?s1))"
    using login_known[OF a1 g_ok e] p by simp
  have "load_user (flash ''success'' (''Welcome back, '' @ username ?u @ ''!'') (login_user ?u ?s1)) = Some ?u"
    by (simp add: load_user_def login_user_def flash_def find_user_def find_append find_None_iff)
  then show ?thesis using r l by simp
qed

lemma register_login_roundtrip_witness:
  "fst (login has_at None (snd (register 5 ''c0'' ''p0'' has_at anon_state (Some carol_form))) (Some carol_login)) =
     Redirect (login_target None) \<and>
   map_option username (load_user (snd (login has_at None
      (snd (register 5 ''c0'' ''p0'' has_at anon_state (Some carol_form))) (Some carol_login)))) =
     Some (the (strip_filter (rf_username carol_form)))"
proof -
  have h: "db_inv (store anon_state)" "session_user anon_state = None" "registration_form_ok has_at carol_form"
    "user_by_username (store anon_state) (the (strip_filter (rf_username carol_form))) = None"
    "user_by_email (store anon_state) (the (strip_filter (rf_email carol_form))) = None"
    "\<not> has_file (rf_cv_file carol_form)" "\<not> has_file (rf_profile_image carol_form)"
    "login_form_ok has_at carol_login" "lf_email carol_login = rf_email carol_form"
    "lf_password carol_login = rf_password carol_form"
    using demo_db_inv by (simp_all add: auth_eval user_by_username_def user_by_email_def fixture_defs)
  show ?thesis using register_login_roundtrip[OF h] by blast
qed

text \<open>
  C20. Failed logins are indistinguishable (spec \<section>4.2, \<section>8): for a valid login form, an unknown e-mail and a wrong password give the same response and the same state, one "Incorrect email or password." flash and the login page.
\<close>

theorem login_failure_uniform:
  assumes anon: "load_user s = None" and ok: "login_form_ok is_email f"
    and bad: "user_by_email (store s) (the (strip_filter (lf_email f))) = None \<or>
              (\<exists>u. user_by_email (store s) (the (strip_filter (lf_email f))) = Some u \<and>
                   check_password u (lf_password f) = Some False)"
  shows "login is_email next_page s (Some f) =
           (Render (Template ''login.html''), flash ''danger'' ''Incorrect email or password.'' s)"
  using bad
proof
  assume "user_by_email (store s) (the (strip_filter (lf_email f))) = None"
  then show ?thesis using anon ok by (simp add: login_def)
next
  assume "\<exists>u. user_by_email (store s) (the (strip_filter (lf_email f))) = Some u \<and>
              check_password u (lf_password f) = Some False"
  then obtain u where "user_by_email (store s) (the (strip_filter (lf_email f))) = Some u"
    and "check_password u (lf_password f) = Some False" by blast
  then show ?thesis using login_known[OF anon ok] by simp
qed

lemma login_failure_uniform_witness:
  "load_user anon_state = None \<and> login_form_ok has_at alice_wrong \<and>
   (\<exists>u. user_by_email (store anon_state) (the (strip_filter (lf_email alice_wrong))) = Some u \<and>
        check_password u (lf_password alice_wrong) = Some False) \<and>
   login has_at None anon_state (Some alice_wrong) =
     (Render (Template ''login.html''), flash ''danger'' ''Incorrect email or password.'' anon_state)"
proof -
  have h: "load_user anon_state = None" "login_form_ok has_at alice_wrong"
    "\<exists>u. user_by_email (store anon_state) (the (strip_filter (lf_email alice_wrong))) = Some u \<and>
         check_password u (lf_password alice_wrong) = Some False"
    by (simp_all add: auth_eval load_user_def user_by_email_def fixture_defs check_password_def
                      generate_password_hash_def)
  show ?thesis using h login_failure_uniform[OF h(1,2) disjI2[OF h(3)]] by blast
qed

text \<open>
  C21. A successful login follows the \<open>next\<close> argument unchecked: for any non-empty URL, the member with the right password is signed in and redirected to that URL, whatever host it names (an open redirect; the spec does not cover it).
\<close>

theorem login_redirects_to_next:
  assumes anon: "load_user s = None" and ok: "login_form_ok is_email f"
    and u: "user_by_email (store s) (the (strip_filter (lf_email f))) = Some u"
    and pw: "check_password u (lf_password f) = Some True"
  shows "login is_email (Some url) s (Some f) =
           (Redirect (if url = [] then Home else NextUrl url),
            flash ''success'' (''Welcome back, '' @ username u @ ''!'') (s\<lparr>session_user := Some (u_id u)\<rparr>))"
  using login_known[OF anon ok u] pw by (simp add: login_target_def login_user_def)

lemma login_redirects_to_next_witness:
  "load_user anon_state = None \<and> login_form_ok has_at alice_login \<and>
   user_by_email (store anon_state) (the (strip_filter (lf_email alice_login))) = Some alice \<and>
   check_password alice (lf_password alice_login) = Some True \<and>
   login has_at (Some ''https://evil.example/'') anon_state (Some alice_login) =
     (Redirect (if ''https://evil.example/'' = [] then Home else NextUrl ''https://evil.example/''),
      flash ''success'' (''Welcome back, '' @ username alice @ ''!'') (anon_state\<lparr>session_user := Some (u_id alice)\<rparr>))"
proof -
  have h: "load_user anon_state = None" "login_form_ok has_at alice_login"
    "user_by_email (store anon_state) (the (strip_filter (lf_email alice_login))) = Some alice"
    "check_password alice (lf_password alice_login) = Some True"
    by (simp_all add: auth_eval load_user_def user_by_email_def fixture_defs check_password_def
                      generate_password_hash_def)
  show ?thesis using h login_redirects_to_next[OF h] by blast
qed



text \<open>
  C23. \<open>_unique_username\<close> checks only the base name: when the base and the base with the random suffix are both taken, it returns a taken name (spec \<section>4.2 asks to retry until unique).
\<close>

theorem unique_username_may_collide:
  assumes "base \<noteq> []" and "user_by_username d base \<noteq> None"
    and "user_by_username d (base @ ''_'' @ take 6 hex) \<noteq> None"
  shows "user_by_username d (unique_username hex d base) \<noteq> None"
  using assms by (simp add: unique_username_def)

lemma unique_username_may_collide_witness:
  "''bob'' \<noteq> [] \<and> user_by_username collide_db ''bob'' \<noteq> None \<and>
   user_by_username collide_db (''bob'' @ ''_'' @ take 6 ''abcdef0123'') \<noteq> None \<and>
   user_by_username collide_db (unique_username ''abcdef0123'' collide_db ''bob'') \<noteq> None"
proof -
  have h: "''bob'' \<noteq> []" "user_by_username collide_db ''bob'' \<noteq> None"
    "user_by_username collide_db (''bob'' @ ''_'' @ take 6 ''abcdef0123'') \<noteq> None"
    by (simp_all add: collide_db_def user_by_username_def fixture_defs)
  show ?thesis using h unique_username_may_collide[OF h] by blast
qed

end
