(* ===== verification/Queries.thy ===== *)
theory Queries
  imports Fixtures
begin

text \<open>
  The read-only routes of \<open>src/Sky_Hub_Project/app.py\<close>: the feed \<open>home\<close>
  (197--223), \<open>profile\<close> and \<open>me\<close> (230--242) and the member search \<open>network\<close>
  (245--290). A query string argument is the raw string, \<open>''''\<close> when absent
  (\<open>request.args.get(k, "")\<close>). \<open>ORDER BY\<close> is a stable sort of the table in
  insertion order; SQL leaves the order of ties open, and the properties below hold for
  any order of ties. \<open>ilike\<close> compiles on SQLite to \<open>lower(x) LIKE lower(y)\<close>;
  SQLite's \<open>lower\<close> folds ASCII letters only, as \<open>py_lower\<close> does, and a NULL
  column matches nothing.
\<close>

section \<open>SQL LIKE\<close>

text \<open>
  SQLite's \<open>LIKE\<close> without \<open>ESCAPE\<close>: \<open>%\<close> matches any run of characters,
  \<open>_\<close> exactly one, every other character itself.
\<close>

fun like_match :: "string \<Rightarrow> string \<Rightarrow> bool" where
  "like_match [] t \<longleftrightarrow> t = []"
| "like_match (c # p) [] \<longleftrightarrow> c = CHR ''%'' \<and> like_match p []"
| "like_match (c # p) (x # xs) \<longleftrightarrow>
     (if c = CHR ''%'' then like_match p (x # xs) \<or> like_match (c # p) xs
      else (c = CHR ''_'' \<or> c = x) \<and> like_match p xs)"

definition ilike :: "string option \<Rightarrow> string \<Rightarrow> bool" where
  "ilike col pat = (case col of None \<Rightarrow> False | Some x \<Rightarrow> like_match (py_lower pat) (py_lower x))"

section \<open>The feed\<close>

text \<open>\<open>Post.query.join(User)\<close> with the optional filters on the author.\<close>

definition feed_filter :: "db \<Rightarrow> string \<Rightarrow> string \<Rightarrow> post \<Rightarrow> bool" where
  "feed_filter d track_filter available_filter p =
     (case find_user d (p_user_id p) of
        None \<Rightarrow> False
      | Some u \<Rightarrow> (track_filter = [] \<or> track u = Some track_filter) \<and>
                 (available_filter \<noteq> ''yes'' \<or> available_for_project u))"

definition newest_first :: "post list \<Rightarrow> post list" where
  "newest_first ps = sort_key (\<lambda>p. - int (p_date p)) ps"

definition home_posts :: "db \<Rightarrow> string \<Rightarrow> string \<Rightarrow> post list" where
  "home_posts d track_arg available_arg =
     newest_first (filter (feed_filter d (py_strip track_arg) (py_strip available_arg)) (posts d))"

definition home :: "app_state \<Rightarrow> string \<Rightarrow> string \<Rightarrow> response \<times> app_state" where
  "home s track_arg available_arg =
     login_required (\<lambda>cu. (Render (FeedView (home_posts (store s) track_arg available_arg)), s)) s"

section \<open>Profiles\<close>

definition total_likes :: "post list \<Rightarrow> int" where
  "total_likes ps = sum_list (map (\<lambda>p. py_or_int (likes_count p) 0) ps)"

definition profile :: "app_state \<Rightarrow> user_id \<Rightarrow> response \<times> app_state" where
  "profile s user_id = login_required (\<lambda>cu.
     (case find_user (store s) user_id of
        None \<Rightarrow> (Abort 404, s)
      | Some u \<Rightarrow>
          (let ps = newest_first (filter (\<lambda>p. p_user_id p = u_id u) (posts (store s)))
           in (Render (ProfileView u ps (total_likes ps)), s)))) s"

definition me :: "app_state \<Rightarrow> response \<times> app_state" where
  "me s = login_required (\<lambda>cu. (Redirect (ProfilePage (u_id cu)), s)) s"

section \<open>Member search\<close>

definition network_filter :: "user_id \<Rightarrow> string \<Rightarrow> string \<Rightarrow> string \<Rightarrow> user \<Rightarrow> bool" where
  "network_filter me_id search_q track_filter avail_filter u =
     (u_id u \<noteq> me_id \<and>
      (search_q = [] \<or>
         (let pat = ''%'' @ search_q @ ''%''
          in ilike (Some (username u)) pat \<or> ilike (skills u) pat \<or> ilike (track u) pat)) \<and>
      (track_filter = [] \<or> track u = Some track_filter) \<and>
      (avail_filter \<noteq> ''yes'' \<or> available_for_project u))"

text \<open>\<open>ORDER BY available_for_project DESC, username ASC\<close>; usernames compare by code point.\<close>

definition network_order :: "user list \<Rightarrow> user list" where
  "network_order us = sort_key (\<lambda>u. (\<not> available_for_project u, username u)) us"

definition network_users :: "db \<Rightarrow> user_id \<Rightarrow> string \<Rightarrow> string \<Rightarrow> string \<Rightarrow> user list" where
  "network_users d me_id search_arg track_arg avail_arg =
     network_order (filter (network_filter me_id (py_strip search_arg) (py_strip track_arg) (py_strip avail_arg))
                           (users d))"

definition network :: "app_state \<Rightarrow> string \<Rightarrow> string \<Rightarrow> string \<Rightarrow> response \<times> app_state" where
  "network s search_arg track_arg avail_arg = login_required (\<lambda>cu.
     (let us = network_users (store s) (u_id cu) search_arg track_arg avail_arg
      in (Render (NetworkView us (length us)), s))) s"

section \<open>Specifications\<close>

text \<open>A search string in which \<open>LIKE\<close> sees no wildcard.\<close>

definition no_wildcard :: "string \<Rightarrow> bool" where
  "no_wildcard q \<longleftrightarrow> list_all (\<lambda>c. c \<noteq> CHR ''%'' \<and> c \<noteq> CHR ''_'') q"

text \<open>
  The feed of spec \<section>4.5 as a multiset: the posts whose author exists and passes the
  filters (the join of Post with its author).
\<close>

definition feed_spec :: "db \<Rightarrow> string \<Rightarrow> string \<Rightarrow> post multiset" where
  "feed_spec d tf af =
     filter_mset (\<lambda>p. \<exists>u\<in>set (users d). u_id u = p_user_id p \<and> (tf = [] \<or> track u = Some tf) \<and>
                          (af \<noteq> ''yes'' \<or> available_for_project u)) (mset (posts d))"

text \<open>
  Member discovery of spec \<section>4.5: the requesting member excluded; an optional search
  text matched case-insensitively as a substring of the username, the skills or the
  track; an exact track filter and the availability filter.
\<close>

definition discover_spec :: "user_id \<Rightarrow> string \<Rightarrow> string \<Rightarrow> string \<Rightarrow> user \<Rightarrow> bool" where
  "discover_spec me_id q tf af u \<longleftrightarrow>
     u_id u \<noteq> me_id \<and>
     (q = [] \<or> sublist (py_lower q) (py_lower (username u)) \<or>
      (case skills u of None \<Rightarrow> False | Some x \<Rightarrow> sublist (py_lower q) (py_lower x)) \<or>
      (case track u of None \<Rightarrow> False | Some x \<Rightarrow> sublist (py_lower q) (py_lower x))) \<and>
     (tf = [] \<or> track u = Some tf) \<and> (af \<noteq> ''yes'' \<or> available_for_project u)"

text \<open>Alice signed in, with a third member named \<open>abc\<close>.\<close>

definition abc_state :: app_state where
  "abc_state = (signed_in 1)\<lparr>store := demo_db\<lparr>users := users demo_db @
                  [bob\<lparr>u_id := 3, username := ''abc'', email := ''abc@uni.edu''\<rparr>]\<rparr>\<rparr>"

section \<open>Lemmas\<close>

lemma like_match_percent:
  "like_match (CHR ''%'' # p) t \<longleftrightarrow> (\<exists>t1 t2. t = t1 @ t2 \<and> like_match p t2)"
proof (induction t)
  case Nil
  then show ?case by simp
next
  case (Cons x xs)
  show ?case
  proof
    assume "like_match (CHR ''%'' # p) (x # xs)"
    then consider "like_match p (x # xs)" | "like_match (CHR ''%'' # p) xs" by auto
    then show "\<exists>t1 t2. x # xs = t1 @ t2 \<and> like_match p t2"
    proof cases
      case 1
      then show ?thesis by (metis append_Nil)
    next
      case 2
      then obtain t1 t2 where "xs = t1 @ t2" "like_match p t2" using Cons.IH by blast
      then show ?thesis by (metis append_Cons)
    qed
  next
    assume "\<exists>t1 t2. x # xs = t1 @ t2 \<and> like_match p t2"
    then obtain t1 t2 where e: "x # xs = t1 @ t2" and m: "like_match p t2" by blast
    show "like_match (CHR ''%'' # p) (x # xs)"
    proof (cases t1)
      case Nil
      then have "t2 = x # xs" using e by simp
      then show ?thesis using m by simp
    next
      case (Cons y ys)
      then have "xs = ys @ t2" using e by simp
      then show ?thesis using Cons.IH m by auto
    qed
  qed
qed

lemma like_match_literal:
  "no_wildcard q \<Longrightarrow> like_match (q @ p) t \<longleftrightarrow> (\<exists>t'. t = q @ t' \<and> like_match p t')"
proof (induction q arbitrary: t)
  case Nil
  then show ?case by simp
next
  case (Cons c q)
  then show ?case by (cases t) (auto simp: no_wildcard_def)
qed

lemma like_match_any: "like_match ''%'' t"
  by (induction t) simp_all

lemma like_match_infix:
  assumes "no_wildcard q"
  shows "like_match (''%'' @ q @ ''%'') t \<longleftrightarrow> (\<exists>t1 t2. t = t1 @ t2 \<and> (\<exists>t'. t2 = q @ t'))"
  using like_match_percent[of "q @ ''%''" t] like_match_literal[OF assms, of "''%''"] like_match_any
  by simp

lemma no_wildcard_lower: "no_wildcard (py_lower q) \<longleftrightarrow> no_wildcard q"
  by (simp add: no_wildcard_def py_lower_def list_all_iff py_lower_char_wild)

lemma ilike_substring:
  assumes "no_wildcard q"
  shows "ilike (Some x) (''%'' @ q @ ''%'') \<longleftrightarrow> sublist (py_lower q) (py_lower x)"
proof -
  have "py_lower (''%'' @ q @ ''%'') = ''%'' @ py_lower q @ ''%''"
    by (simp add: py_lower_def py_lower_char_def)
  then show ?thesis
    using like_match_infix[of "py_lower q" "py_lower x"] assms no_wildcard_lower
    by (auto simp: ilike_def sublist_def)
qed

lemma feed_filter_join:
  assumes "distinct (map u_id (users d))"
  shows "feed_filter d tf af p \<longleftrightarrow>
           (\<exists>u\<in>set (users d). u_id u = p_user_id p \<and> (tf = [] \<or> track u = Some tf) \<and>
                             (af \<noteq> ''yes'' \<or> available_for_project u))"
proof (cases "find_user d (p_user_id p)")
  case None
  then have "\<forall>u\<in>set (users d). u_id u \<noteq> p_user_id p" by (simp add: find_user_def find_None_iff)
  then show ?thesis using None by (auto simp: feed_filter_def)
next
  case (Some v)
  have "u = v" if "u \<in> set (users d)" "u_id u = p_user_id p" for u
  proof -
    have "find (\<lambda>x. u_id x = p_user_id p) (users d) = Some u"
      using find_key_Some[OF assms] that by simp
    with Some show ?thesis by (simp add: find_user_def)
  qed
  moreover have v: "v \<in> set (users d) \<and> u_id v = p_user_id p"
    using Some find_user_Some by blast
  ultimately have "\<forall>u\<in>set (users d). u_id u = p_user_id p \<longleftrightarrow> u = v" by blast
  then show ?thesis using Some v by (auto simp: feed_filter_def)
qed

lemma sorted_newest_first: "sorted_wrt (\<lambda>p q. p_date q \<le> p_date p) (newest_first ps)"
proof -
  have "sorted (map (\<lambda>p. - int (p_date p)) (newest_first ps))"
    by (simp add: newest_first_def)
  then show ?thesis by (simp add: sorted_map)
qed

lemma mset_newest_first [simp]: "mset (newest_first ps) = mset ps"
  by (simp add: newest_first_def)

lemma mset_network_order [simp]: "mset (network_order us) = mset us"
  by (simp add: network_order_def)

lemma sorted_network_order:
  "sorted_wrt (\<lambda>u v. (\<not> available_for_project u, username u) \<le> (\<not> available_for_project v, username v))
     (network_order us)"
proof -
  have "sorted (map (\<lambda>u. (\<not> available_for_project u, username u)) (network_order us))"
    by (simp add: network_order_def)
  then show ?thesis by (simp only: sorted_map)
qed

lemma network_filter_search:
  assumes "q \<noteq> []" and "no_wildcard q"
  shows "network_filter me_id q tf af u \<longleftrightarrow>
           u_id u \<noteq> me_id \<and>
           (sublist (py_lower q) (py_lower (username u)) \<or>
            (\<exists>x. skills u = Some x \<and> sublist (py_lower q) (py_lower x)) \<or>
            (\<exists>x. track u = Some x \<and> sublist (py_lower q) (py_lower x))) \<and>
           (tf = [] \<or> track u = Some tf) \<and> (af \<noteq> ''yes'' \<or> available_for_project u)"
  using assms ilike_substring[OF assms(2)]
  by (auto simp: network_filter_def Let_def ilike_def split: option.splits)

lemma sum_likes_count:
  assumes "distinct (map p_id ps)"
    and "list_all (\<lambda>p. likes_count p = int (length (filter (\<lambda>l. l_post_id l = p_id p) ls))) ps"
  shows "sum_list (map likes_count ps) = int (length (filter (\<lambda>l. l_post_id l \<in> p_id ` set ps) ls))"
  using assms
proof (induction ps)
  case Nil
  then show ?case by simp
next
  case (Cons p ps)
  have "length (filter (\<lambda>l. l_post_id l = p_id p \<or> l_post_id l \<in> p_id ` set ps) ls) =
        length (filter (\<lambda>l. l_post_id l = p_id p) ls) + length (filter (\<lambda>l. l_post_id l \<in> p_id ` set ps) ls)"
    using Cons.prems(1) by (intro length_filter_disj) auto
  then show ?case using Cons by simp
qed

lemma network_filter_discover:
  assumes "no_wildcard q"
  shows "network_filter me_id q tf af u \<longleftrightarrow> discover_spec me_id q tf af u"
proof (cases "q = []")
  case True
  then show ?thesis by (simp add: network_filter_def discover_spec_def)
next
  case False
  show ?thesis
    unfolding network_filter_search[OF False assms] discover_spec_def
    using False by (auto split: option.splits)
qed

lemma network_render:
  assumes "load_user s = Some cu"
  shows "network s search_arg track_arg avail_arg =
           (Render (NetworkView (network_users (store s) (u_id cu) search_arg track_arg avail_arg)
                       (length (network_users (store s) (u_id cu) search_arg track_arg avail_arg))), s)"
  using assms by (simp add: network_def login_required_def Let_def)

section \<open>Properties\<close>

text \<open>
  C24. Member search refines discovery (spec \<section>4.5): for a signed-in member and a
  search text in which \<open>LIKE\<close> sees no wildcard, \<open>network\<close> renders, as a multiset,
  exactly the members \<open>discover_spec\<close> admits for the stripped arguments, available
  members first and then by username.
\<close>

theorem network_refines_discover:
  assumes "load_user s = Some cu" and "no_wildcard (py_strip search_arg)"
  shows "\<exists>us. network s search_arg track_arg avail_arg = (Render (NetworkView us (length us)), s) \<and>
              mset us = filter_mset (discover_spec (u_id cu) (py_strip search_arg) (py_strip track_arg)
                                       (py_strip avail_arg)) (mset (users (store s))) \<and>
              sorted_wrt (\<lambda>u v. (\<not> available_for_project u, username u) \<le> (\<not> available_for_project v, username v)) us"
proof -
  let ?us = "network_users (store s) (u_id cu) search_arg track_arg avail_arg"
  have "mset ?us = filter_mset (discover_spec (u_id cu) (py_strip search_arg) (py_strip track_arg)
                                  (py_strip avail_arg)) (mset (users (store s)))"
    using network_filter_discover[OF assms(2)] by (simp add: network_users_def mset_filter)
  moreover have "sorted_wrt (\<lambda>u v. (\<not> available_for_project u, username u) \<le> (\<not> available_for_project v, username v)) ?us"
    unfolding network_users_def by (rule sorted_network_order)
  ultimately show ?thesis using network_render[OF assms(1)] by blast
qed

lemma network_refines_discover_witness:
  "\<exists>us. network (signed_in 2) ''py'' [] [] = (Render (NetworkView us (length us)), signed_in 2) \<and>
        mset us = filter_mset (discover_spec (u_id bob) (py_strip ''py'') (py_strip []) (py_strip []))
                              (mset (users (store (signed_in 2)))) \<and>
        sorted_wrt (\<lambda>u v. (\<not> available_for_project u, username u) \<le> (\<not> available_for_project v, username v)) us"
proof -
  have h: "load_user (signed_in 2) = Some bob" "no_wildcard (py_strip ''py'')"
    by (simp_all add: signed_in_load_user no_wildcard_def py_strip_def py_lstrip_def py_rstrip_def is_py_space_def)
  show ?thesis using network_refines_discover[OF h] .
qed

text \<open>
  C25. Search texts are not escaped (spec \<section>4.5 asks for a substring match): searching
  for \<open>a_c\<close> lists every other member whose username is \<open>a\<close>, any one character and
  \<open>c\<close>, although the username does not contain \<open>a_c\<close> unless that character is
  \<open>_\<close>.
\<close>

theorem network_search_wildcards:
  assumes "load_user s = Some cu" and "u \<in> set (users (store s))" and "u_id u \<noteq> u_id cu"
    and "username u = [CHR ''a'', x, CHR ''c'']" and "x \<noteq> CHR ''_''"
  shows "\<exists>us. network s ''a_c'' [] [] = (Render (NetworkView us (length us)), s) \<and>
              u \<in> set us \<and> \<not> sublist ''a_c'' (username u)"
proof -
  have st: "py_strip ''a_c'' = ''a_c''" "py_strip [] = []"
    by (simp_all add: py_strip_def py_lstrip_def py_rstrip_def is_py_space_def)
  have "network_filter (u_id cu) ''a_c'' [] [] u"
    using assms(3,4) by (simp add: network_filter_def ilike_def py_lower_def py_lower_char_def)
  then have "u \<in> set (network_users (store s) (u_id cu) ''a_c'' [] [])"
    using assms(2) st by (simp add: network_users_def flip: set_mset_mset)
  moreover have "\<not> sublist ''a_c'' (username u)"
    using assms(4,5) by (auto simp: sublist_Cons_right)
  ultimately show ?thesis using network_render[OF assms(1)] by blast
qed

lemma network_search_wildcards_witness:
  "\<exists>us. network abc_state ''a_c'' [] [] = (Render (NetworkView us (length us)), abc_state) \<and>
        bob\<lparr>u_id := 3, username := ''abc'', email := ''abc@uni.edu''\<rparr> \<in> set us \<and>
        \<not> sublist ''a_c'' (username (bob\<lparr>u_id := 3, username := ''abc'', email := ''abc@uni.edu''\<rparr>))"
proof -
  have h: "load_user abc_state = Some alice"
    "bob\<lparr>u_id := 3, username := ''abc'', email := ''abc@uni.edu''\<rparr> \<in> set (users (store abc_state))"
    "u_id (bob\<lparr>u_id := 3, username := ''abc'', email := ''abc@uni.edu''\<rparr>) \<noteq> u_id alice"
    "username (bob\<lparr>u_id := 3, username := ''abc'', email := ''abc@uni.edu''\<rparr>) = [CHR ''a'', CHR ''b'', CHR ''c'']"
    "CHR ''b'' \<noteq> CHR ''_''"
    by (simp_all add: abc_state_def signed_in_def load_user_def find_user_def fixture_defs)
  show ?thesis using network_search_wildcards[OF h] .
qed

text \<open>
  C26. The feed refines its specification (spec \<section>4.5): when user ids are unique, \<open>home\<close> lists exactly the posts whose author exists and passes the stripped track and availability filters, each once, newest first.
\<close>

theorem home_posts_refines_feed:
  assumes "distinct (map u_id (users d))"
  shows "mset (home_posts d track_arg available_arg) = feed_spec d (py_strip track_arg) (py_strip available_arg) \<and>
         sorted_wrt (\<lambda>p q. p_date q \<le> p_date p) (home_posts d track_arg available_arg)"
  using feed_filter_join[OF assms] sorted_newest_first
  by (simp add: home_posts_def feed_spec_def mset_filter)

lemma home_posts_refines_feed_witness:
  "distinct (map u_id (users demo_db)) \<and>
   mset (home_posts demo_db [] ''yes'') = feed_spec demo_db (py_strip []) (py_strip ''yes'') \<and>
   sorted_wrt (\<lambda>p q. p_date q \<le> p_date p) (home_posts demo_db [] ''yes'')"
proof -
  have h: "distinct (map u_id (users demo_db))" by (simp add: demo_user_ids)
  show ?thesis by (simp only: h home_posts_refines_feed[OF h] simp_thms)
qed

text \<open>
  C27. Member search with a search text and the availability filter (spec \<section>4.5, \<section>8): when usernames are unique and the search has no wildcard, \<open>network\<close> returns exactly the other members who are available, whose username, skills or track contains the search case-insensitively and who pass the track filter, in strictly ascending username order.
\<close>

theorem network_available_search:
  assumes un: "distinct (map username (users d))"
    and q: "py_strip search_arg \<noteq> []" "no_wildcard (py_strip search_arg)"
    and a: "py_strip avail_arg = ''yes''"
  shows "set (network_users d me_id search_arg track_arg avail_arg) =
           {u \<in> set (users d). u_id u \<noteq> me_id \<and> available_for_project u \<and>
              (sublist (py_lower (py_strip search_arg)) (py_lower (username u)) \<or>
               (\<exists>x. skills u = Some x \<and> sublist (py_lower (py_strip search_arg)) (py_lower x)) \<or>
               (\<exists>x. track u = Some x \<and> sublist (py_lower (py_strip search_arg)) (py_lower x))) \<and>
              (py_strip track_arg = [] \<or> track u = Some (py_strip track_arg))} \<and>
         sorted_wrt (\<lambda>u v. username u < username v) (network_users d me_id search_arg track_arg avail_arg)"
proof -
  let ?P = "network_filter me_id (py_strip search_arg) (py_strip track_arg) (py_strip avail_arg)"
  let ?r = "network_users d me_id search_arg track_arg avail_arg"
  have m: "mset ?r = mset (filter ?P (users d))" by (simp add: network_users_def)
  then have s: "set ?r = set (filter ?P (users d))" by (rule mset_eq_setD)
  have "mset (map username ?r) = mset (map username (filter ?P (users d)))"
    using m by (simp only: mset_map)
  then have "distinct (map username ?r) \<longleftrightarrow> distinct (map username (filter ?P (users d)))"
    by (rule mset_eq_imp_distinct_iff)
  then have dn: "distinct (map username ?r)"
    using distinct_map_filter[OF un] by (simp only:)
  have av: "\<forall>u\<in>set ?r. available_for_project u"
  proof
    fix u assume "u \<in> set ?r"
    then have "?P u" using s by simp
    then show "available_for_project u" using a unfolding network_filter_def by blast
  qed
  have "sorted_wrt (\<lambda>u v. (\<not> available_for_project u, username u) \<le> (\<not> available_for_project v, username v)) ?r"
    using sorted_network_order[of "filter ?P (users d)"] by (simp only: network_users_def)
  then have "sorted_wrt (\<lambda>u v. username u \<le> username v) ?r"
    by (rule sorted_wrt_mono_rel[rotated]) (use av in auto)
  then have "sorted (map username ?r)" by (simp add: sorted_map)
  with dn have "sorted_wrt (<) (map username ?r)" by (simp add: strict_sorted_iff)
  then have "sorted_wrt (\<lambda>u v. username u < username v) ?r" by (simp add: sorted_wrt_map)
  moreover have "set ?r = {u \<in> set (users d). u_id u \<noteq> me_id \<and> available_for_project u \<and>
              (sublist (py_lower (py_strip search_arg)) (py_lower (username u)) \<or>
               (\<exists>x. skills u = Some x \<and> sublist (py_lower (py_strip search_arg)) (py_lower x)) \<or>
               (\<exists>x. track u = Some x \<and> sublist (py_lower (py_strip search_arg)) (py_lower x))) \<and>
              (py_strip track_arg = [] \<or> track u = Some (py_strip track_arg))}"
    using s network_filter_search[OF q] a by auto
  ultimately show ?thesis by (intro conjI)
qed

lemma network_available_search_witness:
  "distinct (map username (users demo_db)) \<and> py_strip ''py'' \<noteq> [] \<and> no_wildcard (py_strip ''py'') \<and>
   py_strip ''yes'' = ''yes'' \<and>
   set (network_users demo_db 2 ''py'' [] ''yes'') =
     {u \<in> set (users demo_db). u_id u \<noteq> 2 \<and> available_for_project u \<and>
        (sublist (py_lower (py_strip ''py'')) (py_lower (username u)) \<or>
         (\<exists>x. skills u = Some x \<and> sublist (py_lower (py_strip ''py'')) (py_lower x)) \<or>
         (\<exists>x. track u = Some x \<and> sublist (py_lower (py_strip ''py'')) (py_lower x))) \<and>
        (py_strip [] = [] \<or> track u = Some (py_strip []))} \<and>
   sorted_wrt (\<lambda>u v. username u < username v) (network_users demo_db 2 ''py'' [] ''yes'')"
proof -
  have h: "distinct (map username (users demo_db))" "py_strip ''py'' \<noteq> []" "no_wildcard (py_strip ''py'')"
    "py_strip ''yes'' = ''yes''"
    by (simp_all add: fixture_defs no_wildcard_def py_strip_def py_lstrip_def py_rstrip_def is_py_space_def)
  show ?thesis by (simp only: h network_available_search[OF h] simp_thms)
qed

text \<open>
  C28. A profile's like total is the number of likes on the member's posts: on a consistent database, \<open>profile\<close> shows the member's posts newest first and, as \<open>total_likes\<close>, the number of like rows that refer to one of them.
\<close>

theorem profile_total_likes:
  assumes inv: "db_inv (store s)" and u: "load_user s = Some cu" and v: "find_user (store s) i = Some v"
  defines "ps \<equiv> newest_first (filter (\<lambda>p. p_user_id p = i) (posts (store s)))"
  shows "profile s i =
           (Render (ProfileView v ps (int (length (filter (\<lambda>l. l_post_id l \<in> p_id ` set ps) (likes (store s)))))), s)"
proof -
  have vi: "u_id v = i" using find_user_Some[OF v] by simp
  have m: "mset ps = mset (filter (\<lambda>p. p_user_id p = i) (posts (store s)))" by (simp add: ps_def)
  have "distinct (map p_id (posts (store s)))"
    using db_invD(1)[OF inv] by (simp add: constraints_ok_def)
  then have dps: "distinct (map p_id ps)"
    using m by (metis distinct_map_filter mset_map mset_eq_imp_distinct_iff)
  have "list_all (\<lambda>p. likes_count p = int (length (likes_of (store s) (p_id p)))) (posts (store s))"
    using db_invD(3)[OF inv] by (simp add: like_counts_ok_def)
  then have "list_all (\<lambda>p. likes_count p = int (length (filter (\<lambda>l. l_post_id l = p_id p) (likes (store s))))) ps"
  proof -
    have "set ps \<subseteq> set (posts (store s))" by (simp add: ps_def newest_first_def)
    with \<open>list_all _ (posts (store s))\<close> show ?thesis by (auto simp: list_all_iff likes_of_def)
  qed
  then have "total_likes ps = int (length (filter (\<lambda>l. l_post_id l \<in> p_id ` set ps) (likes (store s))))"
    using sum_likes_count[OF dps] by (simp add: total_likes_def)
  moreover have "profile s i = (Render (ProfileView v ps (total_likes ps)), s)"
    using u v vi by (simp add: profile_def Let_def ps_def)
  ultimately show ?thesis by simp
qed

lemma profile_total_likes_witness:
  "db_inv (store (signed_in 1)) \<and> load_user (signed_in 1) = Some alice \<and> find_user (store (signed_in 1)) 1 = Some alice \<and>
   profile (signed_in 1) 1 =
     (Render (ProfileView alice (newest_first (filter (\<lambda>p. p_user_id p = 1) (posts (store (signed_in 1)))))
        (int (length (filter (\<lambda>l. l_post_id l \<in> p_id ` set (newest_first (filter (\<lambda>p. p_user_id p = 1) (posts (store (signed_in 1))))))
                       (likes (store (signed_in 1))))))), signed_in 1)"
proof -
  have h: "db_inv (store (signed_in 1))" "load_user (signed_in 1) = Some alice" "find_user (store (signed_in 1)) 1 = Some alice"
    by (simp_all only: signed_in_store demo_db_inv signed_in_load_user) (simp add: fixture_defs find_user_def)
  show ?thesis by (simp only: h profile_total_likes[OF h] simp_thms)
qed

end
