(* ===== verification/Profiles.thy ===== *)
theory Profiles
  imports Uploads Fixtures
begin

text \<open>
  \<open>edit_profile\<close> of \<open>src/Sky_Hub_Project/app.py\<close> (293--330): the signed-in member
  changes the columns of their own row from \<open>EditProfileForm\<close>; a new CV or picture is
  saved under a random name first (\<open>save_cv\<close>, \<open>save_picture\<close>), the row is updated
  in one commit. A \<open>GET\<close> (\<open>None\<close>) only fills the form from the row.
\<close>

section \<open>The route\<close>

text \<open>
  The columns set from the form; \<open>x or None\<close> turns an empty link or phone number into
  NULL. A file that was saved replaces the stored name, otherwise the stored one is kept.
\<close>

definition profile_update ::
  "profile_form \<Rightarrow> string option \<Rightarrow> string option \<Rightarrow> user \<Rightarrow> user" where
  "profile_update f new_cv new_pic x =
     x\<lparr>username := the (strip_filter (ef_username f)), email := the (strip_filter (ef_email f)),
       track := Some (ef_track f), skills := strip_filter (ef_skills f),
       available_for_project := ef_available f,
       github_link := py_or_none (strip_filter (ef_github f)),
       portfolio_link := py_or_none (strip_filter (ef_portfolio f)),
       linkedin_link := py_or_none (strip_filter (ef_linkedin f)),
       phone_number := py_or_none (strip_filter (ef_phone f)),
       cv_file := (case new_cv of None \<Rightarrow> cv_file x | Some fn \<Rightarrow> Some fn),
       profile_image := (case new_pic of None \<Rightarrow> profile_image x | Some fn \<Rightarrow> fn)\<rparr>"

definition edit_profile ::
  "string \<Rightarrow> string \<Rightarrow> (string \<Rightarrow> bool) \<Rightarrow> (string \<Rightarrow> bool) \<Rightarrow> app_state \<Rightarrow> profile_form option \<Rightarrow>
   response \<times> app_state" where
  "edit_profile cv_hex pic_hex is_email is_url s req = login_required (\<lambda>cu.
     (case req of
        None \<Rightarrow> (Render (Template ''edit_profile.html''), s)
      | Some f \<Rightarrow>
          if \<not> profile_form_ok is_email is_url f then (Render (Template ''edit_profile.html''), s)
          else
            (let (new_cv, s1) =
                   (if has_file (ef_cv_file f)
                    then (case save_cv cv_hex (the (ef_cv_file f)) s of (fn, s') \<Rightarrow> (Some fn, s'))
                    else (None, s));
                 (new_pic, s2) =
                   (if has_file (ef_profile_image f)
                    then (case save_picture pic_hex (the (ef_profile_image f)) s1 of (fn, s') \<Rightarrow> (Some fn, s'))
                    else (None, s1))
             in case commit (store s2) [UpdateUser (u_id cu) (profile_update f new_cv new_pic)] of
                  Inr d' \<Rightarrow> (Redirect (ProfilePage (u_id cu)),
                             flash ''success'' ''Profile updated successfully.'' (s2\<lparr>store := d'\<rparr>))
                | Inl _ \<Rightarrow> (Abort 500, s2)))) s"

section \<open>Data for the witnesses\<close>

definition bobby_form :: profile_form where
  "bobby_form = \<lparr>ef_username = ''bobby'', ef_email = ''bob@uni.edu'', ef_track = ''Data Science'',
                 ef_skills = ''SQL, Pandas'', ef_available = True, ef_github = [], ef_portfolio = [],
                 ef_linkedin = [], ef_phone = [], ef_profile_image = None, ef_cv_file = None,
                 ef_csrf = True\<rparr>"

definition alice_name_form :: profile_form where
  "alice_name_form = bobby_form\<lparr>ef_username := ''alice''\<rparr>"

lemmas profile_eval = bobby_form_def alice_name_form_def profile_form_ok_def track_choices_def form_eval

section \<open>Lemmas\<close>

lemma profile_update_keys [simp]:
  "u_id (profile_update f c p x) = u_id x" "password_hash (profile_update f c p x) = password_hash x"
  by (simp_all add: profile_update_def)

lemma edit_profile_db_inv:
  assumes inv: "db_inv (store s)"
  shows "db_inv (store (snd (edit_profile cv_hex pic_hex is_email is_url s req)))"
  using inv
  by (auto simp: edit_profile_def login_required_def Let_def split: option.splits if_splits sum.splits prod.splits
           dest!: save_cv_store_eq save_picture_store_eq elim!: db_inv_update_user[rotated 1])

section \<open>Properties\<close>

text \<open>
  C29. Editing one's profile (spec \<section>3: a member is mutated only by its owner via profile edit): a valid form without files whose username and e-mail no other member holds redirects to the member's profile, rewrites exactly the signed-in member's row with the form's columns (empty links and phone as NULL, CV and picture kept), and keeps the database consistent.
\<close>

theorem edit_profile_updates:
  assumes inv: "db_inv (store s)" and u: "load_user s = Some cu"
    and ok: "profile_form_ok is_email is_url f"
    and ncv: "\<not> has_file (ef_cv_file f)" and npic: "\<not> has_file (ef_profile_image f)"
    and fu: "\<forall>v\<in>set (users (store s)). u_id v \<noteq> u_id cu \<longrightarrow> username v \<noteq> the (strip_filter (ef_username f))"
    and fe: "\<forall>v\<in>set (users (store s)). u_id v \<noteq> u_id cu \<longrightarrow> email v \<noteq> the (strip_filter (ef_email f))"
  defines "d' \<equiv> (store s)\<lparr>users := update_where (\<lambda>x. u_id x = u_id cu) (profile_update f None None) (users (store s))\<rparr>"
  shows "edit_profile cv_hex pic_hex is_email is_url s (Some f) =
           (Redirect (ProfilePage (u_id cu)), flash ''success'' ''Profile updated successfully.'' (s\<lparr>store := d'\<rparr>)) \<and>
         find_user d' (u_id cu) = Some (profile_update f None None cu) \<and> db_inv d'"
proof -
  have cin: "cu \<in> set (users (store s))" using load_user_in_store[OF u] .
  have co: "constraints_ok (store s)" using db_invD(1)[OF inv] .
  have ids: "distinct (map u_id (users (store s)))" using co by (simp add: constraints_ok_def)
  have "distinct (map username (users d'))"
    using distinct_map_update_where[OF ids _ cin, of username "profile_update f None None"] co fu
    by (simp add: d'_def constraints_ok_def profile_update_def)
  moreover have "distinct (map email (users d'))"
    using distinct_map_update_where[OF ids _ cin, of email "profile_update f None None"] co fe
    by (simp add: d'_def constraints_ok_def profile_update_def)
  ultimately have cd: "constraints_ok d'"
    using co by (simp add: d'_def constraints_ok_def list_all_update_where)
  have "apply_write (store s) (UpdateUser (u_id cu) (profile_update f None None)) = Inr d'"
    using apply_update_user[of "profile_update f None None"] cin by (simp add: d'_def)
  with cd have c: "commit (store s) [UpdateUser (u_id cu) (profile_update f None None)] = Inr d'"
    by (simp add: commit_single)
  have "edit_profile cv_hex pic_hex is_email is_url s (Some f) =
          (Redirect (ProfilePage (u_id cu)), flash ''success'' ''Profile updated successfully.'' (s\<lparr>store := d'\<rparr>))"
    using u ok ncv npic c by (simp add: edit_profile_def)
  moreover have "find_user d' (u_id cu) = Some (profile_update f None None cu)"
    using load_user_find[OF u] by (simp add: d'_def find_user_def find_update_where)
  moreover have "db_inv d'" using db_inv_update_user[OF inv c] .
  ultimately show ?thesis by blast
qed

lemma edit_profile_updates_witness:
  "db_inv (store (signed_in 2)) \<and> load_user (signed_in 2) = Some bob \<and>
   profile_form_ok (\<lambda>e. CHR ''@'' \<in> set e) (\<lambda>_. True) bobby_form \<and>
   \<not> has_file (ef_cv_file bobby_form) \<and> \<not> has_file (ef_profile_image bobby_form) \<and>
   fst (edit_profile ''c0'' ''p0'' (\<lambda>e. CHR ''@'' \<in> set e) (\<lambda>_. True) (signed_in 2) (Some bobby_form)) =
     Redirect (ProfilePage (u_id bob))"
proof -
  have h: "db_inv (store (signed_in 2))" "load_user (signed_in 2) = Some bob"
    "profile_form_ok (\<lambda>e. CHR ''@'' \<in> set e) (\<lambda>_. True) bobby_form"
    "\<not> has_file (ef_cv_file bobby_form)" "\<not> has_file (ef_profile_image bobby_form)"
    "\<forall>v\<in>set (users (store (signed_in 2))). u_id v \<noteq> u_id bob \<longrightarrow> username v \<noteq> the (strip_filter (ef_username bobby_form))"
    "\<forall>v\<in>set (users (store (signed_in 2))). u_id v \<noteq> u_id bob \<longrightarrow> email v \<noteq> the (strip_filter (ef_email bobby_form))"
    by (simp_all only: signed_in_store demo_db_inv signed_in_load_user)
       (simp_all add: profile_eval fixture_defs)
  show ?thesis using h edit_profile_updates[OF h, where cv_hex = "''c0''" and pic_hex = "''p0''"] by simp
qed

text \<open>
  C30. \<open>edit_profile\<close> does not check that the new username is free: when another member holds it, the commit violates \<open>UNIQUE\<close> and the request ends in a server error instead of a form error (registration checks this case first).
\<close>

theorem edit_profile_taken_name:
  assumes u: "load_user s = Some cu" and ok: "profile_form_ok is_email is_url f"
    and ncv: "\<not> has_file (ef_cv_file f)" and npic: "\<not> has_file (ef_profile_image f)"
    and v: "v \<in> set (users (store s))" and other: "u_id v \<noteq> u_id cu"
    and taken: "username v = the (strip_filter (ef_username f))"
  shows "edit_profile cv_hex pic_hex is_email is_url s (Some f) = (Abort 500, s)"
proof -
  let ?d' = "(store s)\<lparr>users := update_where (\<lambda>x. u_id x = u_id cu) (profile_update f None None) (users (store s))\<rparr>"
  have cin: "cu \<in> set (users (store s))" using load_user_in_store[OF u] .
  have "v \<in> set (users ?d')" "profile_update f None None cu \<in> set (users ?d')"
    using v other cin by (auto simp: set_update_where)
  moreover have "profile_update f None None cu \<noteq> v" using other by (metis profile_update_keys(1))
  moreover have "username (profile_update f None None cu) = username v"
    using taken by (simp add: profile_update_def)
  ultimately have "\<not> distinct (map username (users ?d'))"
    by (auto simp: distinct_map inj_on_def)
  then have nc: "\<not> constraints_ok ?d'" by (simp add: constraints_ok_def)
  have "flush (store s) [UpdateUser (u_id cu) (profile_update f None None)] = Inr ?d'"
    using apply_update_user[of "profile_update f None None"] cin by simp
  from this nc have "commit (store s) [UpdateUser (u_id cu) (profile_update f None None)] = Inl IntegrityError"
    by (rule commit_Inl_flush)
  then show ?thesis using u ok ncv npic by (simp add: edit_profile_def)
qed

lemma edit_profile_taken_name_witness:
  "load_user (signed_in 2) = Some bob \<and> profile_form_ok (\<lambda>e. CHR ''@'' \<in> set e) (\<lambda>_. True) alice_name_form \<and>
   \<not> has_file (ef_cv_file alice_name_form) \<and> \<not> has_file (ef_profile_image alice_name_form) \<and>
   alice \<in> set (users (store (signed_in 2))) \<and> u_id alice \<noteq> u_id bob \<and>
   username alice = the (strip_filter (ef_username alice_name_form)) \<and>
   edit_profile ''c0'' ''p0'' (\<lambda>e. CHR ''@'' \<in> set e) (\<lambda>_. True) (signed_in 2) (Some alice_name_form) =
     (Abort 500, signed_in 2)"
proof -
  have h: "load_user (signed_in 2) = Some bob" "profile_form_ok (\<lambda>e. CHR ''@'' \<in> set e) (\<lambda>_. True) alice_name_form"
    "\<not> has_file (ef_cv_file alice_name_form)" "\<not> has_file (ef_profile_image alice_name_form)"
    "alice \<in> set (users (store (signed_in 2)))" "u_id alice \<noteq> u_id bob"
    "username alice = the (strip_filter (ef_username alice_name_form))"
    by (simp_all only: signed_in_store signed_in_load_user) (simp_all add: profile_eval fixture_defs)
  show ?thesis using h edit_profile_taken_name[OF h] by blast
qed

end
