(* ===== verification/App.thy ===== *)
theory App
  imports Likes Posts Auth Queries Profiles
begin

text \<open>
  The application as a whole: one HTTP request of \<open>src/Sky_Hub_Project/app.py\<close> is a
  value of \<open>request\<close>, carrying the route's arguments, the submitted form (\<open>None\<close> for
  a \<open>GET\<close>) and the values the route draws at random or reads from the clock.
  \<open>app_step\<close> is Flask's dispatch over the routes \<open>app.py\<close> registers. The
  blueprint \<open>google_bp\<close> of \<open>oauth.py\<close> is never registered on \<open>app\<close>
  (\<open>app.py\<close> neither imports \<open>oauth\<close> nor calls \<open>register_blueprint\<close>), so
  its two URLs answer 404. The validators \<open>Email()\<close> and \<open>URL()\<close> are the
  parameters \<open>is_email\<close> and \<open>is_url\<close>.
\<close>

section \<open>Requests and the dispatch\<close>

datatype request =
    RLanding
  | RRegister nat string string "registration_form option"
  | RLogin "string option" "login_form option"
  | RLogout
  | RHome string string
  | RProfile user_id
  | RMe
  | RNetwork string string string
  | REditProfile string string "profile_form option"
  | RNewPost "post_form option" timestamp
  | RPostDetail post_id
  | REditPost post_id "post_form option"
  | RDeletePost post_id
  | RAddComment post_id comment_form timestamp
  | REditComment comment_id "comment_form option"
  | RDeleteComment comment_id
  | RToggleLike post_id timestamp
  | RClearSession
  | RGoogleLogin
  | RGoogleCallback

fun app_step ::
  "(string \<Rightarrow> bool) \<Rightarrow> (string \<Rightarrow> bool) \<Rightarrow> app_state \<Rightarrow> request \<Rightarrow> response \<times> app_state" where
  "app_step is_email is_url s RLanding = landing s"
| "app_step is_email is_url s (RRegister salt cv_hex pic_hex f) = register salt cv_hex pic_hex is_email s f"
| "app_step is_email is_url s (RLogin next_page f) = login is_email next_page s f"
| "app_step is_email is_url s RLogout = logout s"
| "app_step is_email is_url s (RHome t a) = home s t a"
| "app_step is_email is_url s (RProfile i) = profile s i"
| "app_step is_email is_url s RMe = me s"
| "app_step is_email is_url s (RNetwork q t a) = network s q t a"
| "app_step is_email is_url s (REditProfile cv_hex pic_hex f) = edit_profile cv_hex pic_hex is_email is_url s f"
| "app_step is_email is_url s (RNewPost f now) = new_post s f now"
| "app_step is_email is_url s (RPostDetail i) = post_detail s i"
| "app_step is_email is_url s (REditPost i f) = edit_post s i f"
| "app_step is_email is_url s (RDeletePost i) = delete_post s i"
| "app_step is_email is_url s (RAddComment i f now) = add_comment s i f now"
| "app_step is_email is_url s (REditComment j f) = edit_comment s j f"
| "app_step is_email is_url s (RDeleteComment j) = delete_comment s j"
| "app_step is_email is_url s (RToggleLike i now) = toggle_like s i now"
| "app_step is_email is_url s RClearSession = clear_session s"
| "app_step is_email is_url s RGoogleLogin = (Abort 404, s)"
| "app_step is_email is_url s RGoogleCallback = (Abort 404, s)"

text \<open>The states the application can reach from an empty database and no session.\<close>

inductive reachable :: "(string \<Rightarrow> bool) \<Rightarrow> (string \<Rightarrow> bool) \<Rightarrow> app_state \<Rightarrow> bool"
  for is_email is_url where
  init: "reachable is_email is_url init_state"
| step: "reachable is_email is_url s \<Longrightarrow> reachable is_email is_url (snd (app_step is_email is_url s r))"

section \<open>Lemmas\<close>

lemma read_only_store:
  "store (snd (landing s)) = store s" "store (snd (logout s)) = store s"
  "store (snd (home s t a)) = store s" "store (snd (profile s i)) = store s"
  "store (snd (me s)) = store s" "store (snd (network s q t a)) = store s"
  "store (snd (post_detail s i)) = store s" "store (snd (clear_session s)) = store s"
  "store (snd (login is_email nx s f)) = store s"
  by (auto simp: landing_def logout_def home_def profile_def me_def network_def post_detail_def
                 clear_session_def login_def login_required_def logout_user_def login_user_def flash_def Let_def
           split: option.splits bool.splits)

lemma app_step_db_inv:
  assumes "db_inv (store s)"
  shows "db_inv (store (snd (app_step is_email is_url s r)))"
  using assms
  by (cases r) (simp_all add: read_only_store register_db_inv edit_profile_db_inv new_post_db_inv
                  edit_post_db_inv delete_post_db_inv add_comment_db_inv edit_comment_db_inv
                  delete_comment_db_inv toggle_like_db_inv)

lemma empty_db_inv: "db_inv empty_db"
  by (simp add: empty_db_def db_inv_def constraints_ok_def refs_ok_def like_counts_ok_def)

section \<open>Properties\<close>

text \<open>
  C1. The stored data stays consistent in every reachable state (spec \<section>3): whatever
  sequence of requests the application serves from an empty database, the keys and the
  UNIQUE and NOT NULL columns are respected, every foreign key names an existing row, at
  most one like exists per (member, post) and each post's \<open>likes_count\<close> equals the
  number of its likes.
\<close>

theorem reachable_db_inv:
  assumes "reachable is_email is_url s"
  shows "db_inv (store s)"
  using assms
proof (induction rule: reachable.induct)
  case init
  then show ?case by (simp add: init_state_def empty_db_inv)
next
  case (step s r)
  from step.IH show ?case by (rule app_step_db_inv)
qed

lemma reachable_db_inv_witness:
  "reachable has_at (\<lambda>_. True)
     (snd (app_step has_at (\<lambda>_. True) init_state (RRegister 5 ''c0'' ''p0'' (Some carol_form)))) \<and>
   db_inv (store (snd (app_step has_at (\<lambda>_. True) init_state (RRegister 5 ''c0'' ''p0'' (Some carol_form)))))"
proof -
  have h: "reachable has_at (\<lambda>_. True)
             (snd (app_step has_at (\<lambda>_. True) init_state (RRegister 5 ''c0'' ''p0'' (Some carol_form))))"
    by (rule reachable.step[OF reachable.init])
  show ?thesis using h reachable_db_inv[OF h] by blast
qed

end
