(* ===== verification/Columns.thy ===== *)
theory Columns
  imports App
begin

text \<open>
  The declared widths of the string columns of \<open>src/Sky_Hub_Project/models.py\<close>
  (\<open>String(n)\<close>): \<open>username\<close> 50, \<open>email\<close> 120, \<open>track\<close> 50,
  \<open>skills\<close> 200, \<open>phone_number\<close> 20, \<open>Post.title\<close> 200. SQLite does not
  enforce them, so that the stored values fit is a property of the routes: the form
  validators bound what \<open>register\<close>, \<open>edit_profile\<close>, \<open>new_post\<close> and
  \<open>edit_post\<close> write. \<open>write_fits\<close> says what a staged write must satisfy.
\<close>

section \<open>Column widths\<close>

definition opt_fits :: "nat \<Rightarrow> string option \<Rightarrow> bool" where
  "opt_fits n x = (case x of None \<Rightarrow> True | Some v \<Rightarrow> length v \<le> n)"

definition user_fits :: "user \<Rightarrow> bool" where
  "user_fits u \<longleftrightarrow> length (username u) \<le> 50 \<and> length (email u) \<le> 120 \<and> opt_fits 50 (track u) \<and>
                   opt_fits 200 (skills u) \<and> opt_fits 20 (phone_number u)"

definition post_fits :: "post \<Rightarrow> bool" where
  "post_fits p \<longleftrightarrow> opt_fits 200 (title p)"

definition columns_fit :: "db \<Rightarrow> bool" where
  "columns_fit d \<longleftrightarrow> list_all user_fits (users d) \<and> list_all post_fits (posts d)"

fun write_fits :: "db_write \<Rightarrow> bool" where
  "write_fits (InsertUser u) = user_fits u"
| "write_fits (UpdateUser i f) = (\<forall>x. user_fits x \<longrightarrow> user_fits (f x))"
| "write_fits (InsertPost p) = post_fits p"
| "write_fits (UpdatePost i f) = (\<forall>q. post_fits q \<longrightarrow> post_fits (f q))"
| "write_fits _ = True"

section \<open>Lemmas\<close>

lemma apply_write_fits:
  "apply_write d w = Inr d' \<Longrightarrow> columns_fit d \<Longrightarrow> write_fits w \<Longrightarrow> columns_fit d'"
  by (cases w)
     (auto simp: columns_fit_def list_all_iff set_update_where drop_post_def drop_user_def Let_def
                 user_fits_def post_fits_def Let_def split: if_splits)

lemma flush_fits:
  "flush d ws = Inr d' \<Longrightarrow> columns_fit d \<Longrightarrow> list_all write_fits ws \<Longrightarrow> columns_fit d'"
proof (induction ws arbitrary: d)
  case Nil
  then show ?case by simp
next
  case (Cons w ws)
  then show ?case by (auto split: sum.splits dest: apply_write_fits)
qed

lemma commit_fits:
  "commit d ws = Inr d' \<Longrightarrow> columns_fit d \<Longrightarrow> list_all write_fits ws \<Longrightarrow> columns_fit d'"
  by (auto simp: commit_Inr intro: flush_fits)

lemma track_choice_len: "t \<in> set ([] # track_choices) \<Longrightarrow> length t \<le> 50"
  by (auto simp: track_choices_def)

lemma post_form_title_len:
  assumes "post_form_ok f" and "strip_filter (pf_title f) = Some v"
  shows "length v \<le> 200"
proof (cases "py_strip (pf_title f) = []")
  case True
  then show ?thesis using assms(2) by (simp add: strip_filter_def Let_def split: if_splits)
next
  case False
  then show ?thesis using assms by (auto simp: post_form_ok_def optional_then_def length_ok_def strip_filter_def)
qed

lemma required_len:
  "data_required (strip_filter r) \<Longrightarrow> length_ok mn (int n) (strip_filter r) \<Longrightarrow>
   length (the (strip_filter r)) \<le> n"
  by (auto simp: data_required_def length_ok_def strip_filter_def Let_def split: if_splits)

lemma opt_len: "length_ok mn (int n) (strip_filter r) \<Longrightarrow> opt_fits n (strip_filter r)"
  by (auto simp: length_ok_def strip_filter_def opt_fits_def Let_def split: if_splits)

lemma optional_len:
  "optional_then r (length_ok mn (int n) (strip_filter r)) \<Longrightarrow> opt_fits n (py_or_none (strip_filter r))"
  by (auto simp: optional_then_def length_ok_def strip_filter_def opt_fits_def py_or_none_def Let_def split: if_splits)

lemma registration_fits:
  assumes ok: "registration_form_ok is_email f"
  shows "user_fits (set_password salt pw
           \<lparr>u_id = i, username = the (strip_filter (rf_username f)), email = the (strip_filter (rf_email f)),
            password_hash = h, track = Some (rf_track f), skills = strip_filter (rf_skills f),
            available_for_project = a, github_link = g, portfolio_link = pl, linkedin_link = l,
            phone_number = None, cv_file = c, profile_image = p\<rparr>)"
proof -
  have "length (the (strip_filter (rf_username f))) \<le> 50" "length (the (strip_filter (rf_email f))) \<le> 120"
    "opt_fits 200 (strip_filter (rf_skills f))" "length (rf_track f) \<le> 50"
    using ok required_len[of "rf_username f" 3 50] required_len[of "rf_email f" 0 120]
          opt_len[of 0 200 "rf_skills f"] track_choice_len[of "rf_track f"]
    by (simp_all add: registration_form_ok_def)
  then show ?thesis by (simp add: user_fits_def set_password_def opt_fits_def)
qed

lemma profile_update_fits:
  assumes ok: "profile_form_ok is_email is_url f"
  shows "user_fits (profile_update f c p x)"
proof -
  have "length (the (strip_filter (ef_username f))) \<le> 50" "length (the (strip_filter (ef_email f))) \<le> 120"
    "opt_fits 200 (strip_filter (ef_skills f))" "length (ef_track f) \<le> 50"
    "opt_fits 20 (py_or_none (strip_filter (ef_phone f)))"
    using ok required_len[of "ef_username f" 3 50] required_len[of "ef_email f" 0 120]
          opt_len[of 0 200 "ef_skills f"] track_choice_len[of "ef_track f"] optional_len[of "ef_phone f" 7 20]
    by (simp_all add: profile_form_ok_def)
  then show ?thesis by (simp add: user_fits_def profile_update_def opt_fits_def)
qed

lemma register_fits:
  "columns_fit (store s) \<Longrightarrow> columns_fit (store (snd (register salt cv_hex pic_hex is_email s req)))"
  by (auto simp: register_def Let_def registration_fits split: option.splits if_splits sum.splits prod.splits
           dest!: save_cv_store_eq save_picture_store_eq elim!: commit_fits)

lemma edit_profile_fits:
  "columns_fit (store s) \<Longrightarrow> columns_fit (store (snd (edit_profile cv_hex pic_hex is_email is_url s req)))"
  by (auto simp: edit_profile_def login_required_def Let_def profile_update_fits
           split: option.splits if_splits sum.splits prod.splits
           dest!: save_cv_store_eq save_picture_store_eq elim!: commit_fits)

lemma new_title_len:
  assumes "post_form_ok f"
  shows "length (auto_title (strip_filter (pf_title f)) (strip_filter (pf_content f))) \<le> 200"
proof -
  have "length (py_or_str (strip_filter (pf_title f)) []) \<le> 200"
    using post_form_title_len[OF assms] by (auto simp: py_or_str_def split: option.splits)
  then show ?thesis
    using auto_title_length[of "strip_filter (pf_title f)" "strip_filter (pf_content f)"] by simp
qed

lemma plan_fits: "list_all write_fits (fst (toggle_like_plan d u p now))"
  by (simp add: toggle_like_plan_def post_fits_def split: option.splits)

lemma plan_fits_eq: "toggle_like_plan d u p now = (ws, c, m) \<Longrightarrow> list_all write_fits ws"
  using plan_fits[of d u p now] by simp

lemma edit_title_fits: "post_form_ok f \<Longrightarrow> opt_fits 200 (strip_filter (pf_title f))"
  using post_form_title_len[of f] by (auto simp: opt_fits_def split: option.splits)

lemma new_post_fits:
  "columns_fit (store s) \<Longrightarrow> columns_fit (store (snd (new_post s req now)))"
  by (auto simp: new_post_def login_required_def Let_def post_fits_def opt_fits_def new_title_len
           split: option.splits if_splits sum.splits prod.splits
           dest!: save_opt_store elim!: commit_fits)

lemma edit_post_fits:
  "columns_fit (store s) \<Longrightarrow> columns_fit (store (snd (edit_post s i req)))"
  by (auto simp: edit_post_def login_required_def Let_def post_fits_def edit_title_fits
           split: option.splits if_splits sum.splits prod.splits
           dest!: save_opt_store elim!: commit_fits)

lemma content_writes_fit:
  "columns_fit (store s) \<Longrightarrow> columns_fit (store (snd (delete_post s i)))"
  "columns_fit (store s) \<Longrightarrow> columns_fit (store (snd (add_comment s i cf now)))"
  "columns_fit (store s) \<Longrightarrow> columns_fit (store (snd (edit_comment s j creq)))"
  "columns_fit (store s) \<Longrightarrow> columns_fit (store (snd (delete_comment s j)))"
  by (auto simp: delete_post_def add_comment_def edit_comment_def delete_comment_def login_required_def
           split: option.splits if_splits sum.splits elim!: commit_fits)

lemma toggle_like_fits:
  "columns_fit (store s) \<Longrightarrow> columns_fit (store (snd (toggle_like s i now)))"
  by (auto simp: toggle_like_def login_required_def Let_def flash_def
           split: option.splits sum.splits prod.splits db_error.splits dest!: plan_fits_eq elim!: commit_fits)

lemma app_step_fits:
  "columns_fit (store s) \<Longrightarrow> columns_fit (store (snd (app_step is_email is_url s r)))"
  by (cases r) (simp_all add: read_only_store register_fits edit_profile_fits new_post_fits edit_post_fits
                              content_writes_fit toggle_like_fits)

section \<open>Properties\<close>

text \<open>
  C31. Stored strings fit their declared column types in every reachable state: every
  username has at most 50 characters, every e-mail at most 120, every track at most 50,
  every skills text at most 200, every phone number at most 20, and every post title
  at most 200, whatever sequence of requests the application served.
\<close>

theorem reachable_columns_fit:
  assumes "reachable is_email is_url s"
  shows "columns_fit (store s)"
  using assms
proof (induction rule: reachable.induct)
  case init
  then show ?case by (simp add: init_state_def empty_db_def columns_fit_def)
next
  case (step s r)
  from step.IH show ?case by (rule app_step_fits)
qed

lemma reachable_columns_fit_witness:
  "reachable has_at (\<lambda>_. True)
     (snd (app_step has_at (\<lambda>_. True)
        (snd (app_step has_at (\<lambda>_. True) init_state (RRegister 5 ''c0'' ''p0'' (Some carol_form)))) RLanding)) \<and>
   columns_fit (store (snd (app_step has_at (\<lambda>_. True)
        (snd (app_step has_at (\<lambda>_. True) init_state (RRegister 5 ''c0'' ''p0'' (Some carol_form)))) RLanding)))"
proof -
  have h: "reachable has_at (\<lambda>_. True)
     (snd (app_step has_at (\<lambda>_. True)
        (snd (app_step has_at (\<lambda>_. True) init_state (RRegister 5 ''c0'' ''p0'' (Some carol_form)))) RLanding))"
    by (rule reachable.step[OF reachable.step[OF reachable.init]])
  show ?thesis using h reachable_columns_fit[OF h] by blast
qed

end
