(* ===== verification/Liveness.thy ===== *)
theory Liveness
  imports Columns
begin

text \<open>
  Liveness of sign-in: every member of a reachable state can sign in with the e-mail
  and password they registered with. \<open>login_ready\<close> says that a user row passes
  \<open>LoginForm\<close>'s validators when its own e-mail and password are typed in; every
  route that writes users (\<open>register\<close>, \<open>edit_profile\<close>) keeps it, the others
  leave the users table unchanged.
\<close>

section \<open>Definitions\<close>

definition pw_nonblank :: "pwhash \<Rightarrow> bool" where
  "pw_nonblank h = (case h of PwHash salt pw \<Rightarrow> py_strip pw \<noteq> [])"

definition login_ready :: "(string \<Rightarrow> bool) \<Rightarrow> user \<Rightarrow> bool" where
  "login_ready is_email u \<longleftrightarrow>
     email u \<noteq> [] \<and> py_strip (email u) = email u \<and> is_email (email u) \<and> length (email u) \<le> 120 \<and>
     (case password_hash u of None \<Rightarrow> False | Some h \<Rightarrow> pw_nonblank h)"

fun user_write :: "db_write \<Rightarrow> bool" where
  "user_write (InsertUser u) = True"
| "user_write (UpdateUser i f) = True"
| "user_write (DeleteUser i) = True"
| "user_write _ = False"

section \<open>Lemmas\<close>

lemma dropWhile_idem [simp]: "dropWhile P (dropWhile P xs) = dropWhile P xs"
  by (induction xs) auto

lemma py_strip_idem [simp]: "py_strip (py_strip s) = py_strip s"
proof -
  let ?x = "py_lstrip s"
  have r: "py_rstrip (py_rstrip ?x) = py_rstrip ?x" by (simp add: py_rstrip_def)
  have "py_lstrip (py_rstrip ?x) = py_rstrip ?x"
  proof (cases "py_rstrip ?x")
    case Nil
    then show ?thesis by (simp add: py_lstrip_def)
  next
    case (Cons c cs)
    have "prefix (py_rstrip ?x) ?x" by (rule py_rstrip_prefix)
    then have "hd ?x = c" using Cons by (auto simp: prefix_def)
    moreover have "?x \<noteq> []" using Cons \<open>prefix (py_rstrip ?x) ?x\<close> by (auto simp: prefix_def)
    ultimately have "\<not> is_py_space c" using hd_dropWhile[of is_py_space s] by (simp add: py_lstrip_def)
    then show ?thesis using Cons by (simp add: py_lstrip_def)
  qed
  then show ?thesis using r by (simp add: py_strip_def)
qed

lemma flush_users:
  "flush d ws = Inr d' \<Longrightarrow> \<not> list_ex user_write ws \<Longrightarrow> users d' = users d"
proof (induction ws arbitrary: d)
  case (Cons w ws)
  then show ?case by (cases w) (auto simp: drop_post_def split: if_splits)
qed simp

lemma commit_users:
  "commit d ws = Inr d' \<Longrightarrow> \<not> list_ex user_write ws \<Longrightarrow> users d' = users d"
  by (auto simp: commit_Inr intro: flush_users)

lemma content_users:
  "users (store (snd (new_post s req now))) = users (store s)"
  "users (store (snd (edit_post s i preq))) = users (store s)"
  "users (store (snd (delete_post s i))) = users (store s)"
  "users (store (snd (add_comment s i cf now))) = users (store s)"
  "users (store (snd (edit_comment s j creq))) = users (store s)"
  "users (store (snd (delete_comment s j))) = users (store s)"
  by (auto simp: new_post_def edit_post_def delete_post_def add_comment_def edit_comment_def
                 delete_comment_def login_required_def Let_def
           split: option.splits if_splits sum.splits prod.splits
           dest!: save_opt_store elim!: commit_users)

lemma login_ready_id [simp]: "login_ready is_email (u\<lparr>u_id := k\<rparr>) = login_ready is_email u"
  by (simp add: login_ready_def)

lemma commit_insert_user:
  "commit d [InsertUser u] = Inr d' \<Longrightarrow> users d' = users d @ [u\<lparr>u_id := fresh_id (map u_id (users d))\<rparr>]"
  by (auto simp: commit_single)

lemma commit_update_user:
  "commit d [UpdateUser i g] = Inr d' \<Longrightarrow> (\<And>x. u_id (g x) = u_id x) \<Longrightarrow>
   users d' = update_where (\<lambda>x. u_id x = i) g (users d)"
proof -
  assume c: "commit d [UpdateUser i g] = Inr d'" and k: "\<And>x. u_id (g x) = u_id x"
  from c have a: "apply_write d (UpdateUser i g) = Inr d'" by (simp add: commit_single)
  then have "i \<in> u_id ` set (users d)" by (auto split: if_splits)
  with a apply_update_user[of g i d, OF k] show ?thesis by simp
qed

lemma commit_profile_update:
  "commit d [UpdateUser i (profile_update f c p)] = Inr d' \<Longrightarrow>
   users d' = update_where (\<lambda>x. u_id x = i) (profile_update f c p) (users d)"
  by (rule commit_update_user) simp_all

lemma registration_ready:
  assumes ok: "registration_form_ok is_email f"
  shows "login_ready is_email (set_password salt (rf_password f)
           \<lparr>u_id = i, username = un, email = the (strip_filter (rf_email f)),
            password_hash = h, track = tr, skills = sk, available_for_project = a, github_link = g,
            portfolio_link = pl, linkedin_link = l, phone_number = ph, cv_file = c, profile_image = p\<rparr>)"
  using ok
  by (auto simp: registration_form_ok_def login_ready_def set_password_def generate_password_hash_def
                 pw_nonblank_def data_required_def strip_filter_def length_ok_def Let_def split: if_splits)

lemma profile_ready:
  assumes ok: "profile_form_ok is_email is_url f" and r: "login_ready is_email x"
  shows "login_ready is_email (profile_update f c p x)"
  using ok r
  by (auto simp: profile_form_ok_def login_ready_def profile_update_def data_required_def
                 strip_filter_def length_ok_def Let_def split: if_splits)

lemma register_ready:
  "list_all (login_ready is_email) (users (store s)) \<Longrightarrow>
   list_all (login_ready is_email) (users (store (snd (register salt cv_hex pic_hex is_email s req))))"
  by (auto simp: register_def Let_def registration_ready split: option.splits if_splits sum.splits prod.splits
           dest!: save_cv_store_eq save_picture_store_eq commit_insert_user)

lemma ready_update:
  "list_all (login_ready is_email) xs \<Longrightarrow> profile_form_ok is_email is_url f \<Longrightarrow>
   list_all (login_ready is_email) (update_where Q (profile_update f c p) xs)"
  by (auto simp: list_all_iff set_update_where profile_ready)

lemma edit_profile_ready:
  "list_all (login_ready is_email) (users (store s)) \<Longrightarrow>
   list_all (login_ready is_email) (users (store (snd (edit_profile cv_hex pic_hex is_email is_url s req))))"
  by (auto simp: edit_profile_def login_required_def Let_def ready_update
           split: option.splits if_splits sum.splits prod.splits
           dest!: save_cv_store_eq save_picture_store_eq commit_profile_update)

lemma app_step_ready:
  assumes inv: "db_inv (store s)" and r: "list_all (login_ready is_email) (users (store s))"
  shows "list_all (login_ready is_email) (users (store (snd (app_step is_email is_url s req))))"
  using assms
  by (cases req) (simp_all add: read_only_store content_users register_ready edit_profile_ready toggle_like_frame)

lemma reachable_ready:
  "reachable is_email is_url s \<Longrightarrow> db_inv (store s) \<and> list_all (login_ready is_email) (users (store s))"
proof (induction rule: reachable.induct)
  case init
  then show ?case by (simp add: init_state_def empty_db_inv) (simp add: empty_db_def)
next
  case (step s r)
  then show ?case using app_step_db_inv app_step_ready by blast
qed

section \<open>Properties\<close>

text \<open>C34. Liveness of sign-in: in every reachable state, a member who clears the session
  and submits the login form with their own e-mail and the password they chose is
  signed in as that member.\<close>

theorem member_can_sign_in:
  assumes reach: "reachable is_email is_url s" and uin: "u \<in> set (users (store s))"
    and pw: "password_hash u = Some (PwHash salt pw)"
  shows "load_user (snd (app_step is_email is_url (snd (app_step is_email is_url s RClearSession))
            (RLogin None (Some \<lparr>lf_email = email u, lf_password = pw, lf_csrf = True\<rparr>)))) = Some u"
proof -
  have inv: "db_inv (store s)" and rd: "login_ready is_email u"
    using reachable_ready[OF reach] uin by (auto simp: list_all_iff)
  let ?s0 = "snd (app_step is_email is_url s RClearSession)"
  let ?f = "\<lparr>lf_email = email u, lf_password = pw, lf_csrf = True\<rparr>"
  have s0: "store ?s0 = store s" "load_user ?s0 = None"
    by (simp_all add: clear_session_def flash_def load_user_def)
  have ok: "login_form_ok is_email ?f"
    using rd pw by (simp add: login_form_ok_def login_ready_def pw_nonblank_def data_required_def
                              strip_filter_def length_ok_def)
  have co: "constraints_ok (store s)" using db_invD(1)[OF inv] .
  have e: "user_by_email (store ?s0) (the (strip_filter (lf_email ?f))) = Some u"
    using rd uin find_key_Some[of email "users (store s)" "email u" u] co s0(1)
    by (simp add: user_by_email_def strip_filter_def login_ready_def constraints_ok_def)
  have c: "check_password u (lf_password ?f) = Some True"
    using pw by (simp add: check_password_def generate_password_hash_def)
  have "login is_email None ?s0 (Some ?f) =
          (Redirect (login_target None), flash ''success'' (''Welcome back, '' @ username u @ ''!'') (login_user u ?s0))"
    using login_known[OF s0(2) ok e] c by simp
  moreover have "find_user (store s) (u_id u) = Some u"
    using uin find_key_Some[of u_id "users (store s)" "u_id u" u] co by (simp add: find_user_def constraints_ok_def)
  ultimately show ?thesis using s0(1) by (simp add: load_user_def login_user_def flash_def)
qed

lemma member_can_sign_in_witness:
  "load_user (snd (app_step has_at (\<lambda>_. True)
      (snd (app_step has_at (\<lambda>_. True)
         (snd (app_step has_at (\<lambda>_. True) init_state (RRegister 5 ''c0'' ''p0'' (Some carol_form))))
         RClearSession))
      (RLogin None (Some \<lparr>lf_email = ''carol@uni.edu'', lf_password = ''pass123'', lf_csrf = True\<rparr>)))) =
   Some \<lparr>u_id = 1, username = ''carol'', email = ''carol@uni.edu'',
     password_hash = Some (PwHash 5 ''pass123''), track = Some ''Data Science'', skills = Some ''ML'',
     available_for_project = True, github_link = None, portfolio_link = None, linkedin_link = None,
     phone_number = None, cv_file = None, profile_image = ''default_profile.png''\<rparr>"
proof -
  let ?s1 = "snd (app_step has_at (\<lambda>_. True) init_state (RRegister 5 ''c0'' ''p0'' (Some carol_form)))"
  let ?u = "\<lparr>u_id = 1, username = ''carol'', email = ''carol@uni.edu'',
     password_hash = Some (PwHash 5 ''pass123''), track = Some ''Data Science'', skills = Some ''ML'',
     available_for_project = True, github_link = None, portfolio_link = None, linkedin_link = None,
     phone_number = None, cv_file = None, profile_image = ''default_profile.png''\<rparr>"
  have r: "reachable has_at (\<lambda>_. True) ?s1" by (rule reachable.step[OF reachable.init])
  have m: "?u \<in> set (users (store ?s1))" by code_simp
  show ?thesis using member_can_sign_in[OF r m, of 5 "''pass123''"] by simp
qed

end
