(* ===== verification/Traces.thy ===== *)
theory Traces
  imports App
begin

text \<open>
  Requests served one after another. \<open>run_requests\<close> folds Flask's dispatch
  \<open>app_step\<close> over a list of requests; \<open>member_operation\<close> marks the requests
  for which the spec names an acting member. The theorems here are about sequences
  and about every route at once.
\<close>

section \<open>Definitions\<close>

definition run_requests ::
  "(string \<Rightarrow> bool) \<Rightarrow> (string \<Rightarrow> bool) \<Rightarrow> app_state \<Rightarrow> request list \<Rightarrow> app_state" where
  "run_requests is_email is_url s rs = foldl (\<lambda>s r. snd (app_step is_email is_url s r)) s rs"

text \<open>
  The operations for which the spec names an acting member: \<open>create_post(author, ...)\<close>,
  \<open>edit_post(post, editor, ...)\<close>, \<open>delete_post(post, actor)\<close>,
  \<open>add_comment(post, author, ...)\<close>, \<open>edit_comment\<close>, \<open>delete_comment\<close>
  (\<section>4.3), \<open>toggle_like(member, post)\<close> (\<section>4.4), \<open>discover(..., excluding
  member_id)\<close> (\<section>4.5), and the profile edit, by its owner only (\<section>3).
\<close>

fun member_operation :: "request \<Rightarrow> bool" where
  "member_operation (RNewPost f now) = True"
| "member_operation (REditPost i f) = True"
| "member_operation (RDeletePost i) = True"
| "member_operation (RAddComment i f now) = True"
| "member_operation (REditComment j f) = True"
| "member_operation (RDeleteComment j) = True"
| "member_operation (RToggleLike i now) = True"
| "member_operation (RNetwork q tf af) = True"
| "member_operation (REditProfile cv_hex pic_hex f) = True"
| "member_operation _ = False"

section \<open>Lemmas\<close>

lemma run_requests_Nil [simp]: "run_requests is_email is_url s [] = s"
  by (simp add: run_requests_def)

lemma run_requests_Cons [simp]:
  "run_requests is_email is_url s (r # rs) = run_requests is_email is_url (snd (app_step is_email is_url s r)) rs"
  by (simp add: run_requests_def)

lemma toggle_seq:
  assumes "db_inv (store s)" and "load_user s = Some u" and "find_post (store s) i = Some p"
  shows "db_inv (store (run_requests is_email is_url s (map (RToggleLike i) ts))) \<and>
         load_user (run_requests is_email is_url s (map (RToggleLike i) ts)) = Some u \<and>
         (find_like (store (run_requests is_email is_url s (map (RToggleLike i) ts))) (u_id u) i = None
            \<longleftrightarrow> (find_like (store s) (u_id u) i = None) = even (length ts)) \<and>
         map_option likes_count (find_post (store (run_requests is_email is_url s (map (RToggleLike i) ts))) i) =
           Some (likes_count p + (if even (length ts) then 0
                                  else if find_like (store s) (u_id u) i = None then 1 else -1))"
  using assms
proof (induction ts arbitrary: s p)
  case Nil
  then show ?case by simp
next
  case (Cons t ts)
  let ?s1 = "snd (toggle_like s i t)"
  note st = toggle_like_step[OF Cons.prems, of t]
  obtain p1 where fp1: "find_post (store ?s1) i = Some p1"
    and c1: "likes_count p1 = (if find_like (store s) (u_id u) i = None then likes_count p + 1 else likes_count p - 1)"
    using st by (cases "find_post (store ?s1) i") auto
  note ih = Cons.IH[OF toggle_like_db_inv[OF Cons.prems(1)]
                     trans[OF toggle_like_load_user[OF Cons.prems(1)] Cons.prems(2)] fp1]
  show ?case using ih st c1 by (auto simp: split: if_splits)
qed

section \<open>Properties\<close>

text \<open>
  C35. Toggling is a parity (spec \<section>8): a signed-in member who has not liked an
  existing post of a consistent database and sends any number of like requests for it
  in a row ends with the like present exactly when the number is odd, and the post's
  counter one above its start after an odd number, back at its start after an even one.
\<close>

theorem toggle_parity:
  assumes "db_inv (store s)" and "load_user s = Some u" and "find_post (store s) i = Some p"
    and "find_like (store s) (u_id u) i = None"
  shows "(find_like (store (run_requests is_email is_url s (map (RToggleLike i) ts))) (u_id u) i \<noteq> None
            \<longleftrightarrow> odd (length ts)) \<and>
         map_option likes_count (find_post (store (run_requests is_email is_url s (map (RToggleLike i) ts))) i) =
           Some (likes_count p + (if odd (length ts) then 1 else 0))"
  using toggle_seq[OF assms(1-3), of is_email is_url ts] assms(4) by auto

lemma toggle_parity_witness:
  "find_like (store (run_requests has_at (\<lambda>_. True) (signed_in 2) (map (RToggleLike 1) [1, 2, 3]))) (u_id bob) 1 \<noteq> None \<and>
   map_option likes_count (find_post (store (run_requests has_at (\<lambda>_. True) (signed_in 2) (map (RToggleLike 1) [1, 2, 3]))) 1) =
     Some (likes_count hello_post + 1)"
proof -
  have h: "db_inv (store (signed_in 2))" "load_user (signed_in 2) = Some bob"
    "find_post (store (signed_in 2)) 1 = Some hello_post" "find_like (store (signed_in 2)) (u_id bob) 1 = None"
    by (simp_all only: signed_in_store demo_db_inv signed_in_load_user demo_find_post demo_no_likes)
  show ?thesis using toggle_parity[OF h, of has_at "\<lambda>_. True" "[1, 2, 3]"] by simp
qed

text \<open>
  C36. No operation that the spec performs for a member can be run anonymously: a request
  for one of them without a signed-in member is redirected to the login page with the
  login message flashed, and changes nothing else, neither the database, nor the session,
  nor the files on disk.
\<close>

theorem anonymous_redirected:
  assumes "load_user s = None" and "member_operation r"
  shows "app_step is_email is_url s r =
           (Redirect LoginPage, flash ''info'' ''Please log in to access CS Community.'' s)"
  using assms
  by (cases r) (simp_all add: login_required_def network_def edit_profile_def new_post_def
                  edit_post_def delete_post_def add_comment_def edit_comment_def delete_comment_def
                  toggle_like_def)

lemma anonymous_redirected_witness:
  "app_step has_at (\<lambda>_. True) init_state (RDeletePost 1) =
     (Redirect LoginPage, flash ''info'' ''Please log in to access CS Community.'' init_state)"
proof -
  have h: "load_user init_state = None" "member_operation (RDeletePost 1)"
    by (simp_all add: load_user_def init_state_def)
  show ?thesis using anonymous_redirected[OF h] .
qed

end
