(* ===== verification/Avatar.thy ===== *)
theory Avatar
  imports Uploads
begin

text \<open>
  \<open>src/Sky_Hub_Project/create_default_avatar.py\<close>, the one-off script that creates the
  placeholder picture \<open>static/uploads/profile_pics/default_profile.png\<close> which
  \<open>profile_image_url\<close> serves for members without a picture. The script creates the
  folder, then draws a head and shoulders with Pillow (\<open>make_with_pillow\<close>); when
  Pillow cannot be imported it writes an SVG drawing instead
  (\<open>make_with_svg_fallback\<close>). Pillow's \<open>Image.new\<close> and
  \<open>ImageDraw.ellipse\<close> are library code: a canvas is a square of pixels with a
  colour each, and an ellipse fills the pixels of the canvas whose integer coordinates lie
  in the closed ellipse inscribed in its bounding box (Pillow's rasteriser may differ by
  a pixel at the rim). Colours are the hex strings the script passes; the PNG encoder is
  not modelled, a written PNG file is the canvas itself.
\<close>

section \<open>Pillow's canvas\<close>

type_synonym colour = string

record canvas =
  c_size :: int
  c_pixel :: "int \<times> int \<Rightarrow> colour"

definition image_new :: "int \<Rightarrow> colour \<Rightarrow> canvas" where
  "image_new sz colour = \<lparr>c_size = sz, c_pixel = (\<lambda>_. colour)\<rparr>"

definition in_canvas :: "canvas \<Rightarrow> int \<times> int \<Rightarrow> bool" where
  "in_canvas img p \<longleftrightarrow> 0 \<le> fst p \<and> fst p < c_size img \<and> 0 \<le> snd p \<and> snd p < c_size img"

definition in_ellipse :: "int \<times> int \<times> int \<times> int \<Rightarrow> int \<times> int \<Rightarrow> bool" where
  "in_ellipse box p =
     (case box of (x0, y0, x1, y1) \<Rightarrow> case p of (x, y) \<Rightarrow>
        (2 * x - (x0 + x1))\<^sup>2 * (y1 - y0)\<^sup>2 + (2 * y - (y0 + y1))\<^sup>2 * (x1 - x0)\<^sup>2
          \<le> (x1 - x0)\<^sup>2 * (y1 - y0)\<^sup>2)"

definition draw_ellipse :: "canvas \<Rightarrow> int \<times> int \<times> int \<times> int \<Rightarrow> colour \<Rightarrow> canvas" where
  "draw_ellipse img box fill =
     img\<lparr>c_pixel := (\<lambda>p. if in_canvas img p \<and> in_ellipse box p then fill else c_pixel img p)\<rparr>"

section \<open>The script\<close>

text \<open>\<open>TARGET\<close>: the picture folder of the application and the default picture's name.\<close>

definition avatar_target :: filename where
  "avatar_target = picture_folder @ default_profile"

text \<open>The drawing of \<open>make_with_pillow\<close> (lines 14--32), before \<open>img.save\<close>.\<close>

definition pillow_avatar :: canvas where
  "pillow_avatar =
     (let sz = 200;
          img = image_new sz ''#e8edf5'';
          head_r = 42;
          cx = sz div 2;
          img = draw_ellipse img (cx - head_r, 55, cx + head_r, 55 + head_r * 2) ''#a0aec0'';
          body_r = 75;
          img = draw_ellipse img (cx - body_r, sz - 40, cx + body_r, sz + body_r) ''#a0aec0''
      in img)"

text \<open>The SVG text of \<open>make_with_svg_fallback\<close> (lines 38--42).\<close>

definition svg_text :: string where
  \<open>svg_text = py_join [CHR 0x0A]
     [''<svg xmlns="http://www.w3.org/2000/svg" width="200" height="200" viewBox="0 0 200 200">'',
      ''  <rect width="200" height="200" rx="100" fill="#e8edf5"/>'',
      ''  <circle cx="100" cy="80" r="40" fill="#a0aec0"/>'',
      ''  <ellipse cx="100" cy="200" rx="70" ry="55" fill="#a0aec0"/>'',
      ''</svg>'']\<close>

text \<open>
  \<open>str.replace(old, new)\<close> for a non-empty \<open>old\<close>: every occurrence, left to right,
  without overlaps.
\<close>

fun py_replace_str :: "string \<Rightarrow> string \<Rightarrow> string \<Rightarrow> string" where
  "py_replace_str old new [] = []"
| "py_replace_str old new (c # cs) =
     (if old \<noteq> [] \<and> take (length old) (c # cs) = old
      then new @ py_replace_str old new (drop (length old - 1) cs)
      else c # py_replace_str old new cs)"

text \<open>What the script leaves behind: the folders, the files and what it printed.\<close>

datatype avatar_file = PngFile canvas | SvgFile string

datatype console_line = Created filename | SvgFallbackCreated filename | InstallHint

record script_state =
  pillow_installed :: bool
  dirs :: "filename set"
  files :: "filename \<Rightarrow> avatar_file option"
  console :: "console_line list"

datatype script_error = ImportError

definition make_with_pillow :: "script_state \<Rightarrow> script_error + script_state" where
  "make_with_pillow st =
     (if \<not> pillow_installed st then Inl ImportError
      else Inr (st\<lparr>files := (files st)(avatar_target \<mapsto> PngFile pillow_avatar),
                   console := console st @ [Created avatar_target]\<rparr>))"

definition make_with_svg_fallback :: "script_state \<Rightarrow> script_state" where
  "make_with_svg_fallback st =
     (let svg_path = py_replace_str ''.png'' ''.svg'' avatar_target
      in st\<lparr>files := (files st)(svg_path \<mapsto> SvgFile svg_text),
            console := console st @ [SvgFallbackCreated svg_path, InstallHint]\<rparr>)"

text \<open>The \<open>__main__\<close> block (lines 49--54).\<close>

definition avatar_main :: "script_state \<Rightarrow> script_state" where
  "avatar_main st =
     (let st1 = st\<lparr>dirs := insert (butlast picture_folder) (dirs st)\<rparr>
      in case make_with_pillow st1 of
           Inr st2 \<Rightarrow> st2
         | Inl ImportError \<Rightarrow> make_with_svg_fallback st1)"

section \<open>Lemmas\<close>

lemma avatar_boxes:
  "pillow_avatar = draw_ellipse (draw_ellipse (image_new 200 ''#e8edf5'') (58, 55, 142, 139) ''#a0aec0'')
                     (25, 160, 175, 275) ''#a0aec0''"
  by (simp add: pillow_avatar_def)

lemma avatar_pixel:
  "c_size pillow_avatar = 200"
  "c_pixel pillow_avatar p =
     (if in_canvas pillow_avatar p \<and> (in_ellipse (58, 55, 142, 139) p \<or> in_ellipse (25, 160, 175, 275) p)
      then ''#a0aec0'' else ''#e8edf5'')"
  by (auto simp: avatar_boxes draw_ellipse_def image_new_def in_canvas_def)

lemma square_le_bound:
  fixes a b c :: int
  assumes "a\<^sup>2 * c\<^sup>2 \<le> b\<^sup>2 * c\<^sup>2" and "c \<noteq> 0" and "0 \<le> b"
  shows "- b \<le> a \<and> a \<le> b"
proof -
  have "a\<^sup>2 \<le> b\<^sup>2" using assms(1,2) by simp
  then have "\<bar>a\<bar> \<le> \<bar>b\<bar>" by (simp only: abs_le_square_iff)
  then show ?thesis using assms(3) by arith
qed

lemma in_ellipse_box:
  assumes "in_ellipse (x0, y0, x1, y1) (x, y)" and "x0 < x1" and "y0 < y1"
  shows "x0 \<le> x \<and> x \<le> x1 \<and> y0 \<le> y \<and> y \<le> y1"
proof -
  let ?u = "(2 * x - (x0 + x1))\<^sup>2 * (y1 - y0)\<^sup>2" and ?v = "(2 * y - (y0 + y1))\<^sup>2 * (x1 - x0)\<^sup>2"
  have e: "?u + ?v \<le> (x1 - x0)\<^sup>2 * (y1 - y0)\<^sup>2" using assms(1) by (simp add: in_ellipse_def)
  have u0: "0 \<le> ?u" and v0: "0 \<le> ?v" by simp_all
  have c: "(x1 - x0)\<^sup>2 * (y1 - y0)\<^sup>2 = (y1 - y0)\<^sup>2 * (x1 - x0)\<^sup>2" by (rule mult.commute)
  have u: "?u \<le> (x1 - x0)\<^sup>2 * (y1 - y0)\<^sup>2" using e v0 by linarith
  have v: "?v \<le> (y1 - y0)\<^sup>2 * (x1 - x0)\<^sup>2" using e u0 c by linarith
  have "- (x1 - x0) \<le> 2 * x - (x0 + x1) \<and> 2 * x - (x0 + x1) \<le> x1 - x0"
    using square_le_bound[OF u] assms(2,3) by simp
  moreover have "- (y1 - y0) \<le> 2 * y - (y0 + y1) \<and> 2 * y - (y0 + y1) \<le> y1 - y0"
    using square_le_bound[OF v] assms(2,3) by simp
  ultimately show ?thesis by arith
qed

lemma avatar_figure:
  "in_ellipse (58, 55, 142, 139) p \<Longrightarrow> in_canvas pillow_avatar p"
  "\<not> (in_ellipse (58, 55, 142, 139) p \<and> in_ellipse (25, 160, 175, 275) p)"
  by (cases p; auto simp: avatar_pixel in_canvas_def dest!: in_ellipse_box)+

lemma avatar_svg_path:
  "py_replace_str ''.png'' ''.svg'' avatar_target = picture_folder @ ''default_profile.svg''"
  by (simp add: avatar_target_def picture_folder_def default_profile_def)

lemma default_url_target: "drop 1 (profile_image_url None) = avatar_target"
  by (simp add: profile_image_url_def avatar_target_def picture_folder_def py_or_str_def)

section \<open>Properties\<close>

text \<open>
  C37. The default picture the application links to exists only when Pillow is
  installed: after the script, the file at the path of \<open>profile_image_url None\<close> is
  the drawn PNG when Pillow imports, and is left as it was otherwise, the SVG going to
  \<open>default_profile.svg\<close>, which no page links to (the script's docstring says it
  creates \<open>default_profile.png\<close>).
\<close>

theorem avatar_main_default:
  "files (avatar_main st) (drop 1 (profile_image_url None)) =
     (if pillow_installed st then Some (PngFile pillow_avatar)
      else files st (drop 1 (profile_image_url None))) \<and>
   files (avatar_main st) (picture_folder @ ''default_profile.svg'') =
     (if pillow_installed st then files st (picture_folder @ ''default_profile.svg'')
      else Some (SvgFile svg_text))"
  unfolding default_url_target
  by (simp add: avatar_main_def make_with_pillow_def make_with_svg_fallback_def Let_def
                avatar_svg_path avatar_target_def picture_folder_def default_profile_def)

end
