(* ===== verification/Spec2Isabelle.thy ===== *)
theory Spec2Isabelle
  imports Liveness Traces Avatar
begin

text \<open>
  \<^bold>\<open>A verification library for CS Community.\<close>
  CS Community (\<open>src/Sky_Hub_Project\<close>) is a Flask application over SQLAlchemy and
  SQLite: members register or sign in, edit a profile with a CV and a picture, publish
  posts with optional media, comment, like, and search the feed and the member list.
  A request passes \<open>@login_required\<close> (\<open>load_user\<close>), validates a WTForms form
  (\<open>forms.py\<close>), reads and changes the rows of \<open>models.py\<close> through the session's
  unit of work, writes uploads to disk, flashes a message and redirects or renders.

  \<^bold>\<open>Theories and what they model.\<close>
  \<^item> \<open>Prelude\<close>: Python's string operations used by the code (\<open>strip\<close>,
    \<open>lower\<close> on ASCII, \<open>replace\<close>, \<open>join\<close>, \<open>x or y\<close>), key allocation
    \<open>fresh_id\<close> (SQLite's \<open>max(rowid)+1\<close>) and the list lemmas the components share.
  \<^item> \<open>Models\<close> (\<open>models.py\<close>): the rows \<open>user\<close>, \<open>post\<close>, \<open>comment\<close>,
    \<open>like_row\<close> as records, the database \<open>db\<close> as four tables in insertion order,
    the methods of \<open>User\<close>, and the unit of work: a staged write \<open>db_write\<close>,
    \<open>apply_write\<close> with the ORM cascades \<open>drop_post\<close>/\<open>drop_user\<close>,
    \<open>flush\<close>, and \<open>commit\<close>, which checks the UNIQUE and NOT NULL constraints
    (\<open>constraints_ok\<close>) and fails with \<open>IntegrityError\<close>. SQLite does not enforce
    foreign keys, so \<open>refs_ok\<close> is an invariant, as is \<open>like_counts_ok\<close>; their
    conjunction is \<open>db_inv\<close>, and one lemma per kind of write shows it is kept.
  \<^item> \<open>Session\<close> (\<open>app.py\<close>): the request state \<open>app_state\<close> (database, the
    session's user id and OAuth nonce, flashed messages, the disk as a map from paths to
    contents), responses, \<open>load_user\<close>, \<open>login_required\<close>, \<open>logout\<close>,
    \<open>clear_session\<close>.
  \<^item> \<open>Forms\<close> (\<open>forms.py\<close>): every form as a record of its raw fields and
    \<open>*_form_ok\<close> as \<open>validate()\<close>; \<open>Email()\<close> and \<open>URL()\<close> are parameters.
  \<^item> \<open>Uploads\<close> (\<open>app.py\<close> 51--107): \<open>secure_filename\<close> and
    \<open>os.path.splitext\<close> after their library code, \<open>save_picture\<close>, \<open>save_cv\<close>,
    \<open>save_media\<close>.
  \<^item> \<open>Likes\<close>: \<open>toggle_like\<close> as a read phase \<open>toggle_like_plan\<close> and a commit;
    two concurrent requests as \<open>toggle_race\<close>, both plans read from one snapshot.
  \<^item> \<open>Posts\<close>: \<open>new_post\<close> (with \<open>auto_title\<close>), \<open>post_detail\<close>,
    \<open>edit_post\<close>, \<open>delete_post\<close>, \<open>add_comment\<close>, \<open>edit_comment\<close>,
    \<open>delete_comment\<close>.
  \<^item> \<open>Auth\<close>: \<open>landing\<close>, \<open>register\<close>, \<open>login\<close>, and \<open>oauth.py\<close>'s
    \<open>google_login\<close>, \<open>google_callback\<close> up to line 88, where the query on
    \<open>User.google_id\<close>, a column \<open>models.py\<close> does not declare, raises; the helpers
    \<open>_unique_username\<close> and \<open>_download_google_picture\<close>, which only the
    unreachable rest of the callback calls.
  \<^item> \<open>Queries\<close>: \<open>home\<close>, \<open>profile\<close>, \<open>me\<close>, \<open>network\<close>; SQLite's
    \<open>LIKE\<close> as \<open>like_match\<close>, \<open>ilike\<close> as \<open>lower(x) LIKE lower(y)\<close>.
  \<^item> \<open>Profiles\<close>: \<open>edit_profile\<close>.
  \<^item> \<open>App\<close>: one \<open>request\<close> per route, Flask's dispatch \<open>app_step\<close>, and the
    states \<open>reachable\<close> from the empty database.
  \<^item> \<open>Columns\<close>: the declared widths \<open>String(n)\<close> of the string columns as
    \<open>columns_fit\<close>, which SQLite does not enforce and the validators must.
  \<^item> \<open>Liveness\<close>: \<open>login_ready\<close>, that a stored member passes
    \<open>LoginForm\<close>'s validators with their own e-mail and password.
  \<^item> \<open>Traces\<close>: \<open>run_requests\<close>, requests served one after another, and
    \<open>member_operation\<close>, the requests for which the spec names an acting member.
  \<^item> \<open>Avatar\<close> (\<open>create_default_avatar.py\<close>): the script's folders, files and
    console as \<open>script_state\<close>, \<open>make_with_pillow\<close> drawing \<open>pillow_avatar\<close>
    on a Pillow canvas, \<open>make_with_svg_fallback\<close>, and \<open>avatar_main\<close> for the
    \<open>__main__\<close> block with its \<open>except ImportError\<close>. It shares the picture folder
    and the default picture's name with \<open>Uploads\<close>.
  Every handler has the signature of the route: the request state and the route's
  arguments in, the response and the new state out. Values the code draws at random
  (\<open>uuid4().hex\<close>, the password salt) or from the clock are arguments. An exception
  the route does not catch is \<open>Abort 500\<close> with the database rolled back; files
  already written stay on disk, as they do in the code.

  \<^bold>\<open>What the lemmas show.\<close>
  The database invariant holds in every reachable state (\<open>App\<close>), and so do the
  column widths (\<open>Columns\<close>), both by rule induction over \<open>reachable\<close>;
  so does \<open>login_ready\<close> for every member, whence a member of any reachable state
  can clear the session and sign in (\<open>Liveness\<close>). Over request sequences
  (\<open>Traces\<close>): like requests toggle with parity, and every operation the spec
  performs for a member turns an anonymous request away without effect. The avatar script draws a head
  inside the canvas and shoulders disjoint from it, and writes the default picture only
  when Pillow is installed (\<open>Avatar\<close>). For each route:
  its result on every branch that matters (success, 403, 404, validation failure,
  constraint violation), frame properties, and that it keeps the invariant. Like toggle:
  toggling twice restores the state, the counter never goes negative, and two
  concurrent toggles by different members lose an update. Identity: duplicate
  registration is refused, failed logins are indistinguishable, register-then-login
  signs in the new member. Queries: the feed refines its multiset specification and is
  sorted newest first, member search refines the spec's \<open>discover\<close> when the text has
  no wildcard, the profile's like total equals the number of likes. Uploaded media are
  written only to safe names in the upload folder. Findings are stated as theorems too: editing a
  post with an empty title and reusing a username in \<open>edit_profile\<close> end in
  server errors; \<open>next\<close> is followed unchecked; search wildcards are not escaped;
  \<open>_unique_username\<close> can return a taken name; the Google callback checks the ID
  token's nonce only once, since its first failure pops the nonce; without Pillow the avatar
  script leaves the default picture every member without one links to missing.

  \<^bold>\<open>Bounds and choices.\<close>
  No fuel is needed: every loop of the code is a structural recursion (\<open>like_match\<close>
  over the pattern and the text, the list traversals). Key allocation is unbounded
  (\<open>nat\<close>), as SQLite's 64-bit rowids are never exhausted by this application.
  Python's ints are \<open>int\<close>. \<open>ORDER BY\<close> is a stable sort; the theorems about
  ordering hold for any order of ties.

  \<^bold>\<open>Not modelled.\<close>
  Template rendering, Pillow's resizing in \<open>save_picture\<close>, the network side of the
  OAuth exchange and Authlib's signature checks are library I/O: the response records the
  template and the data it is given, the stored picture is the uploaded bytes, and the
  token exchange and the ID token's validity are inputs. In \<open>create_default_avatar.py\<close>,
  Pillow's rasteriser is idealised (a pixel is filled when its coordinates lie in the
  inscribed ellipse), the PNG encoder is not modelled (a written PNG is its canvas), the
  printed lines are their constructors, and errors other than \<open>ImportError\<close>
  (a failing write) are not modelled. \<open>LikeForm\<close> and \<open>DeleteForm\<close> are
  rendered but never validated by the routes that use them. Lines 89--118 of
  \<open>google_callback\<close> (find by Google id, link by e-mail, create a member) are not
  modelled: line 88 raises before them on every request, and the blueprint is not
  registered on the application anyway. Werkzeug's \<open>secure_filename\<close> normalises
  with NFKD before dropping non-ASCII characters; the model drops them without
  normalising (\<open>e\<close> with an accent is dropped, not turned into \<open>e\<close>). No loop of the code needs a
  termination argument beyond structural recursion: \<open>_unique_username\<close> tries once,
  and the string helpers (\<open>like_match\<close>, \<open>py_replace_str\<close>) are
  \<^theory_text>\<open>fun\<close>s whose termination Isabelle proves.
\<close>

end
